theory Spec2Isabelle
  imports Main
begin

section \<open>JavaScript values\<close>

text \<open>
  The gateway handles untyped JSON payloads and typed tool arguments. A JavaScript number
  is modelled as \<open>NaN\<close> or an integer: the identifiers, counts, page sizes and HTTP
  statuses of this program are integers (of magnitude below \<open>10^21\<close>, where JavaScript
  prints them in plain decimal). An object is an association list in property order with
  distinct keys. Strings are byte lists; all literals of the program are ASCII.
\<close>

datatype jsnum = NaN | Num int

datatype jsval =
    JUndefined
  | JNull
  | JBool bool
  | JNumber jsnum
  | JString string
  | JArray "jsval list"
  | JObject "(string \<times> jsval) list"

text \<open>Truthiness, as used by \<open>if (x)\<close>, \<open>x || y\<close> and \<open>!x\<close>.\<close>

fun truthy_num :: "jsnum \<Rightarrow> bool" where
  "truthy_num NaN = False"
| "truthy_num (Num n) = (n \<noteq> 0)"

fun truthy :: "jsval \<Rightarrow> bool" where
  "truthy JUndefined = False"
| "truthy JNull = False"
| "truthy (JBool b) = b"
| "truthy (JNumber n) = truthy_num n"
| "truthy (JString s) = (s \<noteq> [])"
| "truthy (JArray xs) = True"
| "truthy (JObject ps) = True"

text \<open>\<open>a || b\<close> on values.\<close>

definition js_or :: "jsval \<Rightarrow> jsval \<Rightarrow> jsval" where
  "js_or a b = (if truthy a then a else b)"

text \<open>An optional typed argument (\<open>x?: number\<close>, \<open>x?: string\<close>) is \<open>None\<close> when undefined.\<close>

definition truthy_onum :: "jsnum option \<Rightarrow> bool" where
  "truthy_onum x = (case x of None \<Rightarrow> False | Some n \<Rightarrow> truthy_num n)"

definition truthy_ostr :: "string option \<Rightarrow> bool" where
  "truthy_ostr x = (case x of None \<Rightarrow> False | Some s \<Rightarrow> s \<noteq> [])"

definition of_onum :: "jsnum option \<Rightarrow> jsval" where
  "of_onum x = (case x of None \<Rightarrow> JUndefined | Some n \<Rightarrow> JNumber n)"

subsection \<open>Conversion to strings (template literals)\<close>

definition digit_char :: "int \<Rightarrow> char" where
  "digit_char d =
     (if d = 0 then CHR ''0'' else if d = 1 then CHR ''1'' else if d = 2 then CHR ''2''
      else if d = 3 then CHR ''3'' else if d = 4 then CHR ''4'' else if d = 5 then CHR ''5''
      else if d = 6 then CHR ''6'' else if d = 7 then CHR ''7'' else if d = 8 then CHR ''8''
      else CHR ''9'')"

text \<open>The decimal digits of a non-negative integer.\<close>

function show_digits :: "int \<Rightarrow> string" where
  "show_digits i = (if i < 10 then [digit_char i]
                    else show_digits (i div 10) @ [digit_char (i mod 10)])"
  by pat_completeness auto
termination
  by (relation "measure nat") auto

declare show_digits.simps [simp del]

definition show_int :: "int \<Rightarrow> string" where
  "show_int i = (if i < 0 then ''-'' @ show_digits (- i) else show_digits i)"

definition show_nat :: "nat \<Rightarrow> string" where
  "show_nat n = show_digits (int n)"

fun show_num :: "jsnum \<Rightarrow> string" where
  "show_num NaN = ''NaN''"
| "show_num (Num i) = show_int i"

fun join :: "string \<Rightarrow> string list \<Rightarrow> string" where
  "join sep [] = []"
| "join sep [x] = x"
| "join sep (x # y # ys) = x @ sep @ join sep (y # ys)"

fun ToString :: "jsval \<Rightarrow> string" where
  "ToString JUndefined = ''undefined''"
| "ToString JNull = ''null''"
| "ToString (JBool b) = (if b then ''true'' else ''false'')"
| "ToString (JNumber n) = show_num n"
| "ToString (JString s) = s"
| "ToString (JArray xs) =
     join '','' (map (\<lambda>x. if x = JUndefined \<or> x = JNull then [] else ToString x) xs)"
| "ToString (JObject ps) = ''[object Object]''"

subsection \<open>Property access\<close>

text \<open>
  \<open>js_prop v k\<close> is \<open>v.k\<close> for a value that is neither null nor undefined, for the property
  names this program reads (none of them is a prototype member except \<open>length\<close>).
\<close>

fun js_prop :: "jsval \<Rightarrow> string \<Rightarrow> jsval" where
  "js_prop (JObject ps) k = (case map_of ps k of Some v \<Rightarrow> v | None \<Rightarrow> JUndefined)"
| "js_prop (JArray xs) k = (if k = ''length'' then JNumber (Num (int (length xs))) else JUndefined)"
| "js_prop (JString s) k = (if k = ''length'' then JNumber (Num (int (length s))) else JUndefined)"
| "js_prop v k = JUndefined"

text \<open>What a handler can throw: an \<open>Error\<close> with its message, or a \<open>TypeError\<close> raised by
  the engine, tagged with the expression that failed.\<close>

datatype thrown = Error string | TypeError string

definition nullish :: "jsval \<Rightarrow> bool" where
  "nullish v = (v = JUndefined \<or> v = JNull)"

definition get_prop :: "jsval \<Rightarrow> string \<Rightarrow> thrown + jsval" where
  "get_prop v k = (if nullish v then Inl (TypeError k) else Inr (js_prop v k))"

text \<open>Optional chaining \<open>v?.k\<close>.\<close>

definition opt_prop :: "jsval \<Rightarrow> string \<Rightarrow> jsval" where
  "opt_prop v k = (if nullish v then JUndefined else js_prop v k)"

subsection \<open>\<open>JSON.stringify\<close>\<close>

definition hex_digit :: "nat \<Rightarrow> char" where
  "hex_digit n = ''0123456789abcdef'' ! n"

definition quote_char :: "char \<Rightarrow> string" where
  "quote_char c =
     (let n = (of_char c :: nat) in
      if n = 8 then [CHR 0x5C, CHR ''b'']
      else if n = 9 then [CHR 0x5C, CHR ''t'']
      else if n = 10 then [CHR 0x5C, CHR ''n'']
      else if n = 12 then [CHR 0x5C, CHR ''f'']
      else if n = 13 then [CHR 0x5C, CHR ''r'']
      else if n = 34 then [CHR 0x5C, CHR 0x22]
      else if n = 92 then [CHR 0x5C, CHR 0x5C]
      else if n < 32 then [CHR 0x5C, CHR ''u'', CHR ''0'', CHR ''0'', hex_digit (n div 16), hex_digit (n mod 16)]
      else [c])"

definition quote :: "string \<Rightarrow> string" where
  "quote s = [CHR 0x22] @ concat (map quote_char s) @ [CHR 0x22]"

definition wrap :: "string \<Rightarrow> string \<Rightarrow> string \<Rightarrow> string \<Rightarrow> string list \<Rightarrow> string" where
  "wrap l r gap ind parts =
     (if parts = [] then l @ r
      else if gap = [] then l @ join '','' parts @ r
      else l @ [CHR 0x0A] @ ind @ gap @ join ('','' @ [CHR 0x0A] @ ind @ gap) parts
             @ [CHR 0x0A] @ ind @ r)"

text \<open>\<open>ser gap ind v\<close> serialises \<open>v\<close> at indentation \<open>ind\<close> with indentation unit
  \<open>gap\<close>; \<open>None\<close> is JavaScript's \<open>undefined\<close> result.\<close>

fun ser :: "string \<Rightarrow> string \<Rightarrow> jsval \<Rightarrow> string option"
  and ser_elems :: "string \<Rightarrow> string \<Rightarrow> jsval list \<Rightarrow> string list"
  and ser_members :: "string \<Rightarrow> string \<Rightarrow> (string \<times> jsval) list \<Rightarrow> string list"
where
  "ser gap ind JUndefined = None"
| "ser gap ind JNull = Some ''null''"
| "ser gap ind (JBool b) = Some (if b then ''true'' else ''false'')"
| "ser gap ind (JNumber NaN) = Some ''null''"
| "ser gap ind (JNumber (Num i)) = Some (show_int i)"
| "ser gap ind (JString s) = Some (quote s)"
| "ser gap ind (JArray xs) = Some (wrap ''['' '']'' gap ind (ser_elems gap (ind @ gap) xs))"
| "ser gap ind (JObject ps) = Some (wrap ''{'' ''}'' gap ind (ser_members gap (ind @ gap) ps))"
| "ser_elems gap ind [] = []"
| "ser_elems gap ind (x # xs) =
     (case ser gap ind x of None \<Rightarrow> ''null'' | Some s \<Rightarrow> s) # ser_elems gap ind xs"
| "ser_members gap ind [] = []"
| "ser_members gap ind (p # ps) =
     (case ser gap ind (snd p) of
        None \<Rightarrow> ser_members gap ind ps
      | Some s \<Rightarrow> (quote (fst p) @ '':'' @ (if gap = [] then [] else '' '') @ s)
                   # ser_members gap ind ps)"

text \<open>\<open>${JSON.stringify(v, null, 2)}\<close> and \<open>${JSON.stringify(v)}\<close> inside a template.\<close>

definition JSON_stringify2 :: "jsval \<Rightarrow> string" where
  "JSON_stringify2 v = (case ser ''  '' [] v of None \<Rightarrow> ''undefined'' | Some s \<Rightarrow> s)"

definition JSON_stringify :: "jsval \<Rightarrow> string" where
  "JSON_stringify v = (case ser [] [] v of None \<Rightarrow> ''undefined'' | Some s \<Rightarrow> s)"

section \<open>Configuration\<close>

text \<open>The four environment inputs read by the constructor; \<open>None\<close> is an unset variable.\<close>

record environment =
  HONEYBADGER_API_KEY :: "string option"
  HONEYBADGER_PROJECT_ID :: "string option"
  HONEYBADGER_BASE_URL :: "string option"
  HONEYBADGER_READ_ONLY :: "string option"

record HoneybadgerConfig =
  apiKey :: string
  projectId :: "string option"
  baseUrl :: string
  readOnly :: bool

text \<open>\<open>process.env.X || d\<close>: an unset or empty variable gives the default.\<close>

definition env_or :: "string option \<Rightarrow> string \<Rightarrow> string" where
  "env_or x d = (case x of None \<Rightarrow> d | Some s \<Rightarrow> if s = [] then d else s)"

definition loadConfig :: "environment \<Rightarrow> HoneybadgerConfig" where
  "loadConfig env =
     \<lparr> apiKey = env_or (HONEYBADGER_API_KEY env) [],
       projectId = HONEYBADGER_PROJECT_ID env,
       baseUrl = env_or (HONEYBADGER_BASE_URL env) ''https://app.honeybadger.io'',
       readOnly = (HONEYBADGER_READ_ONLY env \<noteq> Some ''false'') \<rparr>"

section \<open>The JavaScript engine and the outside world\<close>

text \<open>
  Built-ins of the engine whose results this development does not compute are parameters:
  \<open>Number(s)\<close> on a string, \<open>new Date(s).getTime()\<close> (\<open>None\<close> for an invalid date),
  \<open>Date.prototype.toISOString\<close> on a time value in milliseconds, base64 encoding, and
  the message text the engine gives a \<open>TypeError\<close>.
\<close>

record runtime =
  Number_of :: "string \<Rightarrow> jsnum"
  Date_parse :: "string \<Rightarrow> int option"
  Date_toISOString :: "int \<Rightarrow> string"
  base64 :: "string \<Rightarrow> string"
  TypeError_message :: "string \<Rightarrow> string"

definition e_message :: "runtime \<Rightarrow> thrown \<Rightarrow> string" where
  "e_message rt e = (case e of Error m \<Rightarrow> m | TypeError x \<Rightarrow> TypeError_message rt x)"

datatype http_method = GET | POST | PUT | DELETE

record request =
  req_method :: http_method
  req_url :: string
  req_headers :: "(string \<times> string) list"
  req_params :: "jsval option"
  req_data :: "jsval option"

text \<open>What \<open>axios(config)\<close> settles to: the response body, or an error that carries a
  response (status, body, status text) when the service answered, and none otherwise.\<close>

record axios_response =
  status :: int
  resp_data :: jsval
  statusText :: string

record axios_error =
  response :: "axios_response option"
  err_message :: string

datatype axios_outcome = Resolved jsval | Rejected axios_error

text \<open>
  The world of one invocation: the remote service as a function of the request, the clock
  (\<open>Date.now()\<close>), and which of two concurrently rejected promises \<open>Promise.all\<close> sees
  first (\<open>True\<close> for the first of the array).
\<close>

record world =
  axios :: "request \<Rightarrow> axios_outcome"
  Date_now :: int
  first_rejects_first :: bool

section \<open>Results\<close>

record tool_result =
  content_text :: string
  isError :: bool

text \<open>A computation that may throw, together with the HTTP requests it issued, in order.\<close>

type_synonym 'a io = "(thrown + 'a) \<times> request list"

definition lift :: "thrown + 'a \<Rightarrow> 'a io" where
  "lift r = (r, [])"

definition bind_io :: "'a io \<Rightarrow> ('a \<Rightarrow> 'b io) \<Rightarrow> 'b io" where
  "bind_io m f =
     (case m of
        (Inl e, tr) \<Rightarrow> (Inl e, tr)
      | (Inr x, tr) \<Rightarrow> (case f x of (r, tr') \<Rightarrow> (r, tr @ tr')))"

section \<open>Utility methods\<close>

definition project_id_required :: string where
  "project_id_required =
     ''Project ID required. Provide via project_id parameter or HONEYBADGER_PROJECT_ID env var.''"

definition resolveProjectId :: "runtime \<Rightarrow> HoneybadgerConfig \<Rightarrow> jsnum option \<Rightarrow> thrown + jsnum" where
  "resolveProjectId rt cfg providedId =
     (let pid = (if truthy_onum providedId then providedId
                 else (case projectId cfg of
                         None \<Rightarrow> None
                       | Some s \<Rightarrow> if s \<noteq> [] then Some (Number_of rt s) else None))
      in case pid of
           None \<Rightarrow> Inl (Error project_id_required)
         | Some n \<Rightarrow> if truthy_num n then Inr n else Inl (Error project_id_required))"

definition invalid_timestamp :: "string \<Rightarrow> string" where
  \<open>invalid_timestamp ts =
     ''Invalid timestamp: "'' @ ts @ ''". Use RFC3339 format, e.g. "2026-02-16T10:00:00Z"''\<close>

definition parseTimestamp :: "runtime \<Rightarrow> string option \<Rightarrow> thrown + string option" where
  "parseTimestamp rt ts =
     (case ts of
        None \<Rightarrow> Inr None
      | Some s \<Rightarrow>
          if s = [] then Inr None
          else (case Date_parse rt s of
                  None \<Rightarrow> Inl (Error (invalid_timestamp s))
                | Some t \<Rightarrow> Inr (Some (Date_toISOString rt t))))"

definition toolError :: "string \<Rightarrow> tool_result" where
  "toolError message = \<lparr> content_text = message, isError = True \<rparr>"

definition formatJsonResponse :: "jsval \<Rightarrow> tool_result" where
  "formatJsonResponse d = \<lparr> content_text = JSON_stringify2 d, isError = False \<rparr>"

record list_metadata =
  md_total :: jsval
  md_page :: jsval
  md_per_page :: jsval

definition list_summary :: "jsval \<Rightarrow> list_metadata option \<Rightarrow> string" where
  "list_summary len metadata =
     ''Found '' @ ToString len @ '' items''
     @ (case metadata of
          None \<Rightarrow> []
        | Some m \<Rightarrow> if truthy (md_total m) then '' ('' @ ToString (md_total m) @ '' total)'' else [])
     @ (case metadata of
          None \<Rightarrow> []
        | Some m \<Rightarrow> if truthy (md_page m) then '', page '' @ ToString (md_page m) else [])"

definition formatListResponse :: "jsval \<Rightarrow> list_metadata option \<Rightarrow> thrown + tool_result" where
  "formatListResponse items metadata =
     (case get_prop items ''length'' of
        Inl e \<Rightarrow> Inl e
      | Inr len \<Rightarrow>
          Inr \<lparr> content_text = list_summary len metadata @ [CHR 0x0A, CHR 0x0A] @ JSON_stringify2 items,
                isError = False \<rparr>)"

definition formatWriteResponse :: "jsval \<Rightarrow> string \<Rightarrow> tool_result" where
  "formatWriteResponse d operation =
     \<lparr> content_text = ''Successfully '' @ operation @ [CHR 0x0A, CHR 0x0A] @ JSON_stringify2 d,
       isError = False \<rparr>"

section \<open>HTTP client\<close>

record request_options =
  opt_method :: "http_method option"
  opt_params :: jsval
  opt_data :: jsval

definition no_options :: request_options where
  "no_options = \<lparr> opt_method = None, opt_params = JUndefined, opt_data = JUndefined \<rparr>"

definition with_params :: "jsval \<Rightarrow> request_options" where
  "with_params p = \<lparr> opt_method = None, opt_params = p, opt_data = JUndefined \<rparr>"

definition build_request :: "runtime \<Rightarrow> HoneybadgerConfig \<Rightarrow> string \<Rightarrow> request_options \<Rightarrow> request" where
  "build_request rt cfg endpoint options =
     \<lparr> req_method = (case opt_method options of None \<Rightarrow> GET | Some m \<Rightarrow> m),
       req_url = baseUrl cfg @ ''/v2'' @ endpoint,
       req_headers =
         [(''Authorization'', ''Basic '' @ base64 rt (apiKey cfg @ '':'')),
          (''Accept'', ''application/json''),
          (''Content-Type'', ''application/json'')],
       req_params = (if truthy (opt_params options) then Some (opt_params options) else None),
       req_data = (if truthy (opt_data options) then Some (opt_data options) else None) \<rparr>"

text \<open>The mapping of the \<open>catch\<close> block, for an error that carries a response.\<close>

definition service_message :: "axios_response \<Rightarrow> jsval" where
  "service_message r = js_or (opt_prop (resp_data r) ''error'') (JString (statusText r))"

definition map_service_error :: "string \<Rightarrow> axios_response \<Rightarrow> string" where
  "map_service_error endpoint r =
     (let message = service_message r in
      if status r = 401 then ''Authentication failed. Check HONEYBADGER_API_KEY.''
      else if status r = 403 then ''Permission denied: '' @ ToString message
      else if status r = 404 then ''Not found: '' @ endpoint
      else if status r = 422 then ''Validation error: '' @ ToString message
      else if status r = 429 then ''Rate limit exceeded. Please wait and retry.''
      else ''Honeybadger API error: '' @ show_int (status r) @ '' - '' @ ToString message)"

definition makeHoneybadgerRequest ::
  "runtime \<Rightarrow> HoneybadgerConfig \<Rightarrow> world \<Rightarrow> string \<Rightarrow> request_options \<Rightarrow> jsval io" where
  "makeHoneybadgerRequest rt cfg w endpoint options =
     (if apiKey cfg = [] then
        (Inl (Error ''HONEYBADGER_API_KEY environment variable is required''), [])
      else
        (let req = build_request rt cfg endpoint options in
         case axios w req of
           Resolved d \<Rightarrow> (Inr d, [req])
         | Rejected err \<Rightarrow>
             (case response err of
                Some r \<Rightarrow> (Inl (Error (map_service_error endpoint r)), [req])
              | None \<Rightarrow> (Inl (Error (''Network error: '' @ err_message err)), [req]))))"

text \<open>The \<open>try { ... } catch (e) { return this.toolError(e.message) }\<close> of every handler.\<close>

definition catch_tool :: "runtime \<Rightarrow> tool_result io \<Rightarrow> tool_result \<times> request list" where
  "catch_tool rt m =
     (case m of
        (Inl e, tr) \<Rightarrow> (toolError (e_message rt e), tr)
      | (Inr r, tr) \<Rightarrow> (r, tr))"

section \<open>Analysis generator\<close>

definition bind_e :: "thrown + 'a \<Rightarrow> ('a \<Rightarrow> thrown + 'b) \<Rightarrow> thrown + 'b" where
  "bind_e m f = (case m of Inl e \<Rightarrow> Inl e | Inr x \<Rightarrow> f x)"

text \<open>\<open>s.includes(t)\<close> on strings: \<open>t\<close> occurs in \<open>s\<close> as a contiguous piece.\<close>

fun str_includes :: "string \<Rightarrow> string \<Rightarrow> bool" where
  "str_includes [] t = (t = [])"
| "str_includes (c # cs) t = (take (length t) (c # cs) = t \<or> str_includes cs t)"

text \<open>\<open>v.includes(t)\<close> on a JSON value: strings and arrays have the method, anything else
  makes the call a \<open>TypeError\<close>.\<close>

definition js_includes :: "jsval \<Rightarrow> string \<Rightarrow> thrown + bool" where
  "js_includes v t =
     (case v of
        JString s \<Rightarrow> Inr (str_includes s t)
      | JArray xs \<Rightarrow> Inr (JString t \<in> set xs)
      | _ \<Rightarrow> Inl (TypeError ''includes''))"

text \<open>\<open>v[0]\<close>.\<close>

definition index0 :: "jsval \<Rightarrow> thrown + jsval" where
  "index0 v =
     (case v of
        JUndefined \<Rightarrow> Inl (TypeError ''0'')
      | JNull \<Rightarrow> Inl (TypeError ''0'')
      | JArray xs \<Rightarrow> Inr (case xs of [] \<Rightarrow> JUndefined | x # _ \<Rightarrow> x)
      | JString s \<Rightarrow> Inr (case s of [] \<Rightarrow> JUndefined | c # _ \<Rightarrow> JString [c])
      | JObject ps \<Rightarrow> Inr (js_prop (JObject ps) ''0'')
      | _ \<Rightarrow> Inr JUndefined)"

text \<open>\<open>Object.entries(v)\<close> for a value that is neither null nor undefined.\<close>

definition Object_entries :: "jsval \<Rightarrow> (string \<times> jsval) list" where
  "Object_entries v =
     (case v of
        JObject ps \<Rightarrow> ps
      | JArray xs \<Rightarrow> zip (map show_nat [0..<length xs]) xs
      | JString s \<Rightarrow> zip (map show_nat [0..<length s]) (map (\<lambda>c. JString [c]) s)
      | _ \<Rightarrow> [])"

text \<open>\<open>v > 0\<close>, with the numeric conversion of a string left to the engine.\<close>

definition gt_zero :: "runtime \<Rightarrow> jsval \<Rightarrow> bool" where
  "gt_zero rt v =
     (let pos = (\<lambda>n. case n of NaN \<Rightarrow> False | Num i \<Rightarrow> 0 < i) in
      case v of
        JUndefined \<Rightarrow> False
      | JNull \<Rightarrow> False
      | JBool b \<Rightarrow> b
      | JNumber n \<Rightarrow> pos n
      | JString s \<Rightarrow> pos (Number_of rt s)
      | JArray xs \<Rightarrow> pos (Number_of rt (ToString (JArray xs)))
      | JObject ps \<Rightarrow> False)"

definition fault_overview :: "jsval \<Rightarrow> thrown + string" where
  \<open>fault_overview fault =
     (if nullish fault then Inl (TypeError ''id'')
      else Inr (
          ''# Honeybadger Issue Analysis\<newline>''
          @ ''\<newline>''
          @ ''## Fault Overview\<newline>''
          @ ''- **ID**: ''
          @ ToString (js_prop fault ''id'')
          @ ''\<newline>''
          @ ''- **Error Class**: ''
          @ ToString (js_prop fault ''klass'')
          @ ''\<newline>''
          @ ''- **Message**: ''
          @ ToString (js_prop fault ''message'')
          @ ''\<newline>''
          @ ''- **Environment**: ''
          @ ToString (js_prop fault ''environment'')
          @ ''\<newline>''
          @ ''- **Occurrences**: ''
          @ ToString (js_prop fault ''notices_count'')
          @ ''\<newline>''
          @ ''- **First Seen**: ''
          @ ToString (js_prop fault ''created_at'')
          @ ''\<newline>''
          @ ''- **Last Seen**: ''
          @ ToString (js_prop fault ''last_notice_at'')
          @ ''\<newline>''
          @ ''- **Status**: ''
          @ (if truthy (js_prop fault ''resolved'') then ''Resolved'' else ''Unresolved'')
          @ ''\<newline>''
          @ ''- **URL**: ''
          @ ToString (js_prop fault ''url'')
          @ ''\<newline>''
          @ ''\<newline>''
          @ ''## Error Analysis\<newline>''
          @ ''\<newline>''
          @ ''### Error Type\<newline>''
          @ ''The error "''
          @ ToString (js_prop fault ''klass'')
          @ ''" suggests:''))\<close>

definition error_type_section :: "jsval \<Rightarrow> thrown + string" where
  "error_type_section klass =
     bind_e (js_includes klass ''NoMethodError'') (\<lambda>b1.
       if b1 then Inr (
       ''\<newline>''
       @ ''- A method is being called on an object that doesn'' @ [CHR 0x27] @ ''t respond to it\<newline>''
       @ ''- Possible nil object or wrong object type\<newline>''
       @ ''- Missing method definition or typo in method name'')
       else bind_e (js_includes klass ''NameError'') (\<lambda>b2.
       if b2 then Inr (
       ''\<newline>''
       @ ''- Undefined variable or constant\<newline>''
       @ ''- Typo in variable/constant name\<newline>''
       @ ''- Scope issues'')
       else bind_e (js_includes klass ''ArgumentError'') (\<lambda>b3.
       if b3 then Inr (
       ''\<newline>''
       @ ''- Wrong number of arguments passed to a method\<newline>''
       @ ''- Invalid argument values\<newline>''
       @ ''- Method signature mismatch'')
       else bind_e (js_includes klass ''ActiveRecord'') (\<lambda>b4.
       if b4 then Inr (
       ''\<newline>''
       @ ''- Database-related error\<newline>''
       @ ''- Possible migration issues\<newline>''
       @ ''- Invalid queries or constraints'')
       else Inr (
       ''\<newline>''
       @ ''- Review the specific error class documentation\<newline>''
       @ ''- Check for common patterns in this error type'')))))"

text \<open>\<open>latestNotice.backtrace?.slice(0, 10) || []\<close>, as the list \<open>forEach\<close> then walks.\<close>

definition backtrace_of :: "jsval \<Rightarrow> thrown + jsval list" where
  "backtrace_of latestNotice =
     (let bt = js_prop latestNotice ''backtrace'' in
      if nullish bt then Inr []
      else (case bt of
              JArray xs \<Rightarrow> Inr (take 10 xs)
            | JString s \<Rightarrow> if take 10 s = [] then Inr [] else Inl (TypeError ''forEach'')
            | _ \<Rightarrow> Inl (TypeError ''slice'')))"

definition frame_text :: "nat \<Rightarrow> jsval \<Rightarrow> thrown + string" where
  \<open>frame_text index frame =
     (if index = 0 then
        bind_e (get_prop frame ''file'') (\<lambda>file. Inr (
             ''\<newline>''
             @ ''**Primary Error Location:**\<newline>''
             @ ''- File: `''
             @ ToString file
             @ ''`\<newline>''
             @ ''- Method: `''
             @ ToString (js_prop frame ''method'')
             @ ''`\<newline>''
             @ ''- Line: ''
             @ ToString (js_prop frame ''number'')
             @ (if truthy (js_prop frame ''source'') then
                 ''\<newline>''
                 @ ''- Context:\<newline>''
                 @ ''```\<newline>''
                 @ join [CHR 0x0A] (map (\<lambda>(line, code). line @ '': '' @ ToString code) (Object_entries (js_prop frame ''source'')))
                 @ ''\<newline>''
                 @ ''```''
                else [])))
      else if index < 5 then
        bind_e (get_prop frame ''file'') (\<lambda>file. Inr (
             ''\<newline>''
             @ ''- ''
             @ ToString file
             @ '':''
             @ ToString (js_prop frame ''number'')
             @ '' in `''
             @ ToString (js_prop frame ''method'')
             @ ''`''))
      else Inr [])\<close>

fun frames_text :: "nat \<Rightarrow> jsval list \<Rightarrow> thrown + string" where
  "frames_text index [] = Inr []"
| "frames_text index (frame # frames) =
     bind_e (frame_text index frame) (\<lambda>a.
     bind_e (frames_text (Suc index) frames) (\<lambda>b. Inr (a @ b)))"

definition notice_section :: "bool \<Rightarrow> jsval \<Rightarrow> thrown + string" where
  "notice_section includeContext latestNotice =
     bind_e (backtrace_of latestNotice) (\<lambda>backtrace.
     bind_e (frames_text 0 backtrace) (\<lambda>frames.
       Inr (
       ''\<newline>''
       @ ''\<newline>''
       @ ''### Stack Trace Analysis\<newline>''
       @ frames
       @ (if includeContext \<and> truthy (js_prop latestNotice ''context'') then
          ''\<newline>''
          @ ''\<newline>''
          @ ''### Request Context\<newline>''
          @ ''```json\<newline>''
          @ JSON_stringify2 (js_prop latestNotice ''context'')
          @ ''\<newline>''
          @ ''```''
          else [])
       @ (if includeContext \<and> truthy (js_prop latestNotice ''params'')
             \<and> 0 < length (Object_entries (js_prop latestNotice ''params'')) then
          ''\<newline>''
          @ ''\<newline>''
          @ ''### Request Parameters\<newline>''
          @ ''```json\<newline>''
          @ JSON_stringify2 (js_prop latestNotice ''params'')
          @ ''\<newline>''
          @ ''```''
          else []))))"

definition trend_section :: "jsval \<Rightarrow> string" where
  "trend_section countsData =
     (if truthy countsData then
          ''\<newline>''
          @ ''\<newline>''
          @ ''## Trend Analysis (Last 30 Days)\<newline>''
          @ ''- Total fault count data: ''
          @ JSON_stringify countsData
      else [])"

fun user_lines_of :: "jsval list \<Rightarrow> thrown + string list" where
  "user_lines_of [] = Inr []"
| "user_lines_of (u # us) =
     bind_e (get_prop u ''user'') (\<lambda>user.
     bind_e (user_lines_of us) (\<lambda>rest.
       Inr ((''  - '' @ ToString user @ '': '' @ ToString (js_prop u ''count'') @ '' occurrences'') # rest)))"

definition top_users :: "jsval \<Rightarrow> thrown + string list" where
  "top_users affectedUsers =
     (case affectedUsers of
        JArray xs \<Rightarrow> user_lines_of (take 5 xs)
      | JString s \<Rightarrow> Inl (TypeError ''map'')
      | _ \<Rightarrow> Inl (TypeError ''slice''))"

definition affected_users_of :: "jsval \<Rightarrow> jsval" where
  "affected_users_of affectedUsersData =
     (case affectedUsersData of
        JArray xs \<Rightarrow> JArray xs
      | _ \<Rightarrow> js_or (opt_prop affectedUsersData ''results'') (JArray []))"

definition impact_section :: "runtime \<Rightarrow> jsval \<Rightarrow> thrown + string" where
  "impact_section rt affectedUsersData =
     (let affectedUsers = affected_users_of affectedUsersData in
      if gt_zero rt (js_prop affectedUsers ''length'') then
        bind_e (top_users affectedUsers) (\<lambda>user_lines. Inr (
               ''\<newline>''
               @ ''\<newline>''
               @ ''## Impact Assessment\<newline>''
               @ ''- Unique users affected: ''
               @ ToString (js_or (opt_prop affectedUsersData ''total_count'') (js_prop affectedUsers ''length''))
               @ ''\<newline>''
               @ ''- Top affected users:\<newline>''
               @ join [CHR 0x0A] user_lines))
      else Inr [])"

definition fix_strategies :: string where
  "fix_strategies =
       ''\<newline>''
       @ ''\<newline>''
       @ ''## Recommended Fix Strategies\<newline>''
       @ ''\<newline>''
       @ ''### Immediate Actions\<newline>''
       @ ''1. **Reproduce the Error**\<newline>''
       @ ''   - Use the provided context and parameters\<newline>''
       @ ''   - Set up similar conditions in development\<newline>''
       @ ''   - Add logging around the error location\<newline>''
       @ ''\<newline>''
       @ ''2. **Quick Fixes**''"

definition quick_fixes :: "jsval \<Rightarrow> thrown + string" where
  "quick_fixes klass =
     bind_e (js_includes klass ''NoMethodError'') (\<lambda>b1.
       if b1 then Inr (
       ''\<newline>''
       @ ''   - Add nil checks: `object&.method_name`\<newline>''
       @ ''   - Verify object type before method calls\<newline>''
       @ ''   - Check method spelling and availability'')
       else bind_e (js_includes klass ''ArgumentError'') (\<lambda>b2.
       if b2 then Inr (
       ''\<newline>''
       @ ''   - Review method signatures\<newline>''
       @ ''   - Validate input parameters\<newline>''
       @ ''   - Add parameter validation'')
       else bind_e (js_includes klass ''ActiveRecord'') (\<lambda>b3.
       if b3 then Inr (
       ''\<newline>''
       @ ''   - Check database migrations\<newline>''
       @ ''   - Validate model associations\<newline>''
       @ ''   - Review query syntax'')
       else Inr [])))"

definition closing :: "jsval \<Rightarrow> string" where
  "closing fault =
          ''\<newline>''
          @ ''\<newline>''
          @ ''### Long-term Solutions\<newline>''
          @ ''1. **Add Error Handling**\<newline>''
          @ ''   - Implement proper exception handling\<newline>''
          @ ''   - Add user-friendly error messages\<newline>''
          @ ''   - Log detailed error information\<newline>''
          @ ''\<newline>''
          @ ''2. **Add Tests**\<newline>''
          @ ''   - Write unit tests covering the error scenario\<newline>''
          @ ''   - Add integration tests for the affected flow\<newline>''
          @ ''   - Include edge case testing\<newline>''
          @ ''\<newline>''
          @ ''3. **Code Review**\<newline>''
          @ ''   - Review similar patterns in codebase\<newline>''
          @ ''   - Look for related potential issues\<newline>''
          @ ''   - Implement defensive programming practices\<newline>''
          @ ''\<newline>''
          @ ''### Monitoring\<newline>''
          @ ''- Set up alerts for this error pattern\<newline>''
          @ ''- Monitor error frequency after fixes\<newline>''
          @ ''- Track related errors that might emerge\<newline>''
          @ ''\<newline>''
          @ ''## Next Steps\<newline>''
          @ ''1. Examine the code at the primary error location\<newline>''
          @ ''2. Set up local reproduction using the provided context\<newline>''
          @ ''3. Implement the recommended fixes\<newline>''
          @ ''4. Add appropriate tests\<newline>''
          @ ''5. Deploy and monitor the fix effectiveness\<newline>''
          @ ''\<newline>''
          @ ''---\<newline>''
          @ ''*Analysis generated from Honeybadger fault #''
          @ ToString (js_prop fault ''id'')
          @ ''*''"

definition generateAnalysis ::
  "runtime \<Rightarrow> jsval \<Rightarrow> jsval \<Rightarrow> bool \<Rightarrow> jsval \<Rightarrow> jsval \<Rightarrow> thrown + string" where
  "generateAnalysis rt fault notices includeContext countsData affectedUsersData =
     bind_e (index0 notices) (\<lambda>latestNotice.
     bind_e (fault_overview fault) (\<lambda>overview.
     bind_e (error_type_section (js_prop fault ''klass'')) (\<lambda>error_type.
     bind_e (if truthy latestNotice then notice_section includeContext latestNotice else Inr [])
       (\<lambda>notice_part.
     bind_e (impact_section rt affectedUsersData) (\<lambda>impact.
     bind_e (quick_fixes (js_prop fault ''klass'')) (\<lambda>fixes.
       Inr (overview @ error_type @ notice_part @ trend_section countsData @ impact
            @ fix_strategies @ fixes @ closing fault)))))))"


section \<open>Read tools\<close>

definition Math_min :: "jsnum \<Rightarrow> jsnum \<Rightarrow> jsnum" where
  "Math_min a b = (case (a, b) of (Num x, Num y) \<Rightarrow> Num (min x y) | _ \<Rightarrow> NaN)"

text \<open>Destructuring defaults (\<open>{ limit = 20 }\<close>): the default replaces \<open>undefined\<close> only.\<close>

definition default_num :: "jsnum option \<Rightarrow> int \<Rightarrow> jsnum" where
  "default_num x d = (case x of None \<Rightarrow> Num d | Some n \<Rightarrow> n)"

definition default_str :: "string option \<Rightarrow> string \<Rightarrow> string" where
  "default_str x d = (case x of None \<Rightarrow> d | Some s \<Rightarrow> s)"

definition default_bool :: "bool option \<Rightarrow> bool \<Rightarrow> bool" where
  "default_bool x d = (case x of None \<Rightarrow> d | Some b \<Rightarrow> b)"

definition of_ostr :: "string option \<Rightarrow> jsval" where
  "of_ostr x = (case x of None \<Rightarrow> JUndefined | Some s \<Rightarrow> JString s)"

text \<open>\<open>if (q) params.q = q\<close>.\<close>

definition add_str :: "string \<Rightarrow> string option \<Rightarrow> (string \<times> jsval) list \<Rightarrow> (string \<times> jsval) list" where
  "add_str k x ps = (if truthy_ostr x then ps @ [(k, of_ostr x)] else ps)"

text \<open>\<open>if (ts) params.k = this.parseTimestamp(ts)\<close>.\<close>

definition add_timestamp ::
  "runtime \<Rightarrow> string \<Rightarrow> string option \<Rightarrow> (string \<times> jsval) list \<Rightarrow> thrown + (string \<times> jsval) list" where
  "add_timestamp rt k ts ps =
     (if truthy_ostr ts then
        (case parseTimestamp rt ts of
           Inl e \<Rightarrow> Inl e
         | Inr r \<Rightarrow> Inr (ps @ [(k, of_ostr r)]))
      else Inr ps)"

text \<open>\<open>data.results || []\<close>, then the list response with the given metadata.\<close>

definition list_result :: "jsval \<Rightarrow> (jsval \<Rightarrow> list_metadata option) \<Rightarrow> tool_result io" where
  "list_result d metadata =
     bind_io (lift (get_prop d ''results'')) (\<lambda>results.
       lift (formatListResponse (js_or results (JArray [])) (metadata d)))"

definition list_honeybadger_projects ::
  "runtime \<Rightarrow> HoneybadgerConfig \<Rightarrow> world \<Rightarrow> string option \<Rightarrow> jsnum option \<Rightarrow> jsnum option
     \<Rightarrow> tool_result \<times> request list" where
  "list_honeybadger_projects rt cfg w account_id page0 per_page0 =
     (let page = default_num page0 1; per_page = default_num per_page0 20 in
      catch_tool rt
        (let params = JObject [(''page'', JNumber page),
                               (''per_page'', JNumber (Math_min per_page (Num 100)))];
             endpoint = (if truthy_ostr account_id
                         then ''/accounts/'' @ ToString (of_ostr account_id) @ ''/projects''
                         else ''/projects'')
         in bind_io (makeHoneybadgerRequest rt cfg w endpoint (with_params params)) (\<lambda>d.
              list_result d (\<lambda>d. Some \<lparr> md_total = js_prop d ''total_count'',
                                         md_page = JNumber page,
                                         md_per_page = JNumber per_page \<rparr>))))"

definition get_honeybadger_project ::
  "runtime \<Rightarrow> HoneybadgerConfig \<Rightarrow> world \<Rightarrow> jsnum \<Rightarrow> tool_result \<times> request list" where
  "get_honeybadger_project rt cfg w ident =
     catch_tool rt
       (bind_io (makeHoneybadgerRequest rt cfg w (''/projects/'' @ show_num ident) no_options) (\<lambda>d.
          lift (Inr (formatJsonResponse d))))"

definition get_honeybadger_project_occurrence_counts ::
  "runtime \<Rightarrow> HoneybadgerConfig \<Rightarrow> world \<Rightarrow> jsnum option \<Rightarrow> string option \<Rightarrow> string option
     \<Rightarrow> tool_result \<times> request list" where
  "get_honeybadger_project_occurrence_counts rt cfg w project_id period0 environment =
     (let period = default_str period0 ''hour'' in
      catch_tool rt
        (let params = JObject (add_str ''environment'' environment [(''period'', JString period)]);
             endpoint = (if truthy_onum project_id
                         then ''/projects/'' @ ToString (of_onum project_id) @ ''/occurrences''
                         else ''/projects/occurrences'')
         in bind_io (makeHoneybadgerRequest rt cfg w endpoint (with_params params)) (\<lambda>d.
              lift (Inr (formatJsonResponse d)))))"

definition get_honeybadger_project_integrations ::
  "runtime \<Rightarrow> HoneybadgerConfig \<Rightarrow> world \<Rightarrow> jsnum option \<Rightarrow> tool_result \<times> request list" where
  "get_honeybadger_project_integrations rt cfg w project_id =
     catch_tool rt
       (bind_io (lift (resolveProjectId rt cfg project_id)) (\<lambda>pid.
        bind_io (makeHoneybadgerRequest rt cfg w
                   (''/projects/'' @ show_num pid @ ''/integrations'') no_options) (\<lambda>d.
          lift (Inr (formatJsonResponse d)))))"

definition get_honeybadger_project_report ::
  "runtime \<Rightarrow> HoneybadgerConfig \<Rightarrow> world \<Rightarrow> jsnum option \<Rightarrow> string \<Rightarrow> string option
     \<Rightarrow> string option \<Rightarrow> string option \<Rightarrow> tool_result \<times> request list" where
  "get_honeybadger_project_report rt cfg w project_id report start stop environment =
     catch_tool rt
       (bind_io (lift (resolveProjectId rt cfg project_id)) (\<lambda>pid.
        bind_io (lift (add_timestamp rt ''start'' start [])) (\<lambda>p1.
        bind_io (lift (add_timestamp rt ''stop'' stop p1)) (\<lambda>p2.
        bind_io (makeHoneybadgerRequest rt cfg w
                   (''/projects/'' @ show_num pid @ ''/reports/'' @ report)
                   (with_params (JObject (add_str ''environment'' environment p2)))) (\<lambda>d.
          lift (Inr (formatJsonResponse d)))))))"

subsection \<open>Faults\<close>

definition list_honeybadger_faults ::
  "runtime \<Rightarrow> HoneybadgerConfig \<Rightarrow> world \<Rightarrow> jsnum option \<Rightarrow> string option \<Rightarrow> string option
     \<Rightarrow> string option \<Rightarrow> string option \<Rightarrow> jsnum option \<Rightarrow> string option \<Rightarrow> jsnum option
     \<Rightarrow> tool_result \<times> request list" where
  "list_honeybadger_faults rt cfg w project_id q created_after occurred_after occurred_before
       limit0 order0 page0 =
     (let limit = default_num limit0 20; order = default_str order0 ''recent'';
          page = default_num page0 1 in
      catch_tool rt
        (bind_io (lift (resolveProjectId rt cfg project_id)) (\<lambda>pid.
         bind_io (lift (add_timestamp rt ''created_after'' created_after
                    (add_str ''q'' q
                       [(''limit'', JNumber (Math_min limit (Num 25))),
                        (''order'', JString order),
                        (''page'', JNumber page)]))) (\<lambda>p1.
         bind_io (lift (add_timestamp rt ''occurred_after'' occurred_after p1)) (\<lambda>p2.
         bind_io (lift (add_timestamp rt ''occurred_before'' occurred_before p2)) (\<lambda>p3.
         bind_io (makeHoneybadgerRequest rt cfg w
                    (''/projects/'' @ show_num pid @ ''/faults'') (with_params (JObject p3))) (\<lambda>d.
           list_result d (\<lambda>d. Some \<lparr> md_total = js_prop d ''total_count'',
                                      md_page = JNumber page,
                                      md_per_page = JNumber limit \<rparr>))))))))"

definition get_honeybadger_fault ::
  "runtime \<Rightarrow> HoneybadgerConfig \<Rightarrow> world \<Rightarrow> jsnum \<Rightarrow> jsnum option \<Rightarrow> tool_result \<times> request list" where
  "get_honeybadger_fault rt cfg w fault_id project_id =
     catch_tool rt
       (bind_io (lift (resolveProjectId rt cfg project_id)) (\<lambda>pid.
        bind_io (makeHoneybadgerRequest rt cfg w
                   (''/projects/'' @ show_num pid @ ''/faults/'' @ show_num fault_id) no_options) (\<lambda>d.
          lift (Inr (formatJsonResponse d)))))"

definition get_honeybadger_fault_counts ::
  "runtime \<Rightarrow> HoneybadgerConfig \<Rightarrow> world \<Rightarrow> jsnum option \<Rightarrow> string option \<Rightarrow> string option
     \<Rightarrow> string option \<Rightarrow> string option \<Rightarrow> tool_result \<times> request list" where
  "get_honeybadger_fault_counts rt cfg w project_id q created_after occurred_after occurred_before =
     catch_tool rt
       (bind_io (lift (resolveProjectId rt cfg project_id)) (\<lambda>pid.
        bind_io (lift (add_timestamp rt ''created_after'' created_after (add_str ''q'' q []))) (\<lambda>p1.
        bind_io (lift (add_timestamp rt ''occurred_after'' occurred_after p1)) (\<lambda>p2.
        bind_io (lift (add_timestamp rt ''occurred_before'' occurred_before p2)) (\<lambda>p3.
        bind_io (makeHoneybadgerRequest rt cfg w
                   (''/projects/'' @ show_num pid @ ''/faults/summary'') (with_params (JObject p3))) (\<lambda>d.
          lift (Inr (formatJsonResponse d))))))))"

definition list_honeybadger_fault_notices ::
  "runtime \<Rightarrow> HoneybadgerConfig \<Rightarrow> world \<Rightarrow> jsnum \<Rightarrow> jsnum option \<Rightarrow> jsnum option
     \<Rightarrow> tool_result \<times> request list" where
  "list_honeybadger_fault_notices rt cfg w fault_id project_id limit0 =
     (let limit = default_num limit0 10 in
      catch_tool rt
        (bind_io (lift (resolveProjectId rt cfg project_id)) (\<lambda>pid.
         bind_io (makeHoneybadgerRequest rt cfg w
                    (''/projects/'' @ show_num pid @ ''/faults/'' @ show_num fault_id @ ''/notices'')
                    (with_params (JObject [(''limit'', JNumber (Math_min limit (Num 25)))]))) (\<lambda>d.
           list_result d (\<lambda>d. Some \<lparr> md_total = js_prop d ''total_count'',
                                      md_page = JUndefined,
                                      md_per_page = JUndefined \<rparr>)))))"

definition list_honeybadger_fault_affected_users ::
  "runtime \<Rightarrow> HoneybadgerConfig \<Rightarrow> world \<Rightarrow> jsnum option \<Rightarrow> jsnum \<Rightarrow> string option
     \<Rightarrow> tool_result \<times> request list" where
  "list_honeybadger_fault_affected_users rt cfg w project_id fault_id q =
     catch_tool rt
       (bind_io (lift (resolveProjectId rt cfg project_id)) (\<lambda>pid.
        bind_io (makeHoneybadgerRequest rt cfg w
                   (''/projects/'' @ show_num pid @ ''/faults/'' @ show_num fault_id
                    @ ''/affected_users'')
                   (with_params (JObject (add_str ''q'' q [])))) (\<lambda>d.
          (case d of
             JArray xs \<Rightarrow> lift (formatListResponse (JArray xs) None)
           | _ \<Rightarrow> list_result d (\<lambda>d. None)))))"

subsection \<open>Analytics\<close>

definition query_honeybadger_insights ::
  "runtime \<Rightarrow> HoneybadgerConfig \<Rightarrow> world \<Rightarrow> jsnum option \<Rightarrow> string \<Rightarrow> string option
     \<Rightarrow> string option \<Rightarrow> tool_result \<times> request list" where
  "query_honeybadger_insights rt cfg w project_id query ts timezone =
     catch_tool rt
       (bind_io (lift (resolveProjectId rt cfg project_id)) (\<lambda>pid.
        bind_io (makeHoneybadgerRequest rt cfg w
                   (''/projects/'' @ show_num pid @ ''/insights/query'')
                   \<lparr> opt_method = Some POST, opt_params = JUndefined,
                     opt_data = JObject (add_str ''timezone'' timezone
                                  (add_str ''ts'' ts [(''query'', JString query)])) \<rparr>) (\<lambda>result.
          lift (Inr (formatJsonResponse result)))))"

subsection \<open>Analysis\<close>

text \<open>\<open>Promise.all([p1, p2])\<close>: both computations are started, so both leave their requests;
  the result is the pair, or the rejection that is seen first.\<close>

definition promise_all2 :: "bool \<Rightarrow> 'a io \<Rightarrow> 'b io \<Rightarrow> ('a \<times> 'b) io" where
  "promise_all2 first m1 m2 =
     (case (m1, m2) of
        ((Inr a, tr1), (Inr b, tr2)) \<Rightarrow> (Inr (a, b), tr1 @ tr2)
      | ((Inl e, tr1), (Inr b, tr2)) \<Rightarrow> (Inl e, tr1 @ tr2)
      | ((Inr a, tr1), (Inl e, tr2)) \<Rightarrow> (Inl e, tr1 @ tr2)
      | ((Inl e1, tr1), (Inl e2, tr2)) \<Rightarrow> (Inl (if first then e1 else e2), tr1 @ tr2))"

text \<open>\<open>p.catch(() => null)\<close>.\<close>

definition catch_null :: "jsval io \<Rightarrow> jsval io" where
  "catch_null m = (case m of (Inl e, tr) \<Rightarrow> (Inr JNull, tr) | (Inr v, tr) \<Rightarrow> (Inr v, tr))"

definition thirty_days_ms :: int where
  "thirty_days_ms = 30 * 24 * 60 * 60 * 1000"

definition analyze_honeybadger_issue ::
  "runtime \<Rightarrow> HoneybadgerConfig \<Rightarrow> world \<Rightarrow> jsnum \<Rightarrow> jsnum option \<Rightarrow> bool option
     \<Rightarrow> tool_result \<times> request list" where
  "analyze_honeybadger_issue rt cfg w fault_id project_id include_context0 =
     (let include_context = default_bool include_context0 True in
      catch_tool rt
        (bind_io (lift (resolveProjectId rt cfg project_id)) (\<lambda>pid.
         bind_io (promise_all2 (first_rejects_first w)
                    (makeHoneybadgerRequest rt cfg w
                       (''/projects/'' @ show_num pid @ ''/faults/'' @ show_num fault_id) no_options)
                    (makeHoneybadgerRequest rt cfg w
                       (''/projects/'' @ show_num pid @ ''/faults/'' @ show_num fault_id @ ''/notices'')
                       (with_params (JObject [(''limit'', JNumber (Num 5))]))))
           (\<lambda>(fault, noticesData).
         bind_io (lift (get_prop noticesData ''results'')) (\<lambda>results.
         bind_io (promise_all2 (first_rejects_first w)
                    (catch_null (makeHoneybadgerRequest rt cfg w
                       (''/projects/'' @ show_num pid @ ''/faults/counts'')
                       (with_params (JObject
                          [(''occurred_after'',
                            JString (Date_toISOString rt (Date_now w - thirty_days_ms)))]))))
                    (catch_null (makeHoneybadgerRequest rt cfg w
                       (''/projects/'' @ show_num pid @ ''/faults/'' @ show_num fault_id
                        @ ''/affected_users'')
                       (with_params (JObject [(''limit'', JNumber (Num 10))])))))
           (\<lambda>(countsData, affectedUsersData).
         bind_io (lift (generateAnalysis rt fault (js_or results (JArray [])) include_context
                          countsData affectedUsersData)) (\<lambda>analysis.
           lift (Inr \<lparr> content_text = analysis, isError = False \<rparr>))))))))"

section \<open>Write tools\<close>

text \<open>\<open>if (x !== undefined) data.k = x\<close> and \<open>if (x) data.k = x\<close>.\<close>

definition add_defined_bool :: "string \<Rightarrow> bool option \<Rightarrow> (string \<times> jsval) list \<Rightarrow> (string \<times> jsval) list" where
  "add_defined_bool k x ps = (case x of None \<Rightarrow> ps | Some b \<Rightarrow> ps @ [(k, JBool b)])"

definition add_defined_str :: "string \<Rightarrow> string option \<Rightarrow> (string \<times> jsval) list \<Rightarrow> (string \<times> jsval) list" where
  "add_defined_str k x ps = (case x of None \<Rightarrow> ps | Some v \<Rightarrow> ps @ [(k, JString v)])"

definition add_defined_num :: "string \<Rightarrow> jsnum option \<Rightarrow> (string \<times> jsval) list \<Rightarrow> (string \<times> jsval) list" where
  "add_defined_num k x ps = (case x of None \<Rightarrow> ps | Some n \<Rightarrow> ps @ [(k, JNumber n)])"

definition add_num :: "string \<Rightarrow> jsnum option \<Rightarrow> (string \<times> jsval) list \<Rightarrow> (string \<times> jsval) list" where
  "add_num k x ps = (if truthy_onum x then ps @ [(k, of_onum x)] else ps)"

definition create_honeybadger_project ::
  "runtime \<Rightarrow> HoneybadgerConfig \<Rightarrow> world \<Rightarrow> string \<Rightarrow> string \<Rightarrow> bool option \<Rightarrow> bool option
     \<Rightarrow> string option \<Rightarrow> string option \<Rightarrow> jsnum option \<Rightarrow> string option
     \<Rightarrow> tool_result \<times> request list" where
  "create_honeybadger_project rt cfg w account_id name resolve_errors_on_deploy
       disable_public_links user_url source_url purge_days user_search_field =
     catch_tool rt
       (let d = JObject
                  (add_str ''user_search_field'' user_search_field
                  (add_num ''purge_days'' purge_days
                  (add_str ''source_url'' source_url
                  (add_str ''user_url'' user_url
                  (add_defined_bool ''disable_public_links'' disable_public_links
                  (add_defined_bool ''resolve_errors_on_deploy'' resolve_errors_on_deploy
                     [(''name'', JString name)]))))))
        in bind_io (makeHoneybadgerRequest rt cfg w ''/projects''
                      \<lparr> opt_method = Some POST,
                        opt_params = (if account_id \<noteq> []
                                      then JObject [(''account_id'', JString account_id)]
                                      else JUndefined),
                        opt_data = d \<rparr>) (\<lambda>result.
             lift (Inr (formatWriteResponse result ''created project''))))"

definition update_honeybadger_project ::
  "runtime \<Rightarrow> HoneybadgerConfig \<Rightarrow> world \<Rightarrow> jsnum \<Rightarrow> string option \<Rightarrow> bool option \<Rightarrow> bool option
     \<Rightarrow> string option \<Rightarrow> string option \<Rightarrow> jsnum option \<Rightarrow> string option
     \<Rightarrow> tool_result \<times> request list" where
  "update_honeybadger_project rt cfg w ident name resolve_errors_on_deploy
       disable_public_links user_url source_url purge_days user_search_field =
     catch_tool rt
       (let d = JObject
                  (add_defined_str ''user_search_field'' user_search_field
                  (add_defined_num ''purge_days'' purge_days
                  (add_defined_str ''source_url'' source_url
                  (add_defined_str ''user_url'' user_url
                  (add_defined_bool ''disable_public_links'' disable_public_links
                  (add_defined_bool ''resolve_errors_on_deploy'' resolve_errors_on_deploy
                  (add_str ''name'' name [])))))))
        in bind_io (makeHoneybadgerRequest rt cfg w (''/projects/'' @ show_num ident)
                      \<lparr> opt_method = Some PUT, opt_params = JUndefined, opt_data = d \<rparr>) (\<lambda>result.
             lift (Inr (formatWriteResponse result ''updated project''))))"

definition confirmation_required :: string where
  "confirmation_required = ''Deletion requires explicit confirmation (set confirm: true)''"

definition delete_honeybadger_project ::
  "runtime \<Rightarrow> HoneybadgerConfig \<Rightarrow> world \<Rightarrow> jsnum \<Rightarrow> bool \<Rightarrow> tool_result \<times> request list" where
  "delete_honeybadger_project rt cfg w ident confirm =
     (if \<not> confirm then (toolError confirmation_required, [])
      else
        catch_tool rt
          (bind_io (makeHoneybadgerRequest rt cfg w (''/projects/'' @ show_num ident)
                      \<lparr> opt_method = Some DELETE, opt_params = JUndefined,
                        opt_data = JUndefined \<rparr>) (\<lambda>result.
             lift (Inr (formatWriteResponse (JObject [(''id'', JNumber ident)])
                          ''deleted project'')))))"

section \<open>Input schemas\<close>

text \<open>
  Each tool is registered with an input schema written with the combinators of the
  validation library, and the protocol server validates the arguments of a call against
  the schema of the tool before it runs the callback; a call with invalid arguments never
  reaches the callback. What follows is the meaning of the combinators this program uses,
  as the library defines them: \<open>z.number()\<close> with \<open>min\<close>/\<open>max\<close> (inclusive bounds,
  \<open>NaN\<close> rejected), \<open>z.string()\<close> with \<open>min\<close>/\<open>max\<close> length, \<open>z.boolean()\<close>,
  \<open>z.enum\<close>, each either required, \<open>optional()\<close> (only \<open>undefined\<close> may stand in
  for the value) or with a \<open>default\<close> (which replaces \<open>undefined\<close>).
\<close>

datatype zod_type =
    ZNumber "int option" "int option"
  | ZString "nat option" "nat option"
  | ZBoolean
  | ZEnum "string list"

datatype zod_presence = Required | Optional | Default jsval

type_synonym zod_field = "zod_type \<times> zod_presence"

type_synonym arguments = "(string \<times> jsval) list"

definition lower_ok :: "('a::linorder) option \<Rightarrow> 'a \<Rightarrow> bool" where
  "lower_ok lo x = (case lo of None \<Rightarrow> True | Some l \<Rightarrow> l \<le> x)"

definition upper_ok :: "('a::linorder) option \<Rightarrow> 'a \<Rightarrow> bool" where
  "upper_ok hi x = (case hi of None \<Rightarrow> True | Some h \<Rightarrow> x \<le> h)"

fun zod_check :: "zod_type \<Rightarrow> jsval \<Rightarrow> bool" where
  "zod_check (ZNumber lo hi) v =
     (case v of JNumber (Num n) \<Rightarrow> lower_ok lo n \<and> upper_ok hi n | _ \<Rightarrow> False)"
| "zod_check (ZString lo hi) v =
     (case v of JString s \<Rightarrow> lower_ok lo (length s) \<and> upper_ok hi (length s) | _ \<Rightarrow> False)"
| "zod_check ZBoolean v = (case v of JBool b \<Rightarrow> True | _ \<Rightarrow> False)"
| "zod_check (ZEnum vs) v = (case v of JString s \<Rightarrow> s \<in> set vs | _ \<Rightarrow> False)"

text \<open>The parsed value of one field, \<open>None\<close> when the field is invalid.\<close>

definition parse_field :: "zod_field \<Rightarrow> jsval \<Rightarrow> jsval option" where
  "parse_field f v =
     (if v = JUndefined then
        (case snd f of Required \<Rightarrow> None | Optional \<Rightarrow> Some JUndefined | Default d \<Rightarrow> Some d)
      else if zod_check (fst f) v then Some v else None)"

definition arg :: "arguments \<Rightarrow> string \<Rightarrow> jsval" where
  "arg a k = (case map_of a k of None \<Rightarrow> JUndefined | Some v \<Rightarrow> v)"

text \<open>Validation of the whole argument object: the names of the invalid fields, or the
  parsed arguments (the declared fields only, defaults filled in).\<close>

fun parse_schema :: "(string \<times> zod_field) list \<Rightarrow> arguments \<Rightarrow> string list \<times> arguments" where
  "parse_schema [] a = ([], [])"
| "parse_schema ((k, f) # fs) a =
     (case parse_schema fs a of
        (bad, parsed) \<Rightarrow>
          (case parse_field f (arg a k) of
             None \<Rightarrow> (k # bad, parsed)
           | Some v \<Rightarrow> (bad, (k, v) # parsed)))"

text \<open>Destructuring of the validated arguments into the typed parameters of a callback.\<close>

definition arg_num :: "arguments \<Rightarrow> string \<Rightarrow> jsnum option" where
  "arg_num a k = (case arg a k of JNumber n \<Rightarrow> Some n | _ \<Rightarrow> None)"

definition arg_str :: "arguments \<Rightarrow> string \<Rightarrow> string option" where
  "arg_str a k = (case arg a k of JString s \<Rightarrow> Some s | _ \<Rightarrow> None)"

definition arg_bool :: "arguments \<Rightarrow> string \<Rightarrow> bool option" where
  "arg_bool a k = (case arg a k of JBool b \<Rightarrow> Some b | _ \<Rightarrow> None)"

text \<open>Required fields: validation has established that the value is present and of the
  declared type, so the fallback is never taken on parsed arguments.\<close>

definition req_num :: "arguments \<Rightarrow> string \<Rightarrow> jsnum" where
  "req_num a k = (case arg a k of JNumber n \<Rightarrow> n | _ \<Rightarrow> NaN)"

definition req_str :: "arguments \<Rightarrow> string \<Rightarrow> string" where
  "req_str a k = (case arg a k of JString s \<Rightarrow> s | _ \<Rightarrow> [])"

definition req_bool :: "arguments \<Rightarrow> string \<Rightarrow> bool" where
  "req_bool a k = (case arg a k of JBool b \<Rightarrow> b | _ \<Rightarrow> False)"

section \<open>Tool registration\<close>

record registered_tool =
  tool_name :: string
  readOnlyHint :: bool
  destructiveHint :: bool
  inputSchema :: "(string \<times> zod_field) list"
  callback :: "world \<Rightarrow> arguments \<Rightarrow> tool_result \<times> request list"

definition project_id_field :: "string \<times> zod_field" where
  "project_id_field = (''project_id'', (ZNumber (Some 1) None, Optional))"

definition timestamp_filter_fields :: "(string \<times> zod_field) list" where
  "timestamp_filter_fields =
     [(''q'', (ZString None None, Optional)),
      (''created_after'', (ZString None None, Optional)),
      (''occurred_after'', (ZString None None, Optional)),
      (''occurred_before'', (ZString None None, Optional))]"

definition registerReadTools :: "runtime \<Rightarrow> HoneybadgerConfig \<Rightarrow> registered_tool list" where
  "registerReadTools rt cfg =
     [\<lparr> tool_name = ''list_honeybadger_projects'', readOnlyHint = True, destructiveHint = False,
        inputSchema =
          [(''account_id'', (ZString None None, Optional)),
           (''page'', (ZNumber (Some 1) None, Default (JNumber (Num 1)))),
           (''per_page'', (ZNumber (Some 1) (Some 100), Default (JNumber (Num 20))))],
        callback = (\<lambda>w a. list_honeybadger_projects rt cfg w
                      (arg_str a ''account_id'') (arg_num a ''page'') (arg_num a ''per_page'')) \<rparr>,
      \<lparr> tool_name = ''get_honeybadger_project'', readOnlyHint = True, destructiveHint = False,
        inputSchema = [(''id'', (ZNumber (Some 1) None, Required))],
        callback = (\<lambda>w a. get_honeybadger_project rt cfg w (req_num a ''id'')) \<rparr>,
      \<lparr> tool_name = ''get_honeybadger_project_occurrence_counts'',
        readOnlyHint = True, destructiveHint = False,
        inputSchema =
          [project_id_field,
           (''period'', (ZEnum [''hour'', ''day'', ''week'', ''month''], Default (JString ''hour''))),
           (''environment'', (ZString None None, Optional))],
        callback = (\<lambda>w a. get_honeybadger_project_occurrence_counts rt cfg w
                      (arg_num a ''project_id'') (arg_str a ''period'') (arg_str a ''environment'')) \<rparr>,
      \<lparr> tool_name = ''get_honeybadger_project_integrations'',
        readOnlyHint = True, destructiveHint = False,
        inputSchema = [project_id_field],
        callback = (\<lambda>w a. get_honeybadger_project_integrations rt cfg w
                      (arg_num a ''project_id'')) \<rparr>,
      \<lparr> tool_name = ''get_honeybadger_project_report'', readOnlyHint = True, destructiveHint = False,
        inputSchema =
          [project_id_field,
           (''report'', (ZEnum [''notices_by_class'', ''notices_by_location'',
                                ''notices_by_user'', ''notices_per_day''], Required)),
           (''start'', (ZString None None, Optional)),
           (''stop'', (ZString None None, Optional)),
           (''environment'', (ZString None None, Optional))],
        callback = (\<lambda>w a. get_honeybadger_project_report rt cfg w
                      (arg_num a ''project_id'') (req_str a ''report'') (arg_str a ''start'')
                      (arg_str a ''stop'') (arg_str a ''environment'')) \<rparr>,
      \<lparr> tool_name = ''list_honeybadger_faults'', readOnlyHint = True, destructiveHint = False,
        inputSchema =
          project_id_field # timestamp_filter_fields @
          [(''limit'', (ZNumber (Some 1) (Some 25), Default (JNumber (Num 20)))),
           (''order'', (ZEnum [''recent'', ''frequent''], Default (JString ''recent''))),
           (''page'', (ZNumber (Some 1) None, Default (JNumber (Num 1))))],
        callback = (\<lambda>w a. list_honeybadger_faults rt cfg w
                      (arg_num a ''project_id'') (arg_str a ''q'') (arg_str a ''created_after'')
                      (arg_str a ''occurred_after'') (arg_str a ''occurred_before'')
                      (arg_num a ''limit'') (arg_str a ''order'') (arg_num a ''page'')) \<rparr>,
      \<lparr> tool_name = ''get_honeybadger_fault'', readOnlyHint = True, destructiveHint = False,
        inputSchema = [(''fault_id'', (ZNumber (Some 1) None, Required)), project_id_field],
        callback = (\<lambda>w a. get_honeybadger_fault rt cfg w
                      (req_num a ''fault_id'') (arg_num a ''project_id'')) \<rparr>,
      \<lparr> tool_name = ''get_honeybadger_fault_counts'', readOnlyHint = True, destructiveHint = False,
        inputSchema = project_id_field # timestamp_filter_fields,
        callback = (\<lambda>w a. get_honeybadger_fault_counts rt cfg w
                      (arg_num a ''project_id'') (arg_str a ''q'') (arg_str a ''created_after'')
                      (arg_str a ''occurred_after'') (arg_str a ''occurred_before'')) \<rparr>,
      \<lparr> tool_name = ''list_honeybadger_fault_notices'', readOnlyHint = True, destructiveHint = False,
        inputSchema =
          [(''fault_id'', (ZNumber (Some 1) None, Required)),
           project_id_field,
           (''limit'', (ZNumber (Some 1) (Some 25), Default (JNumber (Num 10))))],
        callback = (\<lambda>w a. list_honeybadger_fault_notices rt cfg w
                      (req_num a ''fault_id'') (arg_num a ''project_id'') (arg_num a ''limit'')) \<rparr>,
      \<lparr> tool_name = ''list_honeybadger_fault_affected_users'',
        readOnlyHint = True, destructiveHint = False,
        inputSchema =
          [project_id_field,
           (''fault_id'', (ZNumber (Some 1) None, Required)),
           (''q'', (ZString None None, Optional))],
        callback = (\<lambda>w a. list_honeybadger_fault_affected_users rt cfg w
                      (arg_num a ''project_id'') (req_num a ''fault_id'') (arg_str a ''q'')) \<rparr>,
      \<lparr> tool_name = ''query_honeybadger_insights'', readOnlyHint = True, destructiveHint = False,
        inputSchema =
          [project_id_field,
           (''query'', (ZString (Some 1) None, Required)),
           (''ts'', (ZString None None, Optional)),
           (''timezone'', (ZString None None, Optional))],
        callback = (\<lambda>w a. query_honeybadger_insights rt cfg w
                      (arg_num a ''project_id'') (req_str a ''query'') (arg_str a ''ts'')
                      (arg_str a ''timezone'')) \<rparr>,
      \<lparr> tool_name = ''analyze_honeybadger_issue'', readOnlyHint = True, destructiveHint = False,
        inputSchema =
          [(''fault_id'', (ZNumber (Some 1) None, Required)),
           project_id_field,
           (''include_context'', (ZBoolean, Default (JBool True)))],
        callback = (\<lambda>w a. analyze_honeybadger_issue rt cfg w
                      (req_num a ''fault_id'') (arg_num a ''project_id'')
                      (arg_bool a ''include_context'')) \<rparr>]"

definition project_settings_fields :: "(string \<times> zod_field) list" where
  "project_settings_fields =
     [(''resolve_errors_on_deploy'', (ZBoolean, Optional)),
      (''disable_public_links'', (ZBoolean, Optional)),
      (''user_url'', (ZString None None, Optional)),
      (''source_url'', (ZString None None, Optional)),
      (''purge_days'', (ZNumber (Some 1) None, Optional)),
      (''user_search_field'', (ZString None None, Optional))]"

definition registerWriteTools :: "runtime \<Rightarrow> HoneybadgerConfig \<Rightarrow> registered_tool list" where
  "registerWriteTools rt cfg =
     [\<lparr> tool_name = ''create_honeybadger_project'', readOnlyHint = False, destructiveHint = True,
        inputSchema =
          [(''account_id'', (ZString (Some 1) None, Required)),
           (''name'', (ZString (Some 1) (Some 255), Required))] @ project_settings_fields,
        callback = (\<lambda>w a. create_honeybadger_project rt cfg w
                      (req_str a ''account_id'') (req_str a ''name'')
                      (arg_bool a ''resolve_errors_on_deploy'') (arg_bool a ''disable_public_links'')
                      (arg_str a ''user_url'') (arg_str a ''source_url'')
                      (arg_num a ''purge_days'') (arg_str a ''user_search_field'')) \<rparr>,
      \<lparr> tool_name = ''update_honeybadger_project'', readOnlyHint = False, destructiveHint = True,
        inputSchema =
          [(''id'', (ZNumber (Some 1) None, Required)),
           (''name'', (ZString (Some 1) (Some 255), Optional))] @ project_settings_fields,
        callback = (\<lambda>w a. update_honeybadger_project rt cfg w
                      (req_num a ''id'') (arg_str a ''name'')
                      (arg_bool a ''resolve_errors_on_deploy'') (arg_bool a ''disable_public_links'')
                      (arg_str a ''user_url'') (arg_str a ''source_url'')
                      (arg_num a ''purge_days'') (arg_str a ''user_search_field'')) \<rparr>,
      \<lparr> tool_name = ''delete_honeybadger_project'', readOnlyHint = False, destructiveHint = True,
        inputSchema =
          [(''id'', (ZNumber (Some 1) None, Required)),
           (''confirm'', (ZBoolean, Required))],
        callback = (\<lambda>w a. delete_honeybadger_project rt cfg w
                      (req_num a ''id'') (req_bool a ''confirm'')) \<rparr>]"

definition setupTools :: "runtime \<Rightarrow> HoneybadgerConfig \<Rightarrow> registered_tool list" where
  "setupTools rt cfg =
     registerReadTools rt cfg @ (if \<not> readOnly cfg then registerWriteTools rt cfg else [])"

text \<open>The server the constructor builds from the process environment.\<close>

record server =
  config :: HoneybadgerConfig
  tools :: "registered_tool list"

definition HoneybadgerMCPServer :: "runtime \<Rightarrow> environment \<Rightarrow> server" where
  "HoneybadgerMCPServer rt env =
     \<lparr> config = loadConfig env, tools = setupTools rt (loadConfig env) \<rparr>"

definition tool_names :: "server \<Rightarrow> string list" where
  "tool_names srv = map tool_name (tools srv)"

text \<open>
  A call by name, as the protocol server carries it out: lookup of the tool, validation
  of the arguments against its schema, then the callback on the parsed arguments. An
  unknown name and invalid arguments are answered by the server itself.
\<close>

datatype call_result = UnknownTool | InvalidArguments "string list" | ToolResult tool_result

definition callTool :: "server \<Rightarrow> world \<Rightarrow> string \<Rightarrow> arguments \<Rightarrow> call_result \<times> request list" where
  "callTool srv w nm a =
     (case find (\<lambda>t. tool_name t = nm) (tools srv) of
        None \<Rightarrow> (UnknownTool, [])
      | Some t \<Rightarrow>
          (case parse_schema (inputSchema t) a of
             (bad, parsed) \<Rightarrow>
               if bad \<noteq> [] then (InvalidArguments bad, [])
               else (case callback t w parsed of (r, tr) \<Rightarrow> (ToolResult r, tr))))"

section \<open>Observing a dispatched request\<close>

text \<open>The value of a query parameter of a request (\<open>undefined\<close> when it has none).\<close>

definition dispatched_param :: "request \<Rightarrow> string \<Rightarrow> jsval" where
  "dispatched_param r k = (case req_params r of None \<Rightarrow> JUndefined | Some p \<Rightarrow> js_prop p k)"

section \<open>Timestamp parameters, as sent\<close>

text \<open>A supplied timestamp is malformed when it is a non-empty string the engine's date
  parser rejects.\<close>

definition malformed :: "runtime \<Rightarrow> string option \<Rightarrow> bool" where
  "malformed rt ts = (case ts of None \<Rightarrow> False | Some s \<Rightarrow> s \<noteq> [] \<and> Date_parse rt s = None)"

text \<open>The value a timestamp argument is sent with: none for an absent or empty argument,
  the ISO rendering of the parsed instant otherwise.\<close>

definition ts_value :: "runtime \<Rightarrow> string option \<Rightarrow> jsval option" where
  "ts_value rt ts =
     (case ts of
        None \<Rightarrow> None
      | Some s \<Rightarrow> if s = [] then None
                  else (case Date_parse rt s of
                          None \<Rightarrow> None
                        | Some t \<Rightarrow> Some (JString (Date_toISOString rt t))))"

definition ts_entry :: "runtime \<Rightarrow> string \<Rightarrow> string option \<Rightarrow> (string \<times> jsval) list" where
  "ts_entry rt k ts = (case ts_value rt ts of None \<Rightarrow> [] | Some v \<Rightarrow> [(k, v)])"

text \<open>In request \<open>r\<close>, the timestamp argument \<open>ts\<close> appears under \<open>k\<close> parsed and
  rendered, never as supplied.\<close>

definition timestamp_normalized :: "runtime \<Rightarrow> string \<Rightarrow> string option \<Rightarrow> request \<Rightarrow> bool" where
  "timestamp_normalized rt k ts r =
     (\<not> malformed rt ts
      \<and> dispatched_param r k = (case ts_value rt ts of None \<Rightarrow> JUndefined | Some v \<Rightarrow> v))"

section \<open>The text of an empty listing\<close>

text \<open>The result text for a listing without items, given the total and the page the
  operation passes to the formatter (\<open>undefined\<close> when it passes none).\<close>

definition empty_list_text :: "jsval \<Rightarrow> jsval \<Rightarrow> string" where
  "empty_list_text total_count page_number =
     ''Found 0 items''
     @ (if truthy total_count then '' ('' @ ToString total_count @ '' total)'' else [])
     @ (if truthy page_number then '', page '' @ ToString page_number else [])
     @ [CHR 0x0A, CHR 0x0A] @ ''[]''"

section \<open>The requests of the analysis operation\<close>

text \<open>The four requests \<open>analyze_honeybadger_issue\<close> builds, by name: the fault detail
  and its notices (both required), the fault counts of the last thirty days and the
  affected users (both best-effort).\<close>

definition fault_endpoint :: "jsnum \<Rightarrow> jsnum \<Rightarrow> string" where
  "fault_endpoint pid fault_id = ''/projects/'' @ show_num pid @ ''/faults/'' @ show_num fault_id"

definition notices_endpoint :: "jsnum \<Rightarrow> jsnum \<Rightarrow> string" where
  "notices_endpoint pid fault_id =
     ''/projects/'' @ show_num pid @ ''/faults/'' @ show_num fault_id @ ''/notices''"

definition fault_request :: "runtime \<Rightarrow> HoneybadgerConfig \<Rightarrow> jsnum \<Rightarrow> jsnum \<Rightarrow> request" where
  "fault_request rt cfg pid fault_id = build_request rt cfg (fault_endpoint pid fault_id) no_options"

definition notices_request :: "runtime \<Rightarrow> HoneybadgerConfig \<Rightarrow> jsnum \<Rightarrow> jsnum \<Rightarrow> request" where
  "notices_request rt cfg pid fault_id =
     build_request rt cfg (notices_endpoint pid fault_id)
       (with_params (JObject [(''limit'', JNumber (Num 5))]))"

definition counts_request :: "runtime \<Rightarrow> HoneybadgerConfig \<Rightarrow> world \<Rightarrow> jsnum \<Rightarrow> request" where
  "counts_request rt cfg w pid =
     build_request rt cfg (''/projects/'' @ show_num pid @ ''/faults/counts'')
       (with_params (JObject
          [(''occurred_after'', JString (Date_toISOString rt (Date_now w - thirty_days_ms)))]))"

definition users_request :: "runtime \<Rightarrow> HoneybadgerConfig \<Rightarrow> jsnum \<Rightarrow> jsnum \<Rightarrow> request" where
  "users_request rt cfg pid fault_id =
     build_request rt cfg
       (''/projects/'' @ show_num pid @ ''/faults/'' @ show_num fault_id @ ''/affected_users'')
       (with_params (JObject [(''limit'', JNumber (Num 10))]))"

text \<open>What a best-effort fetch hands to the generator: the data, or \<open>null\<close> for a failure.\<close>

definition absorbed :: "axios_outcome \<Rightarrow> jsval" where
  "absorbed out = (case out of Resolved d \<Rightarrow> d | Rejected e \<Rightarrow> JNull)"

section \<open>The error taxonomy, as a table\<close>

text \<open>
  The message a failed request is reported with, by origin: no response at all, or a
  response with a status. The service message is the \<open>error\<close> field of the response
  body when that is truthy, the status text otherwise.
\<close>

definition error_taxonomy :: "string \<Rightarrow> axios_error \<Rightarrow> string" where
  "error_taxonomy endpoint err =
     (case response err of
        None \<Rightarrow> ''Network error: '' @ err_message err
      | Some r \<Rightarrow>
          if status r = 401 then ''Authentication failed. Check HONEYBADGER_API_KEY.''
          else if status r = 403 then ''Permission denied: '' @ ToString (service_message r)
          else if status r = 404 then ''Not found: '' @ endpoint
          else if status r = 422 then ''Validation error: '' @ ToString (service_message r)
          else if status r = 429 then ''Rate limit exceeded. Please wait and retry.''
          else ''Honeybadger API error: '' @ show_int (status r) @ '' - ''
               @ ToString (service_message r))"

section \<open>Example inputs\<close>

text \<open>
  An engine given by its values on the inputs the examples below use: the numeric
  conversion of \<open>"41227"\<close> (any other string used is non-numeric), the parse of the
  timestamp \<open>2026-02-16T10:00:00Z\<close> (any other string used is no date), the rendering
  of that instant, and the base64 form of \<open>secret:\<close>.
\<close>

definition example_runtime :: runtime where
  "example_runtime =
     \<lparr> Number_of = (\<lambda>s. if s = ''41227'' then Num 41227 else NaN),
       Date_parse = (\<lambda>s. if s = ''2026-02-16T10:00:00Z'' then Some 1771236000000 else None),
       Date_toISOString = (\<lambda>t. if t = 1771236000000 then ''2026-02-16T10:00:00.000Z''
                                 else ''2026-01-17T10:00:00.000Z''),
       base64 = (\<lambda>s. ''c2VjcmV0Og==''),
       TypeError_message = (\<lambda>x. ''Cannot read properties of null'') \<rparr>"

definition example_config :: HoneybadgerConfig where
  "example_config =
     \<lparr> apiKey = ''secret'', projectId = None, baseUrl = ''https://app.honeybadger.io'',
       readOnly = False \<rparr>"

text \<open>A service that answers every request with the same outcome.\<close>

definition service_always :: "axios_outcome \<Rightarrow> world" where
  "service_always out =
     \<lparr> axios = (\<lambda>req. out), Date_now = 1773828000000, first_rejects_first = True \<rparr>"

definition service_status :: "int \<Rightarrow> jsval \<Rightarrow> string \<Rightarrow> axios_outcome" where
  "service_status st body txt =
     Rejected \<lparr> response = Some \<lparr> status = st, resp_data = body, statusText = txt \<rparr>,
                err_message = ''Request failed'' \<rparr>"

definition example_environment :: environment where
  "example_environment =
     \<lparr> HONEYBADGER_API_KEY = Some ''secret'', HONEYBADGER_PROJECT_ID = None,
       HONEYBADGER_BASE_URL = None, HONEYBADGER_READ_ONLY = Some ''false'' \<rparr>"

text \<open>A fault with one notice, and a service that answers the fault, notices and counts
  requests and fails the affected-users request with status 500.\<close>

definition example_fault :: jsval where
  "example_fault =
     JObject [(''id'', JNumber (Num 127320184)), (''klass'', JString ''NoMethodError''),
              (''message'', JString ''undefined method''),
              (''environment'', JString ''production''),
              (''notices_count'', JNumber (Num 12)),
              (''created_at'', JString ''2026-02-01T08:00:00Z''),
              (''last_notice_at'', JString ''2026-02-16T10:00:00Z''),
              (''resolved'', JBool False),
              (''url'', JString ''https://app.honeybadger.io/projects/41227/faults/127320184'')]"

definition example_notices :: jsval where
  "example_notices =
     JObject [(''results'', JArray [JObject [(''backtrace'', JArray
        [JObject [(''file'', JString ''app/models/user.rb''), (''method'', JString ''name''),
                  (''number'', JString ''42'')]])]])]"

definition analysis_world :: world where
  "analysis_world =
     \<lparr> axios = (\<lambda>req.
         if req_url req
              = ''https://app.honeybadger.io/v2/projects/41227/faults/127320184/affected_users''
         then service_status 500 JNull ''Internal Server Error''
         else if req_url req
              = ''https://app.honeybadger.io/v2/projects/41227/faults/127320184/notices''
         then Resolved example_notices
         else if req_url req = ''https://app.honeybadger.io/v2/projects/41227/faults/counts''
         then Resolved (JObject [(''total'', JNumber (Num 12))])
         else Resolved example_fault),
       Date_now = 1773828000000, first_rejects_first = True \<rparr>"

text \<open>The same service, answering both best-effort requests of the analysis with
  status 401.\<close>

definition best_effort_unauthorized :: world where
  "best_effort_unauthorized =
     \<lparr> axios = (\<lambda>req.
         if req_url req
              = ''https://app.honeybadger.io/v2/projects/41227/faults/127320184/affected_users''
            \<or> req_url req = ''https://app.honeybadger.io/v2/projects/41227/faults/counts''
         then service_status 401 JNull ''Unauthorized''
         else axios analysis_world req),
       Date_now = 1773828000000, first_rejects_first = True \<rparr>"

text \<open>The report expected for that fault and that service: the overview, the error type,
  the stack trace of the one notice, the trend data, and then the fix strategies, with no
  impact section between them.\<close>

definition example_report :: string where
  \<open>example_report =
       ''# Honeybadger Issue Analysis\<newline>''
       @ ''\<newline>''
       @ ''## Fault Overview\<newline>''
       @ ''- **ID**: 127320184\<newline>''
       @ ''- **Error Class**: NoMethodError\<newline>''
       @ ''- **Message**: undefined method\<newline>''
       @ ''- **Environment**: production\<newline>''
       @ ''- **Occurrences**: 12\<newline>''
       @ ''- **First Seen**: 2026-02-01T08:00:00Z\<newline>''
       @ ''- **Last Seen**: 2026-02-16T10:00:00Z\<newline>''
       @ ''- **Status**: Unresolved\<newline>''
       @ ''- **URL**: https://app.honeybadger.io/projects/41227/faults/127320184\<newline>''
       @ ''\<newline>''
       @ ''## Error Analysis\<newline>''
       @ ''\<newline>''
       @ ''### Error Type\<newline>''
       @ ''The error "NoMethodError" suggests:\<newline>''
       @ ''- A method is being called on an object that doesn'' @ [CHR 0x27] @ ''t respond to it\<newline>''
       @ ''- Possible nil object or wrong object type\<newline>''
       @ ''- Missing method definition or typo in method name\<newline>''
       @ ''\<newline>''
       @ ''### Stack Trace Analysis\<newline>''
       @ ''\<newline>''
       @ ''**Primary Error Location:**\<newline>''
       @ ''- File: `app/models/user.rb`\<newline>''
       @ ''- Method: `name`\<newline>''
       @ ''- Line: 42\<newline>''
       @ ''\<newline>''
       @ ''## Trend Analysis (Last 30 Days)\<newline>''
       @ ''- Total fault count data: {"total":12}\<newline>''
       @ ''\<newline>''
       @ ''## Recommended Fix Strategies\<newline>''
       @ ''\<newline>''
       @ ''### Immediate Actions\<newline>''
       @ ''1. **Reproduce the Error**\<newline>''
       @ ''   - Use the provided context and parameters\<newline>''
       @ ''   - Set up similar conditions in development\<newline>''
       @ ''   - Add logging around the error location\<newline>''
       @ ''\<newline>''
       @ ''2. **Quick Fixes**\<newline>''
       @ ''   - Add nil checks: `object&.method_name`\<newline>''
       @ ''   - Verify object type before method calls\<newline>''
       @ ''   - Check method spelling and availability\<newline>''
       @ ''\<newline>''
       @ ''### Long-term Solutions\<newline>''
       @ ''1. **Add Error Handling**\<newline>''
       @ ''   - Implement proper exception handling\<newline>''
       @ ''   - Add user-friendly error messages\<newline>''
       @ ''   - Log detailed error information\<newline>''
       @ ''\<newline>''
       @ ''2. **Add Tests**\<newline>''
       @ ''   - Write unit tests covering the error scenario\<newline>''
       @ ''   - Add integration tests for the affected flow\<newline>''
       @ ''   - Include edge case testing\<newline>''
       @ ''\<newline>''
       @ ''3. **Code Review**\<newline>''
       @ ''   - Review similar patterns in codebase\<newline>''
       @ ''   - Look for related potential issues\<newline>''
       @ ''   - Implement defensive programming practices\<newline>''
       @ ''\<newline>''
       @ ''### Monitoring\<newline>''
       @ ''- Set up alerts for this error pattern\<newline>''
       @ ''- Monitor error frequency after fixes\<newline>''
       @ ''- Track related errors that might emerge\<newline>''
       @ ''\<newline>''
       @ ''## Next Steps\<newline>''
       @ ''1. Examine the code at the primary error location\<newline>''
       @ ''2. Set up local reproduction using the provided context\<newline>''
       @ ''3. Implement the recommended fixes\<newline>''
       @ ''4. Add appropriate tests\<newline>''
       @ ''5. Deploy and monitor the fix effectiveness\<newline>''
       @ ''\<newline>''
       @ ''---\<newline>''
       @ ''*Analysis generated from Honeybadger fault #127320184*''\<close>

section \<open>The registry and the read-only policy\<close>

lemma write_enabled_iff:
  "(\<not> readOnly (loadConfig env)) = (HONEYBADGER_READ_ONLY env = Some ''false'')"
  by (simp add: loadConfig_def)

lemma read_tool_names:
  "map tool_name (registerReadTools rt cfg) =
     [''list_honeybadger_projects'', ''get_honeybadger_project'',
      ''get_honeybadger_project_occurrence_counts'', ''get_honeybadger_project_integrations'',
      ''get_honeybadger_project_report'', ''list_honeybadger_faults'', ''get_honeybadger_fault'',
      ''get_honeybadger_fault_counts'', ''list_honeybadger_fault_notices'',
      ''list_honeybadger_fault_affected_users'', ''query_honeybadger_insights'',
      ''analyze_honeybadger_issue'']"
  by (simp add: registerReadTools_def)

lemma write_tool_names:
  "map tool_name (registerWriteTools rt cfg) =
     [''create_honeybadger_project'', ''update_honeybadger_project'',
      ''delete_honeybadger_project'']"
  by (simp add: registerWriteTools_def)

lemma read_tools_hint: "filter (\<lambda>t. \<not> readOnlyHint t) (registerReadTools rt cfg) = []"
  by (simp add: registerReadTools_def)

lemma write_tools_hint:
  "filter (\<lambda>t. \<not> readOnlyHint t) (registerWriteTools rt cfg) = registerWriteTools rt cfg"
  by (simp add: registerWriteTools_def)

text \<open>
  Claim C1. A tool tagged write-capable (\<open>create_honeybadger_project\<close>,
  \<open>update_honeybadger_project\<close>, \<open>delete_honeybadger_project\<close>) is in the registry the
  constructor builds if and only if \<open>HONEYBADGER_READ_ONLY\<close> is set to the literal
  \<open>false\<close>; the tools without the read-only tag are then exactly these three, and no two
  registered tools share a name. The registry is a value computed from the environment at
  construction: a call takes the server and returns a result and the requests issued,
  never a changed server.
\<close>

theorem write_tools_registered_iff_write_enabled:
  "(''create_honeybadger_project'' \<in> set (tool_names (HoneybadgerMCPServer rt env)))
     = (HONEYBADGER_READ_ONLY env = Some ''false'')
   \<and> (''update_honeybadger_project'' \<in> set (tool_names (HoneybadgerMCPServer rt env)))
     = (HONEYBADGER_READ_ONLY env = Some ''false'')
   \<and> (''delete_honeybadger_project'' \<in> set (tool_names (HoneybadgerMCPServer rt env)))
     = (HONEYBADGER_READ_ONLY env = Some ''false'')
   \<and> map tool_name (filter (\<lambda>t. \<not> readOnlyHint t) (tools (HoneybadgerMCPServer rt env)))
     = (if HONEYBADGER_READ_ONLY env = Some ''false''
        then [''create_honeybadger_project'', ''update_honeybadger_project'',
              ''delete_honeybadger_project'']
        else [])
   \<and> distinct (tool_names (HoneybadgerMCPServer rt env))"
proof -
  have rs: "tool_name ` set (registerReadTools rt cfg)
              = set (map tool_name (registerReadTools rt cfg))" for cfg
    by simp
  have ws: "tool_name ` set (registerWriteTools rt cfg)
              = set (map tool_name (registerWriteTools rt cfg))" for cfg
    by simp
  show ?thesis
    using write_enabled_iff[of env]
    by (simp add: HoneybadgerMCPServer_def tool_names_def setupTools_def
          read_tools_hint write_tools_hint rs ws del: set_map)
       (simp add: read_tool_names write_tool_names)
qed

section \<open>Sequencing and the request executor\<close>

lemma bind_io_Inl [simp]: "bind_io (Inl e, tr) f = (Inl e, tr)"
  by (simp add: bind_io_def)

lemma bind_io_Inr: "bind_io (Inr x, tr) f = (fst (f x), tr @ snd (f x))"
  by (simp add: bind_io_def split: prod.splits)

lemma bind_io_Inr_nil [simp]: "bind_io (Inr x, []) f = f x"
  by (simp add: bind_io_def split: prod.splits)

lemma catch_tool_Inl [simp]: "catch_tool rt (Inl e, tr) = (toolError (e_message rt e), tr)"
  by (simp add: catch_tool_def)

lemma catch_tool_Inr [simp]: "catch_tool rt (Inr r, tr) = (r, tr)"
  by (simp add: catch_tool_def)

lemma e_message_Error [simp]: "e_message rt (Error m) = m"
  by (simp add: e_message_def)

lemma request_resolved:
  assumes "apiKey cfg \<noteq> []"
    and "axios w (build_request rt cfg endpoint options) = Resolved d"
  shows "makeHoneybadgerRequest rt cfg w endpoint options
           = (Inr d, [build_request rt cfg endpoint options])"
  using assms by (simp add: makeHoneybadgerRequest_def Let_def)

lemma request_rejected:
  assumes "apiKey cfg \<noteq> []"
    and "axios w (build_request rt cfg endpoint options) = Rejected err"
  shows "makeHoneybadgerRequest rt cfg w endpoint options
           = (Inl (Error (error_taxonomy endpoint err)), [build_request rt cfg endpoint options])"
  using assms
  by (simp add: makeHoneybadgerRequest_def error_taxonomy_def map_service_error_def Let_def
        split: option.splits)

lemma request_without_key:
  "apiKey cfg = [] \<Longrightarrow> makeHoneybadgerRequest rt cfg w endpoint options
     = (Inl (Error ''HONEYBADGER_API_KEY environment variable is required''), [])"
  by (simp add: makeHoneybadgerRequest_def)

lemma request_trace:
  "apiKey cfg \<noteq> [] \<Longrightarrow> snd (makeHoneybadgerRequest rt cfg w endpoint options)
     = [build_request rt cfg endpoint options]"
  by (simp add: makeHoneybadgerRequest_def Let_def split: axios_outcome.splits option.splits)

lemma example_key: "apiKey example_config \<noteq> []"
  by (simp add: example_config_def)

lemma service_always_axios [simp]: "axios (service_always out) req = out"
  by (simp add: service_always_def)

section \<open>Write tools\<close>

text \<open>
  Claim C9, as the code has it. A successful create wraps the raw service response under
  the label \<open>created project\<close>, a successful update wraps it under \<open>updated project\<close>;
  a successful delete carries the label \<open>deleted project\<close> and wraps the object
  \<open>{id}\<close> of the requested identifier, whatever the service returned. The text is
  \<open>Successfully <label>\<close>, a blank line and the pretty-printed value.
\<close>

theorem write_responses_labelled:
  assumes "apiKey cfg \<noteq> []" and "\<forall>req. axios w req = Resolved d"
  shows "fst (create_honeybadger_project rt cfg w account_id name r1 r2 u1 u2 pd usf)
           = formatWriteResponse d ''created project''
       \<and> fst (update_honeybadger_project rt cfg w ident oname r1 r2 u1 u2 pd usf)
           = formatWriteResponse d ''updated project''
       \<and> fst (delete_honeybadger_project rt cfg w ident True)
           = formatWriteResponse (JObject [(''id'', JNumber ident)]) ''deleted project''
       \<and> content_text (formatWriteResponse v operation)
           = ''Successfully '' @ operation @ [CHR 0x0A, CHR 0x0A] @ JSON_stringify2 v"
  using assms
  by (simp add: create_honeybadger_project_def update_honeybadger_project_def
        delete_honeybadger_project_def request_resolved bind_io_Inr lift_def
        formatWriteResponse_def Let_def)

theorem write_responses_labelled_witness:
  \<open>fst (update_honeybadger_project example_runtime example_config
          (service_always (Resolved (JObject [(''id'', JNumber (Num 7))]))) (Num 7)
          (Some ''renamed'') None None None None None None)
     = \<lparr> content_text = ''Successfully updated project'' @ [CHR 0x0A, CHR 0x0A]
           @ ''{'' @ [CHR 0x0A] @ ''  "id": 7'' @ [CHR 0x0A] @ ''}'', isError = False \<rparr>\<close>
proof -
  have h: "\<forall>req. axios (service_always (Resolved (JObject [(''id'', JNumber (Num 7))]))) req
              = Resolved (JObject [(''id'', JNumber (Num 7))])"
    by simp
  have e: \<open>JSON_stringify2 (JObject [(''id'', JNumber (Num 7))])
             = ''{'' @ [CHR 0x0A] @ ''  "id": 7'' @ [CHR 0x0A] @ ''}''\<close>
    by code_simp
  from write_responses_labelled[OF example_key h]
  show ?thesis by (simp add: formatWriteResponse_def e)
qed

text \<open>The delete result does not wrap the raw service response.\<close>

theorem delete_response_not_raw_counterexample:
  "fst (delete_honeybadger_project example_runtime example_config
          (service_always (Resolved (JObject [(''status'', JString ''gone'')]))) (Num 7) True)
     = formatWriteResponse (JObject [(''id'', JNumber (Num 7))]) ''deleted project''
   \<and> fst (delete_honeybadger_project example_runtime example_config
          (service_always (Resolved (JObject [(''status'', JString ''gone'')]))) (Num 7) True)
     \<noteq> formatWriteResponse (JObject [(''status'', JString ''gone'')]) ''deleted project''"
  by code_simp

lemma find_append:
  "find P (xs @ ys) = (case find P xs of None \<Rightarrow> find P ys | Some x \<Rightarrow> Some x)"
  by (induction xs) auto

lemma write_tool_not_read:
  "find (\<lambda>t. tool_name t = ''delete_honeybadger_project'') (registerReadTools rt cfg) = None"
  by (simp add: registerReadTools_def)

lemma single_request_trace:
  fixes g :: "jsval \<Rightarrow> tool_result"
  assumes "apiKey cfg \<noteq> []"
  shows "snd (catch_tool rt (bind_io (makeHoneybadgerRequest rt cfg w ep opts)
                               (\<lambda>r. lift (Inr (g r)))))
           = [build_request rt cfg ep opts]"
  using assms
  by (cases "axios w (build_request rt cfg ep opts)")
     (simp_all add: request_resolved request_rejected bind_io_Inr lift_def)

text \<open>
  Claim C3, as the code has it. Only \<open>delete_honeybadger_project\<close> has a confirmation
  flag. Called with \<open>confirm\<close> false it returns the confirmation-required error and
  issues no request; called with \<open>confirm\<close> true it issues exactly one request (a
  \<open>DELETE\<close>) when an API key is configured, and none, with the credential error, when
  there is no key. A call through the registry that leaves \<open>confirm\<close> out is rejected by
  the input schema, with no request either. \<open>create_honeybadger_project\<close> and
  \<open>update_honeybadger_project\<close> have no such flag and issue exactly one request.
\<close>

theorem delete_requires_confirmation:
  "delete_honeybadger_project rt cfg w ident False = (toolError confirmation_required, [])
   \<and> (apiKey cfg \<noteq> [] \<longrightarrow>
        snd (delete_honeybadger_project rt cfg w ident True)
          = [build_request rt cfg (''/projects/'' @ show_num ident)
               \<lparr> opt_method = Some DELETE, opt_params = JUndefined, opt_data = JUndefined \<rparr>])
   \<and> (apiKey cfg = [] \<longrightarrow>
        delete_honeybadger_project rt cfg w ident True
          = (toolError ''HONEYBADGER_API_KEY environment variable is required'', []))
   \<and> (apiKey cfg \<noteq> [] \<longrightarrow>
        length (snd (create_honeybadger_project rt cfg w account_id name r1 r2 u1 u2 pd usf)) = 1
        \<and> length (snd (update_honeybadger_project rt cfg w ident oname r1 r2 u1 u2 pd usf)) = 1)
   \<and> (HONEYBADGER_READ_ONLY env = Some ''false'' \<and> arg a ''confirm'' = JUndefined \<longrightarrow>
        snd (callTool (HoneybadgerMCPServer rt env) w ''delete_honeybadger_project'' a) = []
        \<and> (\<exists>bad. fst (callTool (HoneybadgerMCPServer rt env) w ''delete_honeybadger_project'' a)
                     = InvalidArguments bad \<and> ''confirm'' \<in> set bad))"
proof -
  have c: "HONEYBADGER_READ_ONLY env = Some ''false'' \<Longrightarrow> arg a ''confirm'' = JUndefined \<Longrightarrow>
        snd (callTool (HoneybadgerMCPServer rt env) w ''delete_honeybadger_project'' a) = []
        \<and> (\<exists>bad. fst (callTool (HoneybadgerMCPServer rt env) w ''delete_honeybadger_project'' a)
                     = InvalidArguments bad \<and> ''confirm'' \<in> set bad)"
    by (simp add: callTool_def HoneybadgerMCPServer_def setupTools_def loadConfig_def
          find_append write_tool_not_read registerWriteTools_def parse_field_def
          split: prod.splits option.splits)
  show ?thesis
    using c
    by (simp add: delete_honeybadger_project_def create_honeybadger_project_def
          update_honeybadger_project_def single_request_trace request_without_key Let_def)
qed

theorem delete_requires_confirmation_witness:
  "delete_honeybadger_project example_runtime example_config
       (service_always (Resolved JNull)) (Num 7) False
     = (toolError confirmation_required, [])
   \<and> length (snd (delete_honeybadger_project example_runtime example_config
       (service_always (Resolved JNull)) (Num 7) True)) = 1
   \<and> snd (callTool (HoneybadgerMCPServer example_runtime example_environment)
        (service_always (Resolved JNull)) ''delete_honeybadger_project''
        [(''id'', JNumber (Num 7))]) = []"
proof -
  have h1: "HONEYBADGER_READ_ONLY example_environment = Some ''false''"
    by (simp add: example_environment_def)
  have h2: "arg [(''id'', JNumber (Num 7))] ''confirm'' = JUndefined"
    by (simp add: arg_def)
  from delete_requires_confirmation[where rt = example_runtime and cfg = example_config
         and w = "service_always (Resolved JNull)" and ident = "Num 7"
         and env = example_environment and a = "[(''id'', JNumber (Num 7))]"]
  show ?thesis using example_key h1 h2 by simp
qed

text \<open>An update has no confirmation flag to set: it is dispatched at once.\<close>

theorem update_has_no_confirmation_counterexample:
  "length (snd (update_honeybadger_project example_runtime example_config
          (service_always (Resolved (JObject [(''id'', JNumber (Num 7))]))) (Num 7)
          (Some ''renamed'') None None None None None None)) = 1
   \<and> fst (update_honeybadger_project example_runtime example_config
          (service_always (Resolved (JObject [(''id'', JNumber (Num 7))]))) (Num 7)
          (Some ''renamed'') None None None None None None)
      \<noteq> toolError confirmation_required"
  by code_simp

section \<open>Scope resolution\<close>

lemma scope_failure_stops_call:
  assumes "resolveProjectId rt cfg p = Inl e"
  shows "get_honeybadger_project_integrations rt cfg w p = (toolError (e_message rt e), [])"
    and "get_honeybadger_project_report rt cfg w p report start stop environment
           = (toolError (e_message rt e), [])"
    and "list_honeybadger_faults rt cfg w p q created_after occurred_after occurred_before
           limit order pg = (toolError (e_message rt e), [])"
    and "get_honeybadger_fault rt cfg w fault_id p = (toolError (e_message rt e), [])"
    and "get_honeybadger_fault_counts rt cfg w p q created_after occurred_after occurred_before
           = (toolError (e_message rt e), [])"
    and "list_honeybadger_fault_notices rt cfg w fault_id p limit = (toolError (e_message rt e), [])"
    and "list_honeybadger_fault_affected_users rt cfg w p fault_id q
           = (toolError (e_message rt e), [])"
    and "query_honeybadger_insights rt cfg w p query ts timezone = (toolError (e_message rt e), [])"
    and "analyze_honeybadger_issue rt cfg w fault_id p include_context
           = (toolError (e_message rt e), [])"
  using assms
  by (simp_all add: get_honeybadger_project_integrations_def get_honeybadger_project_report_def
        list_honeybadger_faults_def get_honeybadger_fault_def get_honeybadger_fault_counts_def
        list_honeybadger_fault_notices_def list_honeybadger_fault_affected_users_def
        query_honeybadger_insights_def analyze_honeybadger_issue_def lift_def Let_def)

lemma resolve_explicit: "truthy_num n \<Longrightarrow> resolveProjectId rt cfg (Some n) = Inr n"
  by (simp add: resolveProjectId_def truthy_onum_def)

lemma resolve_default:
  "\<not> truthy_onum p \<Longrightarrow> projectId cfg = Some s \<Longrightarrow> s \<noteq> [] \<Longrightarrow> truthy_num (Number_of rt s)
     \<Longrightarrow> resolveProjectId rt cfg p = Inr (Number_of rt s)"
  by (simp add: resolveProjectId_def)

lemma resolve_absent:
  "\<not> truthy_onum p \<Longrightarrow> projectId cfg = None \<or> projectId cfg = Some []
     \<Longrightarrow> resolveProjectId rt cfg p = Inl (Error project_id_required)"
  by (auto simp add: resolveProjectId_def)

lemma resolve_NaN:
  "\<not> truthy_onum p \<Longrightarrow> projectId cfg = Some s \<Longrightarrow> Number_of rt s = NaN
     \<Longrightarrow> resolveProjectId rt cfg p = Inl (Error project_id_required)"
  by (simp add: resolveProjectId_def)

lemma required_message_names_both:
  "str_includes project_id_required ''project_id''
   \<and> str_includes project_id_required ''HONEYBADGER_PROJECT_ID''"
  by code_simp

text \<open>
  Claim C10. When \<open>HONEYBADGER_PROJECT_ID\<close> is set to a string whose numeric conversion
  is \<open>NaN\<close>, scope resolution without an explicit \<open>project_id\<close> fails with the
  project-ID-required error, and each operation that resolves its scope returns that
  error without issuing a request.
\<close>

theorem non_numeric_default_is_absent:
  assumes "HONEYBADGER_PROJECT_ID env = Some s" and "Number_of rt s = NaN"
    and "cfg = loadConfig env"
  shows "resolveProjectId rt cfg None = Inl (Error project_id_required)
       \<and> get_honeybadger_project_integrations rt cfg w None = (toolError project_id_required, [])
       \<and> get_honeybadger_project_report rt cfg w None report start stop environment
           = (toolError project_id_required, [])
       \<and> list_honeybadger_faults rt cfg w None q created_after occurred_after occurred_before
           limit order pg = (toolError project_id_required, [])
       \<and> get_honeybadger_fault rt cfg w fault_id None = (toolError project_id_required, [])
       \<and> get_honeybadger_fault_counts rt cfg w None q created_after occurred_after occurred_before
           = (toolError project_id_required, [])
       \<and> list_honeybadger_fault_notices rt cfg w fault_id None limit
           = (toolError project_id_required, [])
       \<and> list_honeybadger_fault_affected_users rt cfg w None fault_id q
           = (toolError project_id_required, [])
       \<and> query_honeybadger_insights rt cfg w None query ts timezone
           = (toolError project_id_required, [])
       \<and> analyze_honeybadger_issue rt cfg w fault_id None include_context
           = (toolError project_id_required, [])"
proof -
  have "projectId cfg = Some s"
    using assms(1,3) by (simp add: loadConfig_def)
  then have "resolveProjectId rt cfg None = Inl (Error project_id_required)"
    using assms(2) by (simp add: resolve_NaN truthy_onum_def)
  then show ?thesis by (simp add: scope_failure_stops_call)
qed

theorem non_numeric_default_is_absent_witness:
  "list_honeybadger_faults example_runtime
      (loadConfig (example_environment \<lparr> HONEYBADGER_PROJECT_ID := Some ''abc'' \<rparr>))
      (service_always (Resolved JNull)) None None None None None None None None
     = (toolError project_id_required, [])"
proof -
  have h1: "HONEYBADGER_PROJECT_ID (example_environment \<lparr> HONEYBADGER_PROJECT_ID := Some ''abc'' \<rparr>)
              = Some ''abc''"
    by simp
  have h2: "Number_of example_runtime ''abc'' = NaN" by (simp add: example_runtime_def)
  from non_numeric_default_is_absent[OF h1 h2 refl] show ?thesis by simp
qed

section \<open>Page sizes\<close>

lemma snd_catch_tool [simp]: "snd (catch_tool rt m) = snd m"
  by (simp add: catch_tool_def split: prod.splits sum.splits)

lemma snd_bind_io:
  "snd (bind_io m f) = (case fst m of Inl e \<Rightarrow> snd m | Inr x \<Rightarrow> snd m @ snd (f x))"
  by (simp add: bind_io_def split: prod.splits sum.splits)

lemma snd_lift [simp]: "snd (lift r) = []"
  by (simp add: lift_def)

lemma fst_lift [simp]: "fst (lift r) = r"
  by (simp add: lift_def)

lemma snd_list_result [simp]: "snd (list_result d md) = []"
  by (simp add: list_result_def snd_bind_io split: sum.splits)

lemma request_trace_cases:
  "snd (makeHoneybadgerRequest rt cfg w endpoint options)
     = (if apiKey cfg = [] then [] else [build_request rt cfg endpoint options])"
  by (simp add: request_trace request_without_key)

lemma add_str_keeps: "map_of ps k = Some v \<Longrightarrow> map_of (add_str k' x ps) k = Some v"
  by (simp add: add_str_def map_add_def)

lemma add_timestamp_keeps:
  "add_timestamp rt k' ts ps = Inr ps' \<Longrightarrow> map_of ps k = Some v \<Longrightarrow> map_of ps' k = Some v"
  by (auto simp add: add_timestamp_def map_add_def split: if_splits sum.splits)

lemma dispatched_with_params:
  "map_of ps k = Some v \<Longrightarrow>
     dispatched_param (build_request rt cfg ep (with_params (JObject ps))) k = v"
  by (simp add: dispatched_param_def build_request_def with_params_def)

lemma Math_min_Num [simp]: "Math_min (Num a) (Num b) = Num (min a b)"
  by (simp add: Math_min_def)

lemma faults_clamp:
  "\<forall>r \<in> set (snd (list_honeybadger_faults rt cfg w p q ca oa ob (Some (Num n)) ord pg)).
      dispatched_param r ''limit'' = JNumber (Num (min n 25))"
  by (auto simp add: list_honeybadger_faults_def Let_def snd_bind_io request_trace_cases
        default_num_def
        intro!: dispatched_with_params add_str_keeps
        elim!: add_timestamp_keeps
        split: sum.splits if_splits)

lemma notices_clamp:
  "\<forall>r \<in> set (snd (list_honeybadger_fault_notices rt cfg w fid p (Some (Num n)))).
      dispatched_param r ''limit'' = JNumber (Num (min n 25))"
  by (auto simp add: list_honeybadger_fault_notices_def Let_def snd_bind_io request_trace_cases
        default_num_def
        intro!: dispatched_with_params
        split: sum.splits if_splits)

lemma projects_clamp:
  "\<forall>r \<in> set (snd (list_honeybadger_projects rt cfg w acc pg (Some (Num n)))).
      dispatched_param r ''per_page'' = JNumber (Num (min n 100))"
  by (auto simp add: list_honeybadger_projects_def Let_def snd_bind_io request_trace_cases
        default_num_def
        intro!: dispatched_with_params
        split: sum.splits if_splits)

lemma parse_schema_bad:
  "map_of sch k = Some f \<Longrightarrow> parse_field f (arg a k) = None
     \<Longrightarrow> k \<in> set (fst (parse_schema sch a))"
  by (induction sch) (auto split: prod.splits option.splits if_splits)

lemma callTool_rejects:
  assumes "find (\<lambda>t. tool_name t = nm) (tools srv) = Some t"
    and "map_of (inputSchema t) k = Some f"
    and "parse_field f (arg a k) = None"
  shows "\<exists>bad. callTool srv w nm a = (InvalidArguments bad, []) \<and> k \<in> set bad"
proof -
  obtain bad parsed where ps: "parse_schema (inputSchema t) a = (bad, parsed)"
    by (cases "parse_schema (inputSchema t) a")
  with parse_schema_bad[OF assms(2,3)] have "k \<in> set bad" by simp
  then have "bad \<noteq> []" by auto
  with assms(1) ps \<open>k \<in> set bad\<close> show ?thesis
    by (simp add: callTool_def)
qed

lemma too_large_rejected:
  "hi < n \<Longrightarrow> parse_field (ZNumber lo (Some hi), pres) (JNumber (Num n)) = None"
  by (simp add: parse_field_def upper_ok_def)

lemma find_faults:
  "\<exists>t. find (\<lambda>t. tool_name t = ''list_honeybadger_faults'')
            (tools (HoneybadgerMCPServer rt env)) = Some t
     \<and> map_of (inputSchema t) ''limit''
           = Some (ZNumber (Some 1) (Some 25), Default (JNumber (Num 20)))"
  by (simp add: HoneybadgerMCPServer_def setupTools_def find_append registerReadTools_def
        project_id_field_def timestamp_filter_fields_def)

lemma find_notices:
  "\<exists>t. find (\<lambda>t. tool_name t = ''list_honeybadger_fault_notices'')
            (tools (HoneybadgerMCPServer rt env)) = Some t
     \<and> map_of (inputSchema t) ''limit''
           = Some (ZNumber (Some 1) (Some 25), Default (JNumber (Num 10)))"
  by (simp add: HoneybadgerMCPServer_def setupTools_def find_append registerReadTools_def
        project_id_field_def)

lemma find_projects:
  "\<exists>t. find (\<lambda>t. tool_name t = ''list_honeybadger_projects'')
            (tools (HoneybadgerMCPServer rt env)) = Some t
     \<and> map_of (inputSchema t) ''per_page''
           = Some (ZNumber (Some 1) (Some 100), Default (JNumber (Num 20)))"
  by (simp add: HoneybadgerMCPServer_def setupTools_def find_append registerReadTools_def)

lemma oversize_rejected:
  "arg a ''limit'' = JNumber (Num n) \<Longrightarrow> 25 < n \<Longrightarrow>
     \<exists>bad. callTool (HoneybadgerMCPServer rt env) w ''list_honeybadger_faults'' a
              = (InvalidArguments bad, []) \<and> ''limit'' \<in> set bad"
  "arg a ''limit'' = JNumber (Num n) \<Longrightarrow> 25 < n \<Longrightarrow>
     \<exists>bad. callTool (HoneybadgerMCPServer rt env) w ''list_honeybadger_fault_notices'' a
              = (InvalidArguments bad, []) \<and> ''limit'' \<in> set bad"
  "arg a ''per_page'' = JNumber (Num n) \<Longrightarrow> 100 < n \<Longrightarrow>
     \<exists>bad. callTool (HoneybadgerMCPServer rt env) w ''list_honeybadger_projects'' a
              = (InvalidArguments bad, []) \<and> ''per_page'' \<in> set bad"
  using find_faults[of rt env] find_notices[of rt env] find_projects[of rt env]
  by (auto intro!: callTool_rejects simp: too_large_rejected)

text \<open>
  Claim C2, as the code has it. The callbacks of \<open>list_honeybadger_faults\<close>,
  \<open>list_honeybadger_fault_notices\<close> (maximum 25) and \<open>list_honeybadger_projects\<close>
  (maximum 100) compute the minimum of the requested size and the maximum, so every
  request they dispatch carries at most the maximum. A call through the registry never
  brings a larger size to the callback: the input schema declares the same maximum, and a
  requested size above it is rejected as an invalid argument, with no request dispatched.
\<close>

theorem page_size_clamped_by_callback_rejected_by_schema:
  "(\<forall>r \<in> set (snd (list_honeybadger_faults rt cfg w p q ca oa ob (Some (Num n)) ord pg)).
       dispatched_param r ''limit'' = JNumber (Num (min n 25)))
   \<and> (\<forall>r \<in> set (snd (list_honeybadger_fault_notices rt cfg w fid p (Some (Num n)))).
       dispatched_param r ''limit'' = JNumber (Num (min n 25)))
   \<and> (\<forall>r \<in> set (snd (list_honeybadger_projects rt cfg w acc pg (Some (Num n)))).
       dispatched_param r ''per_page'' = JNumber (Num (min n 100)))
   \<and> (arg a ''limit'' = JNumber (Num n) \<and> 25 < n \<longrightarrow>
        (\<exists>bad. callTool (HoneybadgerMCPServer rt env) w ''list_honeybadger_faults'' a
                  = (InvalidArguments bad, []) \<and> ''limit'' \<in> set bad)
        \<and> (\<exists>bad. callTool (HoneybadgerMCPServer rt env) w ''list_honeybadger_fault_notices'' a
                  = (InvalidArguments bad, []) \<and> ''limit'' \<in> set bad))
   \<and> (arg a ''per_page'' = JNumber (Num n) \<and> 100 < n \<longrightarrow>
        (\<exists>bad. callTool (HoneybadgerMCPServer rt env) w ''list_honeybadger_projects'' a
                  = (InvalidArguments bad, []) \<and> ''per_page'' \<in> set bad))"
  by (simp add: faults_clamp notices_clamp projects_clamp oversize_rejected)

theorem page_size_clamped_by_callback_rejected_by_schema_witness:
  "snd (list_honeybadger_faults example_runtime example_config
          (service_always (Resolved (JObject [(''results'', JArray [])])))
          (Some (Num 41227)) None None None None (Some (Num 30)) None None)
     = [build_request example_runtime example_config ''/projects/41227/faults''
          (with_params (JObject [(''limit'', JNumber (Num 25)), (''order'', JString ''recent''),
                                 (''page'', JNumber (Num 1))]))]
   \<and> dispatched_param
        (build_request example_runtime example_config ''/projects/41227/faults''
          (with_params (JObject [(''limit'', JNumber (Num 25)), (''order'', JString ''recent''),
                                 (''page'', JNumber (Num 1))]))) ''limit''
       = JNumber (Num 25)
   \<and> snd (callTool (HoneybadgerMCPServer example_runtime example_environment)
          (service_always (Resolved (JObject [(''results'', JArray [])])))
          ''list_honeybadger_faults''
          [(''project_id'', JNumber (Num 41227)), (''limit'', JNumber (Num 30))]) = []"
proof -
  have tr: "snd (list_honeybadger_faults example_runtime example_config
          (service_always (Resolved (JObject [(''results'', JArray [])])))
          (Some (Num 41227)) None None None None (Some (Num 30)) None None)
     = [build_request example_runtime example_config ''/projects/41227/faults''
          (with_params (JObject [(''limit'', JNumber (Num 25)), (''order'', JString ''recent''),
                                 (''page'', JNumber (Num 1))]))]"
    by code_simp
  have h: "arg [(''project_id'', JNumber (Num 41227)), (''limit'', JNumber (Num 30))] ''limit''
             = JNumber (Num 30) \<and> (25::int) < 30"
    by (simp add: arg_def)
  from page_size_clamped_by_callback_rejected_by_schema[where rt = example_runtime
         and cfg = example_config and env = example_environment
         and w = "service_always (Resolved (JObject [(''results'', JArray [])]))"
         and p = "Some (Num 41227)" and q = None and ca = None and oa = None and ob = None
         and n = 30 and ord = None and pg = None and fid = "Num 1" and acc = None
         and a = "[(''project_id'', JNumber (Num 41227)), (''limit'', JNumber (Num 30))]"]
  show ?thesis using tr h by auto
qed

text \<open>Through the registry, \<open>limit = 30\<close> is not clamped to 25 and dispatched: the call
  is rejected for its \<open>limit\<close> argument and no request is made.\<close>

theorem oversized_limit_rejected_counterexample:
  "callTool (HoneybadgerMCPServer example_runtime example_environment)
     (service_always (Resolved (JObject [(''results'', JArray [])])))
     ''list_honeybadger_faults''
     [(''project_id'', JNumber (Num 41227)), (''limit'', JNumber (Num 30))]
   = (InvalidArguments [''limit''], [])"
  by code_simp

section \<open>Timestamps\<close>

lemma str_includes_empty: "str_includes xs []"
  by (cases xs) auto

lemma str_includes_prefix: "str_includes (s @ b) s"
  by (cases s) (auto simp add: str_includes_empty)

lemma str_includes_infix: "str_includes (a @ s @ b) s"
proof (induction a)
  case Nil
  show ?case using str_includes_prefix by simp
next
  case (Cons x a)
  then show ?case by simp
qed

lemma message_quotes_value:
  "str_includes (invalid_timestamp s) s \<and> str_includes (invalid_timestamp s) ''RFC3339''"
proof -
  have 1: "str_includes (invalid_timestamp s) s"
    unfolding invalid_timestamp_def by (rule str_includes_infix)
  have "\<exists>a b. invalid_timestamp s = a @ ''RFC3339'' @ b"
    unfolding invalid_timestamp_def
    by (rule exI[of _ "''Invalid timestamp: '' @ [CHR 0x22] @ s @ [CHR 0x22] @ ''. Use ''"],
        rule exI[of _ "'' format, e.g. '' @ [CHR 0x22] @ ''2026-02-16T10:00:00Z'' @ [CHR 0x22]"])
       simp
  then have 2: "str_includes (invalid_timestamp s) ''RFC3339''"
    using str_includes_infix by metis
  from 1 2 show ?thesis by simp
qed

lemma add_timestamp_cases:
  "add_timestamp rt k ts ps =
     (case ts of
        None \<Rightarrow> Inr ps
      | Some s \<Rightarrow>
          if s = [] then Inr ps
          else (case Date_parse rt s of
                  None \<Rightarrow> Inl (Error (invalid_timestamp s))
                | Some t \<Rightarrow> Inr (ps @ [(k, JString (Date_toISOString rt t))])))"
  by (simp add: add_timestamp_def parseTimestamp_def truthy_ostr_def of_ostr_def
        split: option.splits)

lemma add_timestamp_malformed:
  "malformed rt ts \<Longrightarrow>
     \<exists>s. ts = Some s \<and> (\<forall>k ps. add_timestamp rt k ts ps = Inl (Error (invalid_timestamp s)))"
  by (auto simp add: add_timestamp_cases malformed_def split: option.splits)

lemma add_timestamp_ok:
  "\<not> malformed rt ts \<Longrightarrow> \<exists>ps'. add_timestamp rt k ts ps = Inr ps'"
  by (auto simp add: add_timestamp_cases malformed_def split: option.splits)

lemma add_timestamp_Inr:
  "add_timestamp rt k ts ps = Inr ps' \<Longrightarrow> ps' = ps @ ts_entry rt k ts \<and> \<not> malformed rt ts"
  by (auto simp add: add_timestamp_cases ts_entry_def ts_value_def malformed_def
        split: option.splits if_splits)

lemma map_of_ts_entry:
  "map_of (ts_entry rt k ts) k' = (if k' = k then ts_value rt ts else None)"
  by (simp add: ts_entry_def split: option.splits)

lemma map_of_add_str:
  "map_of (add_str k x ps) k' =
     (if k' = k \<and> truthy_ostr x \<and> map_of ps k = None then Some (of_ostr x) else map_of ps k')"
  by (auto simp add: add_str_def map_add_def split: option.splits)

lemma dispatched_lookup:
  "dispatched_param (build_request rt cfg ep (with_params (JObject ps))) k
     = (case map_of ps k of None \<Rightarrow> JUndefined | Some v \<Rightarrow> v)"
  by (simp add: dispatched_param_def build_request_def with_params_def)

subsection \<open>A malformed timestamp stops the call\<close>

lemma report_rejects:
  assumes r: "resolveProjectId rt cfg p = Inr pid"
    and m: "malformed rt start \<or> malformed rt stop"
  shows "\<exists>s. (start = Some s \<or> stop = Some s) \<and> malformed rt (Some s)
           \<and> get_honeybadger_project_report rt cfg w p report start stop environment
               = (toolError (invalid_timestamp s), [])"
proof -
  consider (a) "malformed rt start" | (b) "\<not> malformed rt start" "malformed rt stop"
    using m by blast
  then show ?thesis
  proof cases
    case a
    from add_timestamp_malformed[OF a] obtain s where
      s: "start = Some s" "\<And>k ps. add_timestamp rt k start ps = Inl (Error (invalid_timestamp s))"
      by blast
    have "get_honeybadger_project_report rt cfg w p report start stop environment
            = (toolError (invalid_timestamp s), [])"
      by (simp add: get_honeybadger_project_report_def r s(2) lift_def)
    with a s(1) show ?thesis by auto
  next
    case b
    from add_timestamp_malformed[OF b(2)] obtain s where
      s: "stop = Some s" "\<And>k ps. add_timestamp rt k stop ps = Inl (Error (invalid_timestamp s))"
      by blast
    obtain p1 where p1: "add_timestamp rt ''start'' start [] = Inr p1"
      using add_timestamp_ok[OF b(1)] by blast
    have "get_honeybadger_project_report rt cfg w p report start stop environment
            = (toolError (invalid_timestamp s), [])"
      by (simp add: get_honeybadger_project_report_def r p1 s(2) lift_def)
    with b s(1) show ?thesis by auto
  qed
qed

lemma faults_rejects:
  assumes r: "resolveProjectId rt cfg p = Inr pid"
    and m: "malformed rt ca \<or> malformed rt oa \<or> malformed rt ob"
  shows "\<exists>s. (ca = Some s \<or> oa = Some s \<or> ob = Some s) \<and> malformed rt (Some s)
           \<and> list_honeybadger_faults rt cfg w p q ca oa ob limit ord pg
               = (toolError (invalid_timestamp s), [])"
proof -
  consider (a) "malformed rt ca"
    | (b) "\<not> malformed rt ca" "malformed rt oa"
    | (c) "\<not> malformed rt ca" "\<not> malformed rt oa" "malformed rt ob"
    using m by blast
  then show ?thesis
  proof cases
    case a
    from add_timestamp_malformed[OF a] obtain s where
      s: "ca = Some s" "\<And>k ps. add_timestamp rt k ca ps = Inl (Error (invalid_timestamp s))"
      by blast
    have "list_honeybadger_faults rt cfg w p q ca oa ob limit ord pg
            = (toolError (invalid_timestamp s), [])"
      by (simp add: list_honeybadger_faults_def r s(2) lift_def Let_def)
    with a s(1) show ?thesis by auto
  next
    case b
    from add_timestamp_malformed[OF b(2)] obtain s where
      s: "oa = Some s" "\<And>k ps. add_timestamp rt k oa ps = Inl (Error (invalid_timestamp s))"
      by blast
    obtain p1 where p1: "add_timestamp rt ''created_after'' ca
                    (add_str ''q'' q
                       [(''limit'', JNumber (Math_min (default_num limit 20) (Num 25))),
                        (''order'', JString (default_str ord ''recent'')),
                        (''page'', JNumber (default_num pg 1))]) = Inr p1"
      using add_timestamp_ok[OF b(1)] by blast
    have "list_honeybadger_faults rt cfg w p q ca oa ob limit ord pg
            = (toolError (invalid_timestamp s), [])"
      by (simp add: list_honeybadger_faults_def r p1 s(2) lift_def Let_def)
    with b s(1) show ?thesis by auto
  next
    case c
    from add_timestamp_malformed[OF c(3)] obtain s where
      s: "ob = Some s" "\<And>k ps. add_timestamp rt k ob ps = Inl (Error (invalid_timestamp s))"
      by blast
    obtain p1 where p1: "add_timestamp rt ''created_after'' ca
                    (add_str ''q'' q
                       [(''limit'', JNumber (Math_min (default_num limit 20) (Num 25))),
                        (''order'', JString (default_str ord ''recent'')),
                        (''page'', JNumber (default_num pg 1))]) = Inr p1"
      using add_timestamp_ok[OF c(1)] by blast
    obtain p2 where p2: "add_timestamp rt ''occurred_after'' oa p1 = Inr p2"
      using add_timestamp_ok[OF c(2)] by blast
    have "list_honeybadger_faults rt cfg w p q ca oa ob limit ord pg
            = (toolError (invalid_timestamp s), [])"
      by (simp add: list_honeybadger_faults_def r p1 p2 s(2) lift_def Let_def)
    with c s(1) show ?thesis by auto
  qed
qed

lemma counts_rejects:
  assumes r: "resolveProjectId rt cfg p = Inr pid"
    and m: "malformed rt ca \<or> malformed rt oa \<or> malformed rt ob"
  shows "\<exists>s. (ca = Some s \<or> oa = Some s \<or> ob = Some s) \<and> malformed rt (Some s)
           \<and> get_honeybadger_fault_counts rt cfg w p q ca oa ob
               = (toolError (invalid_timestamp s), [])"
proof -
  consider (a) "malformed rt ca"
    | (b) "\<not> malformed rt ca" "malformed rt oa"
    | (c) "\<not> malformed rt ca" "\<not> malformed rt oa" "malformed rt ob"
    using m by blast
  then show ?thesis
  proof cases
    case a
    from add_timestamp_malformed[OF a] obtain s where
      s: "ca = Some s" "\<And>k ps. add_timestamp rt k ca ps = Inl (Error (invalid_timestamp s))"
      by blast
    have "get_honeybadger_fault_counts rt cfg w p q ca oa ob
            = (toolError (invalid_timestamp s), [])"
      by (simp add: get_honeybadger_fault_counts_def r s(2) lift_def)
    with a s(1) show ?thesis by auto
  next
    case b
    from add_timestamp_malformed[OF b(2)] obtain s where
      s: "oa = Some s" "\<And>k ps. add_timestamp rt k oa ps = Inl (Error (invalid_timestamp s))"
      by blast
    obtain p1 where p1: "add_timestamp rt ''created_after'' ca (add_str ''q'' q []) = Inr p1"
      using add_timestamp_ok[OF b(1)] by blast
    have "get_honeybadger_fault_counts rt cfg w p q ca oa ob
            = (toolError (invalid_timestamp s), [])"
      by (simp add: get_honeybadger_fault_counts_def r p1 s(2) lift_def)
    with b s(1) show ?thesis by auto
  next
    case c
    from add_timestamp_malformed[OF c(3)] obtain s where
      s: "ob = Some s" "\<And>k ps. add_timestamp rt k ob ps = Inl (Error (invalid_timestamp s))"
      by blast
    obtain p1 where p1: "add_timestamp rt ''created_after'' ca (add_str ''q'' q []) = Inr p1"
      using add_timestamp_ok[OF c(1)] by blast
    obtain p2 where p2: "add_timestamp rt ''occurred_after'' oa p1 = Inr p2"
      using add_timestamp_ok[OF c(2)] by blast
    have "get_honeybadger_fault_counts rt cfg w p q ca oa ob
            = (toolError (invalid_timestamp s), [])"
      by (simp add: get_honeybadger_fault_counts_def r p1 p2 s(2) lift_def)
    with c s(1) show ?thesis by auto
  qed
qed

subsection \<open>A dispatched timestamp is the rendering of the parsed instant\<close>

lemma report_trace_shape:
  assumes "r \<in> set (snd (get_honeybadger_project_report rt cfg w p report start stop environment))"
  shows "(\<not> malformed rt start \<and> \<not> malformed rt stop)
       \<and> (\<exists>pid. r = build_request rt cfg (''/projects/'' @ show_num pid @ ''/reports/'' @ report)
                  (with_params (JObject
                    (add_str ''environment'' environment
                       ([] @ ts_entry rt ''start'' start @ ts_entry rt ''stop'' stop)))))"
  using assms
  by (auto simp add: get_honeybadger_project_report_def snd_bind_io request_trace_cases
        dest!: add_timestamp_Inr
        split: sum.splits if_splits)

lemma report_normalized:
  assumes "r \<in> set (snd (get_honeybadger_project_report rt cfg w p report start stop environment))"
  shows "timestamp_normalized rt ''start'' start r \<and> timestamp_normalized rt ''stop'' stop r"
proof -
  from report_trace_shape[OF assms] obtain pid where
    ok: "\<not> malformed rt start" "\<not> malformed rt stop"
    and r: "r = build_request rt cfg (''/projects/'' @ show_num pid @ ''/reports/'' @ report)
                  (with_params (JObject
                    (add_str ''environment'' environment
                       ([] @ ts_entry rt ''start'' start @ ts_entry rt ''stop'' stop))))"
    by blast
  show ?thesis
    by (simp add: timestamp_normalized_def ok r dispatched_lookup map_add_def map_of_ts_entry
          map_of_add_str split: option.splits)
qed

lemma faults_trace_shape:
  assumes "r \<in> set (snd (list_honeybadger_faults rt cfg w p q ca oa ob limit ord pg))"
  shows "(\<not> malformed rt ca \<and> \<not> malformed rt oa \<and> \<not> malformed rt ob)
       \<and> (\<exists>pid. r = build_request rt cfg (''/projects/'' @ show_num pid @ ''/faults'')
                  (with_params (JObject
                    (add_str ''q'' q
                       [(''limit'', JNumber (Math_min (default_num limit 20) (Num 25))),
                        (''order'', JString (default_str ord ''recent'')),
                        (''page'', JNumber (default_num pg 1))]
                     @ ts_entry rt ''created_after'' ca @ ts_entry rt ''occurred_after'' oa
                     @ ts_entry rt ''occurred_before'' ob))))"
  using assms
  by (auto simp add: list_honeybadger_faults_def Let_def snd_bind_io request_trace_cases
        dest!: add_timestamp_Inr
        split: sum.splits if_splits)

lemma faults_normalized:
  assumes "r \<in> set (snd (list_honeybadger_faults rt cfg w p q ca oa ob limit ord pg))"
  shows "timestamp_normalized rt ''created_after'' ca r
       \<and> timestamp_normalized rt ''occurred_after'' oa r
       \<and> timestamp_normalized rt ''occurred_before'' ob r"
proof -
  from faults_trace_shape[OF assms] obtain pid where
    ok: "\<not> malformed rt ca" "\<not> malformed rt oa" "\<not> malformed rt ob"
    and r: "r = build_request rt cfg (''/projects/'' @ show_num pid @ ''/faults'')
                  (with_params (JObject
                    (add_str ''q'' q
                       [(''limit'', JNumber (Math_min (default_num limit 20) (Num 25))),
                        (''order'', JString (default_str ord ''recent'')),
                        (''page'', JNumber (default_num pg 1))]
                     @ ts_entry rt ''created_after'' ca @ ts_entry rt ''occurred_after'' oa
                     @ ts_entry rt ''occurred_before'' ob)))"
    by blast
  show ?thesis
    by (simp add: timestamp_normalized_def ok r dispatched_lookup map_add_def map_of_ts_entry
          map_of_add_str split: option.splits)
qed

lemma counts_trace_shape:
  assumes "r \<in> set (snd (get_honeybadger_fault_counts rt cfg w p q ca oa ob))"
  shows "(\<not> malformed rt ca \<and> \<not> malformed rt oa \<and> \<not> malformed rt ob)
       \<and> (\<exists>pid. r = build_request rt cfg (''/projects/'' @ show_num pid @ ''/faults/summary'')
                  (with_params (JObject
                    (add_str ''q'' q []
                     @ ts_entry rt ''created_after'' ca @ ts_entry rt ''occurred_after'' oa
                     @ ts_entry rt ''occurred_before'' ob))))"
  using assms
  by (auto simp add: get_honeybadger_fault_counts_def snd_bind_io request_trace_cases
        dest!: add_timestamp_Inr
        split: sum.splits if_splits)

lemma counts_normalized:
  assumes "r \<in> set (snd (get_honeybadger_fault_counts rt cfg w p q ca oa ob))"
  shows "timestamp_normalized rt ''created_after'' ca r
       \<and> timestamp_normalized rt ''occurred_after'' oa r
       \<and> timestamp_normalized rt ''occurred_before'' ob r"
proof -
  from counts_trace_shape[OF assms] obtain pid where
    ok: "\<not> malformed rt ca" "\<not> malformed rt oa" "\<not> malformed rt ob"
    and r: "r = build_request rt cfg (''/projects/'' @ show_num pid @ ''/faults/summary'')
                  (with_params (JObject
                    (add_str ''q'' q []
                     @ ts_entry rt ''created_after'' ca @ ts_entry rt ''occurred_after'' oa
                     @ ts_entry rt ''occurred_before'' ob)))"
    by blast
  show ?thesis
    by (simp add: timestamp_normalized_def ok r dispatched_lookup map_add_def map_of_ts_entry
          map_of_add_str split: option.splits)
qed

text \<open>
  Claim C6, as the code has it. A timestamp argument that is a non-empty string the date
  parser rejects makes \<open>parseTimestamp\<close> throw an error whose message contains the
  value as supplied and the format hint \<open>RFC3339\<close>; a non-empty string it accepts is
  replaced by the ISO rendering of the parsed instant. In the three operations with
  timestamp arguments (report: \<open>start\<close>, \<open>stop\<close>; fault list and fault counts:
  \<open>created_after\<close>, \<open>occurred_after\<close>, \<open>occurred_before\<close>) a malformed argument
  stops the call with that error before any request, and every request that is dispatched
  carries each timestamp parsed and rendered, never as supplied. An empty string is not
  validated: it is treated as an absent argument and left out of the request.
\<close>

theorem timestamps_validated_and_normalized:
  "(s \<noteq> [] \<and> Date_parse rt s = None \<longrightarrow>
       parseTimestamp rt (Some s) = Inl (Error (invalid_timestamp s))
       \<and> str_includes (invalid_timestamp s) s
       \<and> str_includes (invalid_timestamp s) ''RFC3339'')
   \<and> (s \<noteq> [] \<and> Date_parse rt s = Some t \<longrightarrow>
       parseTimestamp rt (Some s) = Inr (Some (Date_toISOString rt t)))
   \<and> parseTimestamp rt (Some []) = Inr None
   \<and> parseTimestamp rt None = Inr None
   \<and> (resolveProjectId rt cfg p = Inr pid \<and> (malformed rt start \<or> malformed rt stop) \<longrightarrow>
       (\<exists>s. (start = Some s \<or> stop = Some s) \<and> malformed rt (Some s)
            \<and> get_honeybadger_project_report rt cfg w p report start stop environment
                = (toolError (invalid_timestamp s), [])))
   \<and> (resolveProjectId rt cfg p = Inr pid
        \<and> (malformed rt ca \<or> malformed rt oa \<or> malformed rt ob) \<longrightarrow>
       (\<exists>s. (ca = Some s \<or> oa = Some s \<or> ob = Some s) \<and> malformed rt (Some s)
            \<and> list_honeybadger_faults rt cfg w p q ca oa ob limit ord pg
                = (toolError (invalid_timestamp s), []))
       \<and> (\<exists>s. (ca = Some s \<or> oa = Some s \<or> ob = Some s) \<and> malformed rt (Some s)
            \<and> get_honeybadger_fault_counts rt cfg w p q ca oa ob
                = (toolError (invalid_timestamp s), [])))
   \<and> (\<forall>r \<in> set (snd (get_honeybadger_project_report rt cfg w p report start stop environment)).
         timestamp_normalized rt ''start'' start r \<and> timestamp_normalized rt ''stop'' stop r)
   \<and> (\<forall>r \<in> set (snd (list_honeybadger_faults rt cfg w p q ca oa ob limit ord pg)).
         timestamp_normalized rt ''created_after'' ca r
         \<and> timestamp_normalized rt ''occurred_after'' oa r
         \<and> timestamp_normalized rt ''occurred_before'' ob r)
   \<and> (\<forall>r \<in> set (snd (get_honeybadger_fault_counts rt cfg w p q ca oa ob)).
         timestamp_normalized rt ''created_after'' ca r
         \<and> timestamp_normalized rt ''occurred_after'' oa r
         \<and> timestamp_normalized rt ''occurred_before'' ob r)"
proof -
  have parse: "(s \<noteq> [] \<and> Date_parse rt s = None \<longrightarrow>
                  parseTimestamp rt (Some s) = Inl (Error (invalid_timestamp s)))
             \<and> (s \<noteq> [] \<and> Date_parse rt s = Some t \<longrightarrow>
                  parseTimestamp rt (Some s) = Inr (Some (Date_toISOString rt t)))
             \<and> parseTimestamp rt (Some []) = Inr None
             \<and> parseTimestamp rt None = Inr None"
    by (simp add: parseTimestamp_def)
  show ?thesis
    using parse message_quotes_value[of s]
      report_rejects[of rt cfg p pid start stop w report environment]
      faults_rejects[of rt cfg p pid ca oa ob w q limit ord pg]
      counts_rejects[of rt cfg p pid ca oa ob w q]
      report_normalized[of _ rt cfg w p report start stop environment]
      faults_normalized[of _ rt cfg w p q ca oa ob limit ord pg]
      counts_normalized[of _ rt cfg w p q ca oa ob]
    by blast
qed

theorem timestamps_validated_and_normalized_witness:
  \<open>list_honeybadger_faults example_runtime example_config
      (service_always (Resolved (JObject []))) (Some (Num 41227)) None
      (Some ''not-a-date'') None None None None None
     = (toolError (''Invalid timestamp: "not-a-date". Use RFC3339 format, e.g. ''
                   @ ''"2026-02-16T10:00:00Z"''), [])
   \<and> parseTimestamp example_runtime (Some ''2026-02-16T10:00:00Z'')
       = Inr (Some ''2026-02-16T10:00:00.000Z'')
   \<and> map (\<lambda>r. dispatched_param r ''created_after'')
        (snd (list_honeybadger_faults example_runtime example_config
               (service_always (Resolved (JObject []))) (Some (Num 41227)) None
               (Some ''2026-02-16T10:00:00Z'') None None None None None))
       = [JString ''2026-02-16T10:00:00.000Z'']\<close>
proof -
  have h1: "resolveProjectId example_runtime example_config (Some (Num 41227)) = Inr (Num 41227)
            \<and> (malformed example_runtime (Some ''not-a-date'') \<or> malformed example_runtime None
                \<or> malformed example_runtime None)"
    by (simp add: resolve_explicit malformed_def example_runtime_def)
  have h2: "''2026-02-16T10:00:00Z'' \<noteq> []
            \<and> Date_parse example_runtime ''2026-02-16T10:00:00Z'' = Some 1771236000000"
    by (simp add: example_runtime_def)
  have e1: \<open>invalid_timestamp ''not-a-date''
              = ''Invalid timestamp: "not-a-date". Use RFC3339 format, e.g. ''
                @ ''"2026-02-16T10:00:00Z"''\<close>
    by (simp add: invalid_timestamp_def)
  have e2: "Date_toISOString example_runtime 1771236000000 = ''2026-02-16T10:00:00.000Z''"
    by (simp add: example_runtime_def)
  have e3: "map (\<lambda>r. dispatched_param r ''created_after'')
        (snd (list_honeybadger_faults example_runtime example_config
               (service_always (Resolved (JObject []))) (Some (Num 41227)) None
               (Some ''2026-02-16T10:00:00Z'') None None None None None))
       = [JString ''2026-02-16T10:00:00.000Z'']"
    by code_simp
  from timestamps_validated_and_normalized[where rt = example_runtime and cfg = example_config
         and p = "Some (Num 41227)" and pid = "Num 41227" and ca = "Some ''not-a-date''"
         and oa = None and ob = None and w = "service_always (Resolved (JObject []))"
         and q = None and limit = None and ord = None and pg = None
         and s = "''2026-02-16T10:00:00Z''" and t = 1771236000000]
  show ?thesis using h1 h2 e1 e2 e3 by (auto simp add: malformed_def)
qed

text \<open>
  The empty string is no date for the parser, yet as a timestamp argument it raises no
  validation error: the fault list is requested without the \<open>created_after\<close> filter.
\<close>

theorem empty_timestamp_not_rejected_counterexample:
  "Date_parse example_runtime [] = None
   \<and> parseTimestamp example_runtime (Some []) = Inr None
   \<and> \<not> isError (fst (list_honeybadger_faults example_runtime example_config
            (service_always (Resolved (JObject []))) (Some (Num 41227)) None
            (Some []) None None None None None))
   \<and> snd (list_honeybadger_faults example_runtime example_config
            (service_always (Resolved (JObject []))) (Some (Num 41227)) None
            (Some []) None None None None None)
       = [build_request example_runtime example_config ''/projects/41227/faults''
            (with_params (JObject [(''limit'', JNumber (Num 20)), (''order'', JString ''recent''),
                                   (''page'', JNumber (Num 1))]))]"
  by code_simp

section \<open>List responses\<close>

lemma stringify_empty_array: "JSON_stringify2 (JArray []) = ''[]''"
  by (simp add: JSON_stringify2_def wrap_def)

lemma show_int_0: "show_int 0 = ''0''"
  by (simp add: show_int_def show_digits.simps digit_char_def)

lemma format_empty_list:
  "formatListResponse (JArray []) md
     = Inr \<lparr> content_text =
               empty_list_text (case md of None \<Rightarrow> JUndefined | Some m \<Rightarrow> md_total m)
                               (case md of None \<Rightarrow> JUndefined | Some m \<Rightarrow> md_page m),
             isError = False \<rparr>"
  by (simp add: formatListResponse_def get_prop_def nullish_def list_summary_def
        empty_list_text_def stringify_empty_array show_int_0 split: option.splits)

lemma list_result_without_results:
  assumes "map_of ps ''results'' = None"
  shows "list_result (JObject ps) mdf
     = (Inr \<lparr> content_text =
                empty_list_text
                  (case mdf (JObject ps) of None \<Rightarrow> JUndefined | Some m \<Rightarrow> md_total m)
                  (case mdf (JObject ps) of None \<Rightarrow> JUndefined | Some m \<Rightarrow> md_page m),
              isError = False \<rparr>, [])"
  using assms
  by (simp add: list_result_def get_prop_def nullish_def js_or_def format_empty_list lift_def)

lemma faults_without_results:
  assumes key: "apiKey cfg \<noteq> []"
    and svc: "\<forall>req. axios w req = Resolved (JObject ps)"
    and nores: "map_of ps ''results'' = None"
    and r: "resolveProjectId rt cfg p = Inr pid"
    and ok: "\<not> malformed rt ca" "\<not> malformed rt oa" "\<not> malformed rt ob"
  shows "fst (list_honeybadger_faults rt cfg w p q ca oa ob limit ord pg)
           = \<lparr> content_text = empty_list_text (js_prop (JObject ps) ''total_count'')
                                               (JNumber (default_num pg 1)),
               isError = False \<rparr>"
proof -
  obtain p1 where p1: "add_timestamp rt ''created_after'' ca
                    (add_str ''q'' q
                       [(''limit'', JNumber (Math_min (default_num limit 20) (Num 25))),
                        (''order'', JString (default_str ord ''recent'')),
                        (''page'', JNumber (default_num pg 1))]) = Inr p1"
    using add_timestamp_ok[OF ok(1)] by blast
  obtain p2 where p2: "add_timestamp rt ''occurred_after'' oa p1 = Inr p2"
    using add_timestamp_ok[OF ok(2)] by blast
  obtain p3 where p3: "add_timestamp rt ''occurred_before'' ob p2 = Inr p3"
    using add_timestamp_ok[OF ok(3)] by blast
  show ?thesis
    using key svc
    by (simp add: list_honeybadger_faults_def Let_def r p1 p2 p3 lift_def request_resolved
          bind_io_Inr list_result_without_results[OF nores])
qed

text \<open>
  Claim C8, as the code has it. In each of the four list operations, a response envelope
  that is an object without the \<open>results\<close> key gives a non-error result whose text is
  \<open>Found 0 items\<close>, the optional total and page, a blank line and the empty list
  \<open>[]\<close>. The total is stated as \<open>(T total)\<close> when the operation passes the envelope's
  \<open>total_count\<close> on and that value is truthy (projects, faults, notices; not affected
  users, and not a total of zero); the page is stated as \<open>, page P\<close> with the page the
  caller requested (projects and faults only), never one read from the envelope.
\<close>

theorem empty_envelope_lists_nothing:
  assumes "apiKey cfg \<noteq> []"
    and "\<forall>req. axios w req = Resolved (JObject ps)"
    and "map_of ps ''results'' = None"
  shows "fst (list_honeybadger_projects rt cfg w acc pg pp)
           = \<lparr> content_text = empty_list_text (js_prop (JObject ps) ''total_count'')
                                               (JNumber (default_num pg 1)),
               isError = False \<rparr>
       \<and> (resolveProjectId rt cfg p = Inr pid
            \<and> \<not> malformed rt ca \<and> \<not> malformed rt oa \<and> \<not> malformed rt ob \<longrightarrow>
          fst (list_honeybadger_faults rt cfg w p q ca oa ob limit ord pg)
            = \<lparr> content_text = empty_list_text (js_prop (JObject ps) ''total_count'')
                                                (JNumber (default_num pg 1)),
                isError = False \<rparr>)
       \<and> (resolveProjectId rt cfg p = Inr pid \<longrightarrow>
          fst (list_honeybadger_fault_notices rt cfg w fid p limit)
            = \<lparr> content_text = empty_list_text (js_prop (JObject ps) ''total_count'') JUndefined,
                isError = False \<rparr>
          \<and> fst (list_honeybadger_fault_affected_users rt cfg w p fid q)
            = \<lparr> content_text = ''Found 0 items'' @ [CHR 0x0A, CHR 0x0A] @ ''[]'',
                isError = False \<rparr>)
       \<and> formatListResponse (JArray []) None
            = Inr \<lparr> content_text = ''Found 0 items'' @ [CHR 0x0A, CHR 0x0A] @ ''[]'',
                    isError = False \<rparr>"
proof -
  note nores = list_result_without_results[OF assms(3)]
  have projects: "fst (list_honeybadger_projects rt cfg w acc pg pp)
           = \<lparr> content_text = empty_list_text (js_prop (JObject ps) ''total_count'')
                                               (JNumber (default_num pg 1)),
               isError = False \<rparr>"
    using assms(1,2)
    by (simp add: list_honeybadger_projects_def Let_def request_resolved bind_io_Inr nores)
  have notices: "fst (list_honeybadger_fault_notices rt cfg w fid p limit)
            = \<lparr> content_text = empty_list_text (js_prop (JObject ps) ''total_count'') JUndefined,
                isError = False \<rparr>"
    if "resolveProjectId rt cfg p = Inr pid"
    using assms(1,2) that
    by (simp add: list_honeybadger_fault_notices_def Let_def lift_def request_resolved
          bind_io_Inr nores)
  have users: "fst (list_honeybadger_fault_affected_users rt cfg w p fid q)
            = \<lparr> content_text = ''Found 0 items'' @ [CHR 0x0A, CHR 0x0A] @ ''[]'',
                isError = False \<rparr>"
    if "resolveProjectId rt cfg p = Inr pid"
    using assms(1,2) that
    by (simp add: list_honeybadger_fault_affected_users_def lift_def request_resolved
          bind_io_Inr nores empty_list_text_def)
  have fmt: "formatListResponse (JArray []) None
            = Inr \<lparr> content_text = ''Found 0 items'' @ [CHR 0x0A, CHR 0x0A] @ ''[]'',
                    isError = False \<rparr>"
    by (simp add: format_empty_list empty_list_text_def)
  show ?thesis
    using projects notices users fmt faults_without_results[OF assms]
    by blast
qed

theorem empty_envelope_lists_nothing_witness:
  "fst (list_honeybadger_fault_notices example_runtime example_config
          (service_always (Resolved (JObject [(''total_count'', JNumber (Num 3))])))
          (Num 127320184) (Some (Num 41227)) None)
     = \<lparr> content_text = ''Found 0 items (3 total)'' @ [CHR 0x0A, CHR 0x0A] @ ''[]'',
         isError = False \<rparr>"
proof -
  have h2: "\<forall>req. axios (service_always (Resolved (JObject [(''total_count'', JNumber (Num 3))])))
               req = Resolved (JObject [(''total_count'', JNumber (Num 3))])"
    by simp
  have h3: "map_of [(''total_count'', JNumber (Num 3))] ''results'' = None"
    by simp
  have h4: "resolveProjectId example_runtime example_config (Some (Num 41227)) = Inr (Num 41227)"
    by (simp add: resolve_explicit)
  have e: "empty_list_text (js_prop (JObject [(''total_count'', JNumber (Num 3))]) ''total_count'')
             JUndefined = ''Found 0 items (3 total)'' @ [CHR 0x0A, CHR 0x0A] @ ''[]''"
    by code_simp
  from empty_envelope_lists_nothing[OF example_key h2 h3, where p = "Some (Num 41227)"
         and pid = "Num 41227" and rt = example_runtime and fid = "Num 127320184"
         and limit = None]
  show ?thesis using h4 e by simp
qed

text \<open>
  A total count and a page in the envelope are not always stated: the affected-users
  listing states neither, and the project listing omits a total of zero and states the
  requested page (1 by default), not the envelope's.
\<close>

theorem envelope_total_and_page_not_stated_counterexample:
  "fst (list_honeybadger_fault_affected_users example_runtime example_config
          (service_always (Resolved (JObject [(''total_count'', JNumber (Num 7)),
                                              (''page'', JNumber (Num 3))])))
          (Some (Num 41227)) (Num 127320184) None)
     = \<lparr> content_text = ''Found 0 items'' @ [CHR 0x0A, CHR 0x0A] @ ''[]'', isError = False \<rparr>
   \<and> fst (list_honeybadger_projects example_runtime example_config
          (service_always (Resolved (JObject [(''total_count'', JNumber (Num 0)),
                                              (''page'', JNumber (Num 3))])))
          None None None)
     = \<lparr> content_text = ''Found 0 items, page 1'' @ [CHR 0x0A, CHR 0x0A] @ ''[]'',
         isError = False \<rparr>"
  by code_simp

section \<open>The analysis operation\<close>

lemma request_outcome:
  "apiKey cfg \<noteq> [] \<Longrightarrow>
     makeHoneybadgerRequest rt cfg w ep opts
       = (case axios w (build_request rt cfg ep opts) of
            Resolved d \<Rightarrow> (Inr d, [build_request rt cfg ep opts])
          | Rejected e \<Rightarrow> (Inl (Error (error_taxonomy ep e)), [build_request rt cfg ep opts]))"
  by (cases "axios w (build_request rt cfg ep opts)")
     (simp_all add: request_resolved request_rejected)

lemma catch_null_outcome:
  "catch_null (case out of Resolved d \<Rightarrow> (Inr d, tr) | Rejected e \<Rightarrow> (Inl (g e), tr))
     = (Inr (absorbed out), tr)"
  by (cases out) (simp_all add: catch_null_def absorbed_def)

lemma promise_all2_simps [simp]:
  "promise_all2 f (Inr a, tr1) (Inr b, tr2) = (Inr (a, b), tr1 @ tr2)"
  "promise_all2 f (Inl e, tr1) (Inr b, tr2) = (Inl e, tr1 @ tr2)"
  "promise_all2 f (Inr a, tr1) (Inl e, tr2) = (Inl e, tr1 @ tr2)"
  "promise_all2 f (Inl e1, tr1) (Inl e2, tr2) = (Inl (if f then e1 else e2), tr1 @ tr2)"
  by (simp_all add: promise_all2_def)

lemma analysis_sections_null:
  "trend_section JNull = [] \<and> impact_section rt JNull = Inr []"
  by (simp add: trend_section_def impact_section_def affected_users_of_def opt_prop_def
        nullish_def js_or_def gt_zero_def Let_def)

lemma analysis_decomposes:
  assumes "generateAnalysis rt fault notices ic countsData usersData = Inr a"
  shows "\<exists>pre impact post.
           impact_section rt usersData = Inr impact
         \<and> a = pre @ trend_section countsData @ impact @ post
         \<and> generateAnalysis rt fault notices ic JNull usersData = Inr (pre @ impact @ post)
         \<and> generateAnalysis rt fault notices ic countsData JNull
             = Inr (pre @ trend_section countsData @ post)
         \<and> generateAnalysis rt fault notices ic JNull JNull = Inr (pre @ post)"
proof -
  from assms obtain ln ov et np im fx where
    parts: "index0 notices = Inr ln" "fault_overview fault = Inr ov"
      "error_type_section (js_prop fault ''klass'') = Inr et"
      "(if truthy ln then notice_section ic ln else Inr []) = Inr np"
      "quick_fixes (js_prop fault ''klass'') = Inr fx"
    and im: "impact_section rt usersData = Inr im"
    and a: "a = ov @ et @ np @ trend_section countsData @ im @ fix_strategies @ fx @ closing fault"
    unfolding generateAnalysis_def bind_e_def
    by (auto split: sum.splits)
  have g: "generateAnalysis rt fault notices ic c u
             = Inr (ov @ et @ np @ trend_section c @ im' @ fix_strategies @ fx @ closing fault)"
    if "impact_section rt u = Inr im'" for c u im'
    unfolding generateAnalysis_def bind_e_def using that by (simp add: parts)
  have n: "trend_section JNull = []" "impact_section rt JNull = Inr []"
    using analysis_sections_null by simp_all
  show ?thesis
    using im a g[OF im, of JNull] g[OF n(2), of countsData] g[OF n(2), of JNull] n(1)
    by (intro exI[of _ "ov @ et @ np"] exI[of _ im]
          exI[of _ "fix_strategies @ fx @ closing fault"]) simp
qed

lemma analysis_success:
  assumes key: "apiKey cfg \<noteq> []"
    and scope: "resolveProjectId rt cfg p = Inr pid"
    and f: "axios w (fault_request rt cfg pid fault_id) = Resolved fault"
    and n: "axios w (notices_request rt cfg pid fault_id) = Resolved noticesData"
    and nn: "\<not> nullish noticesData"
  shows "analyze_honeybadger_issue rt cfg w fault_id p ic =
     ((case generateAnalysis rt fault (js_or (js_prop noticesData ''results'') (JArray []))
              (default_bool ic True)
              (absorbed (axios w (counts_request rt cfg w pid)))
              (absorbed (axios w (users_request rt cfg pid fault_id)))
       of Inl e \<Rightarrow> toolError (e_message rt e)
        | Inr a \<Rightarrow> \<lparr> content_text = a, isError = False \<rparr>),
      [fault_request rt cfg pid fault_id, notices_request rt cfg pid fault_id,
       counts_request rt cfg w pid, users_request rt cfg pid fault_id])"
  using nn f n
  by (simp add: analyze_honeybadger_issue_def Let_def scope lift_def
        fault_request_def notices_request_def counts_request_def users_request_def
        fault_endpoint_def notices_endpoint_def
        request_outcome[OF key] catch_null_outcome bind_io_Inr get_prop_def
        split: sum.splits)

lemma analysis_required_failure:
  assumes key: "apiKey cfg \<noteq> []"
    and scope: "resolveProjectId rt cfg p = Inr pid"
    and f: "axios w (fault_request rt cfg pid fault_id) = fo"
    and n: "axios w (notices_request rt cfg pid fault_id) = no"
  shows "analyze_honeybadger_issue rt cfg w fault_id p ic =
     (case (fo, no) of
        (Rejected e, Resolved d) \<Rightarrow>
          (toolError (error_taxonomy (fault_endpoint pid fault_id) e),
           [fault_request rt cfg pid fault_id, notices_request rt cfg pid fault_id])
      | (Resolved d, Rejected e) \<Rightarrow>
          (toolError (error_taxonomy (notices_endpoint pid fault_id) e),
           [fault_request rt cfg pid fault_id, notices_request rt cfg pid fault_id])
      | (Rejected e, Rejected e') \<Rightarrow>
          (toolError (if first_rejects_first w
                      then error_taxonomy (fault_endpoint pid fault_id) e
                      else error_taxonomy (notices_endpoint pid fault_id) e'),
           [fault_request rt cfg pid fault_id, notices_request rt cfg pid fault_id])
      | (Resolved d, Resolved d') \<Rightarrow> analyze_honeybadger_issue rt cfg w fault_id p ic)"
  using f n
  by (cases fo; cases no)
     (simp_all add: analyze_honeybadger_issue_def Let_def scope lift_def
        fault_request_def notices_request_def fault_endpoint_def notices_endpoint_def
        request_outcome[OF key])

lemma analysis_composition:
  assumes "generateAnalysis rt fault notices ic countsData usersData = Inr a"
  shows "\<exists>ov et ln np impact fx.
           fault_overview fault = Inr ov
         \<and> error_type_section (js_prop fault ''klass'') = Inr et
         \<and> index0 notices = Inr ln
         \<and> (if truthy ln then notice_section ic ln else Inr []) = Inr np
         \<and> impact_section rt usersData = Inr impact
         \<and> quick_fixes (js_prop fault ''klass'') = Inr fx
         \<and> a = ov @ et @ np @ trend_section countsData @ impact @ fix_strategies @ fx
                @ closing fault
         \<and> generateAnalysis rt fault notices ic JNull usersData
             = Inr (ov @ et @ np @ impact @ fix_strategies @ fx @ closing fault)
         \<and> generateAnalysis rt fault notices ic countsData JNull
             = Inr (ov @ et @ np @ trend_section countsData @ fix_strategies @ fx
                    @ closing fault)
         \<and> generateAnalysis rt fault notices ic JNull JNull
             = Inr (ov @ et @ np @ fix_strategies @ fx @ closing fault)"
proof -
  from assms obtain ln ov et np im fx where
    parts: "index0 notices = Inr ln" "fault_overview fault = Inr ov"
      "error_type_section (js_prop fault ''klass'') = Inr et"
      "(if truthy ln then notice_section ic ln else Inr []) = Inr np"
      "quick_fixes (js_prop fault ''klass'') = Inr fx"
    and im: "impact_section rt usersData = Inr im"
    and a: "a = ov @ et @ np @ trend_section countsData @ im @ fix_strategies @ fx @ closing fault"
    unfolding generateAnalysis_def bind_e_def
    by (auto split: sum.splits)
  have g: "generateAnalysis rt fault notices ic c u
             = Inr (ov @ et @ np @ trend_section c @ im' @ fix_strategies @ fx @ closing fault)"
    if "impact_section rt u = Inr im'" for c u im'
    unfolding generateAnalysis_def bind_e_def using that by (simp add: parts)
  have n: "trend_section JNull = []" "impact_section rt JNull = Inr []"
    using analysis_sections_null by simp_all
  show ?thesis
    using parts im a g[OF im, of JNull] g[OF n(2), of countsData] g[OF n(2), of JNull] n(1)
    by (intro exI[of _ ov] exI[of _ et] exI[of _ ln] exI[of _ np] exI[of _ im] exI[of _ fx])
       simp
qed

lemma overview_begins:
  "\<not> nullish fault \<Longrightarrow>
     \<exists>rest. fault_overview fault
              = Inr (''# Honeybadger Issue Analysis\<newline>\<newline>## Fault Overview\<newline>- **ID**: ''
                     @ ToString (js_prop fault ''id'') @ rest)"
  by (simp add: fault_overview_def)

lemma analysis_produced:
  assumes "\<not> nullish fault" and "js_prop fault ''klass'' = JString k"
    and "index0 notices = Inr ln"
    and "(if truthy ln then notice_section ic ln else Inr []) = Inr np"
    and "impact_section rt u = Inr im"
  shows "\<exists>ov et fx rest.
           fault_overview fault = Inr ov
         \<and> ov = ''# Honeybadger Issue Analysis\<newline>\<newline>## Fault Overview\<newline>- **ID**: ''
                @ ToString (js_prop fault ''id'') @ rest
         \<and> error_type_section (JString k) = Inr et
         \<and> quick_fixes (JString k) = Inr fx
         \<and> generateAnalysis rt fault notices ic c u
             = Inr (ov @ et @ np @ trend_section c @ im @ fix_strategies @ fx @ closing fault)"
proof -
  from overview_begins[OF assms(1)] obtain rest where
    ov: "fault_overview fault
           = Inr (''# Honeybadger Issue Analysis\<newline>\<newline>## Fault Overview\<newline>- **ID**: ''
                  @ ToString (js_prop fault ''id'') @ rest)"
    by blast
  have "\<exists>et. error_type_section (JString k) = Inr et"
    by (simp add: error_type_section_def js_includes_def bind_e_def)
  then obtain et where et: "error_type_section (JString k) = Inr et" by blast
  have "\<exists>fx. quick_fixes (JString k) = Inr fx"
    by (simp add: quick_fixes_def js_includes_def bind_e_def)
  then obtain fx where fx: "quick_fixes (JString k) = Inr fx" by blast
  have "generateAnalysis rt fault notices ic c u
          = Inr ((''# Honeybadger Issue Analysis\<newline>\<newline>## Fault Overview\<newline>- **ID**: ''
                  @ ToString (js_prop fault ''id'') @ rest)
                 @ et @ np @ trend_section c @ im @ fix_strategies @ fx @ closing fault)"
    unfolding generateAnalysis_def bind_e_def
    using assms(3,4,5) et fx ov by (simp add: assms(2))
  with ov et fx show ?thesis by blast
qed

lemma trend_section_present:
  "truthy c \<Longrightarrow>
     trend_section c = ''\<newline>\<newline>## Trend Analysis (Last 30 Days)\<newline>- Total fault count data: ''
                       @ JSON_stringify c"
  by (simp add: trend_section_def)

lemma impact_section_present:
  "xs \<noteq> [] \<Longrightarrow> user_lines_of (take 5 xs) = Inr user_lines \<Longrightarrow>
     impact_section rt (JArray xs)
       = Inr (''\<newline>\<newline>## Impact Assessment\<newline>- Unique users affected: ''
              @ show_int (int (length xs))
              @ ''\<newline>- Top affected users:\<newline>''
              @ join [CHR 0x0A] user_lines)"
  by (simp add: impact_section_def affected_users_of_def gt_zero_def top_users_def bind_e_def
        opt_prop_def nullish_def js_or_def Let_def)

text \<open>
  Claim C7. In the analysis operation, once the fault detail and the notices have been
  fetched, the outcome of the two best-effort fetches never decides whether the call
  fails: a failed fetch hands \<open>null\<close> to the generator, all four requests are issued,
  and the result is the generated analysis (or the generator's own error). The generated
  text is the fault overview, the error type, the stack trace of the latest notice, the
  trend section, the impact section, the fix strategies and the closing, in that order;
  for a fault with a string error class, whose latest notice can be rendered, the report is
  produced and begins with the heading and the fault overview. The trend section is empty
  for \<open>null\<close> trend data and otherwise carries the data; the impact section is empty for
  \<open>null\<close> affected-users data and, for a non-empty list of users, carries their number
  and the first five of them; every other piece of the text is the same whatever the
  best-effort data. A failure of the fault-detail fetch or of the notices fetch makes the
  whole call an error with that failure's message, and the best-effort requests are then
  not issued.
\<close>

theorem best_effort_failures_absorbed:
  assumes "apiKey cfg \<noteq> []" and "resolveProjectId rt cfg p = Inr pid"
  shows
    "(axios w (fault_request rt cfg pid fault_id) = Resolved fault
        \<and> axios w (notices_request rt cfg pid fault_id) = Resolved noticesData
        \<and> \<not> nullish noticesData \<longrightarrow>
      analyze_honeybadger_issue rt cfg w fault_id p ic =
        ((case generateAnalysis rt fault (js_or (js_prop noticesData ''results'') (JArray []))
                 (default_bool ic True)
                 (absorbed (axios w (counts_request rt cfg w pid)))
                 (absorbed (axios w (users_request rt cfg pid fault_id)))
          of Inl e \<Rightarrow> toolError (e_message rt e)
           | Inr a \<Rightarrow> \<lparr> content_text = a, isError = False \<rparr>),
         [fault_request rt cfg pid fault_id, notices_request rt cfg pid fault_id,
          counts_request rt cfg w pid, users_request rt cfg pid fault_id]))
     \<and> absorbed (Rejected err) = JNull
     \<and> absorbed (Resolved d) = d
     \<and> trend_section JNull = []
     \<and> impact_section rt JNull = Inr []
     \<and> (generateAnalysis rt fault notices ictx countsData usersData = Inr a \<longrightarrow>
          (\<exists>ov et ln np impact fx.
              fault_overview fault = Inr ov
            \<and> error_type_section (js_prop fault ''klass'') = Inr et
            \<and> index0 notices = Inr ln
            \<and> (if truthy ln then notice_section ictx ln else Inr []) = Inr np
            \<and> impact_section rt usersData = Inr impact
            \<and> quick_fixes (js_prop fault ''klass'') = Inr fx
            \<and> a = ov @ et @ np @ trend_section countsData @ impact @ fix_strategies @ fx
                   @ closing fault
            \<and> generateAnalysis rt fault notices ictx JNull usersData
                = Inr (ov @ et @ np @ impact @ fix_strategies @ fx @ closing fault)
            \<and> generateAnalysis rt fault notices ictx countsData JNull
                = Inr (ov @ et @ np @ trend_section countsData @ fix_strategies @ fx
                       @ closing fault)
            \<and> generateAnalysis rt fault notices ictx JNull JNull
                = Inr (ov @ et @ np @ fix_strategies @ fx @ closing fault)))
     \<and> (\<not> nullish fault \<and> js_prop fault ''klass'' = JString k
          \<and> index0 notices = Inr latest
          \<and> (if truthy latest then notice_section ictx latest else Inr []) = Inr notice_part
          \<and> impact_section rt usersData = Inr users_part \<longrightarrow>
          (\<exists>ov et fx rest.
              fault_overview fault = Inr ov
            \<and> ov = ''# Honeybadger Issue Analysis\<newline>\<newline>## Fault Overview\<newline>- **ID**: ''
                   @ ToString (js_prop fault ''id'') @ rest
            \<and> error_type_section (JString k) = Inr et
            \<and> quick_fixes (JString k) = Inr fx
            \<and> generateAnalysis rt fault notices ictx countsData usersData
                = Inr (ov @ et @ notice_part @ trend_section countsData @ users_part
                       @ fix_strategies @ fx @ closing fault)))
     \<and> (truthy countsData \<longrightarrow>
          trend_section countsData
            = ''\<newline>\<newline>## Trend Analysis (Last 30 Days)\<newline>- Total fault count data: ''
              @ JSON_stringify countsData)
     \<and> (users \<noteq> [] \<and> user_lines_of (take 5 users) = Inr user_lines \<longrightarrow>
          impact_section rt (JArray users)
            = Inr (''\<newline>\<newline>## Impact Assessment\<newline>- Unique users affected: ''
                   @ show_int (int (length users))
                   @ ''\<newline>- Top affected users:\<newline>''
                   @ join [CHR 0x0A] user_lines))
     \<and> (axios w (fault_request rt cfg pid fault_id) = Rejected e
          \<and> axios w (notices_request rt cfg pid fault_id) = Resolved noticesData \<longrightarrow>
        analyze_honeybadger_issue rt cfg w fault_id p ic =
          (toolError (error_taxonomy (fault_endpoint pid fault_id) e),
           [fault_request rt cfg pid fault_id, notices_request rt cfg pid fault_id]))
     \<and> (axios w (fault_request rt cfg pid fault_id) = Resolved fault
          \<and> axios w (notices_request rt cfg pid fault_id) = Rejected e \<longrightarrow>
        analyze_honeybadger_issue rt cfg w fault_id p ic =
          (toolError (error_taxonomy (notices_endpoint pid fault_id) e),
           [fault_request rt cfg pid fault_id, notices_request rt cfg pid fault_id]))
     \<and> (axios w (fault_request rt cfg pid fault_id) = Rejected e
          \<and> axios w (notices_request rt cfg pid fault_id) = Rejected e' \<longrightarrow>
        analyze_honeybadger_issue rt cfg w fault_id p ic =
          (toolError (if first_rejects_first w
                      then error_taxonomy (fault_endpoint pid fault_id) e
                      else error_taxonomy (notices_endpoint pid fault_id) e'),
           [fault_request rt cfg pid fault_id, notices_request rt cfg pid fault_id]))"
proof -
  note fail = analysis_required_failure[OF assms refl refl, of w fault_id ic]
  have 1: "axios w (fault_request rt cfg pid fault_id) = Rejected e
          \<and> axios w (notices_request rt cfg pid fault_id) = Resolved noticesData \<longrightarrow>
        analyze_honeybadger_issue rt cfg w fault_id p ic =
          (toolError (error_taxonomy (fault_endpoint pid fault_id) e),
           [fault_request rt cfg pid fault_id, notices_request rt cfg pid fault_id])"
    using fail by auto
  have 2: "axios w (fault_request rt cfg pid fault_id) = Resolved fault
          \<and> axios w (notices_request rt cfg pid fault_id) = Rejected e \<longrightarrow>
        analyze_honeybadger_issue rt cfg w fault_id p ic =
          (toolError (error_taxonomy (notices_endpoint pid fault_id) e),
           [fault_request rt cfg pid fault_id, notices_request rt cfg pid fault_id])"
    using fail by auto
  have 3: "axios w (fault_request rt cfg pid fault_id) = Rejected e
          \<and> axios w (notices_request rt cfg pid fault_id) = Rejected e' \<longrightarrow>
        analyze_honeybadger_issue rt cfg w fault_id p ic =
          (toolError (if first_rejects_first w
                      then error_taxonomy (fault_endpoint pid fault_id) e
                      else error_taxonomy (notices_endpoint pid fault_id) e'),
           [fault_request rt cfg pid fault_id, notices_request rt cfg pid fault_id])"
    using fail by auto
  have 4: "absorbed (Rejected err) = JNull \<and> absorbed (Resolved d) = d"
    by (simp add: absorbed_def)
  have 5: "generateAnalysis rt fault notices ictx countsData usersData = Inr a \<longrightarrow>
          (\<exists>ov et ln np impact fx.
              fault_overview fault = Inr ov
            \<and> error_type_section (js_prop fault ''klass'') = Inr et
            \<and> index0 notices = Inr ln
            \<and> (if truthy ln then notice_section ictx ln else Inr []) = Inr np
            \<and> impact_section rt usersData = Inr impact
            \<and> quick_fixes (js_prop fault ''klass'') = Inr fx
            \<and> a = ov @ et @ np @ trend_section countsData @ impact @ fix_strategies @ fx
                   @ closing fault
            \<and> generateAnalysis rt fault notices ictx JNull usersData
                = Inr (ov @ et @ np @ impact @ fix_strategies @ fx @ closing fault)
            \<and> generateAnalysis rt fault notices ictx countsData JNull
                = Inr (ov @ et @ np @ trend_section countsData @ fix_strategies @ fx
                       @ closing fault)
            \<and> generateAnalysis rt fault notices ictx JNull JNull
                = Inr (ov @ et @ np @ fix_strategies @ fx @ closing fault))"
    using analysis_composition[of rt fault notices ictx countsData usersData a] by blast
  have 6: "\<not> nullish fault \<and> js_prop fault ''klass'' = JString k
          \<and> index0 notices = Inr latest
          \<and> (if truthy latest then notice_section ictx latest else Inr []) = Inr notice_part
          \<and> impact_section rt usersData = Inr users_part \<longrightarrow>
          (\<exists>ov et fx rest.
              fault_overview fault = Inr ov
            \<and> ov = ''# Honeybadger Issue Analysis\<newline>\<newline>## Fault Overview\<newline>- **ID**: ''
                   @ ToString (js_prop fault ''id'') @ rest
            \<and> error_type_section (JString k) = Inr et
            \<and> quick_fixes (JString k) = Inr fx
            \<and> generateAnalysis rt fault notices ictx countsData usersData
                = Inr (ov @ et @ notice_part @ trend_section countsData @ users_part
                       @ fix_strategies @ fx @ closing fault))"
    using analysis_produced[of fault k notices latest ictx notice_part rt usersData users_part
            countsData]
    by blast
  have 7: "truthy countsData \<longrightarrow>
          trend_section countsData
            = ''\<newline>\<newline>## Trend Analysis (Last 30 Days)\<newline>- Total fault count data: ''
              @ JSON_stringify countsData"
    using trend_section_present[of countsData] by blast
  have 8: "users \<noteq> [] \<and> user_lines_of (take 5 users) = Inr user_lines \<longrightarrow>
          impact_section rt (JArray users)
            = Inr (''\<newline>\<newline>## Impact Assessment\<newline>- Unique users affected: ''
                   @ show_int (int (length users))
                   @ ''\<newline>- Top affected users:\<newline>''
                   @ join [CHR 0x0A] user_lines)"
    using impact_section_present[of users user_lines rt] by blast
  show ?thesis
    using analysis_success[OF assms, of w fault_id fault noticesData ic]
      analysis_sections_null[of rt] 1 2 3 4 5 6 7 8
    by blast
qed

theorem best_effort_failures_absorbed_witness:
  "analyze_honeybadger_issue example_runtime example_config analysis_world
       (Num 127320184) (Some (Num 41227)) None
     = (\<lparr> content_text = example_report, isError = False \<rparr>,
        [fault_request example_runtime example_config (Num 41227) (Num 127320184),
         notices_request example_runtime example_config (Num 41227) (Num 127320184),
         counts_request example_runtime example_config analysis_world (Num 41227),
         users_request example_runtime example_config (Num 41227) (Num 127320184)])
   \<and> axios analysis_world (users_request example_runtime example_config (Num 41227)
         (Num 127320184))
       = service_status 500 JNull ''Internal Server Error''
   \<and> str_includes example_report ''## Fault Overview''
   \<and> str_includes example_report ''## Trend Analysis (Last 30 Days)''
   \<and> \<not> str_includes example_report ''Impact Assessment''
   \<and> impact_section example_runtime
         (JArray [JObject [(''user'', JString ''ann@example.com''),
                           (''count'', JNumber (Num 3))]])
       = Inr (''\<newline>\<newline>## Impact Assessment\<newline>- Unique users affected: 1''
              @ ''\<newline>- Top affected users:\<newline>  - ann@example.com: 3 occurrences'')"
proof -
  have scope: "resolveProjectId example_runtime example_config (Some (Num 41227))
                 = Inr (Num 41227)"
    by (simp add: resolve_explicit)
  have h: "axios analysis_world (fault_request example_runtime example_config (Num 41227)
               (Num 127320184)) = Resolved example_fault
         \<and> axios analysis_world (notices_request example_runtime example_config (Num 41227)
               (Num 127320184)) = Resolved example_notices
         \<and> \<not> nullish example_notices"
    by code_simp
  have u: "absorbed (axios analysis_world (users_request example_runtime example_config
               (Num 41227) (Num 127320184))) = JNull
         \<and> absorbed (axios analysis_world (counts_request example_runtime example_config
               analysis_world (Num 41227))) = JObject [(''total'', JNumber (Num 12))]"
    by code_simp
  have s: "axios analysis_world (users_request example_runtime example_config (Num 41227)
               (Num 127320184)) = service_status 500 JNull ''Internal Server Error''"
    by code_simp
  have g: "generateAnalysis example_runtime example_fault
             (js_or (js_prop example_notices ''results'') (JArray [])) True
             (JObject [(''total'', JNumber (Num 12))]) JNull = Inr example_report"
    by code_simp
  have l: "user_lines_of (take 5 [JObject [(''user'', JString ''ann@example.com''),
                                           (''count'', JNumber (Num 3))]])
             = Inr [''  - ann@example.com: 3 occurrences'']
           \<and> show_int (int (length [JObject [(''user'', JString ''ann@example.com''),
                                              (''count'', JNumber (Num 3))]])) = ''1''
           \<and> join [CHR 0x0A] [''  - ann@example.com: 3 occurrences'']
               = ''  - ann@example.com: 3 occurrences''"
    by code_simp
  note inst = best_effort_failures_absorbed[OF example_key scope, where w = analysis_world
         and fault_id = "Num 127320184" and fault = example_fault
         and noticesData = example_notices and ic = None
         and notices = "js_or (js_prop example_notices ''results'') (JArray [])"
         and ictx = True and countsData = "JObject [(''total'', JNumber (Num 12))]"
         and usersData = JNull and a = example_report
         and err = "\<lparr> response = None, err_message = [] \<rparr>" and d = JNull
         and e = "\<lparr> response = None, err_message = [] \<rparr>"
         and e' = "\<lparr> response = None, err_message = [] \<rparr>"
         and k = "''NoMethodError''" and latest = JNull and notice_part = "[]"
         and users_part = "[]"
         and users = "[JObject [(''user'', JString ''ann@example.com''),
                                (''count'', JNumber (Num 3))]]"
         and user_lines = "[''  - ann@example.com: 3 occurrences'']"]
  from inst[THEN conjunct1] h u g have
    r: "analyze_honeybadger_issue example_runtime example_config analysis_world
          (Num 127320184) (Some (Num 41227)) None
        = (\<lparr> content_text = example_report, isError = False \<rparr>,
           [fault_request example_runtime example_config (Num 41227) (Num 127320184),
            notices_request example_runtime example_config (Num 41227) (Num 127320184),
            counts_request example_runtime example_config analysis_world (Num 41227),
            users_request example_runtime example_config (Num 41227) (Num 127320184)])"
    by (simp add: default_bool_def)
  have im: "impact_section example_runtime
              (JArray [JObject [(''user'', JString ''ann@example.com''),
                                (''count'', JNumber (Num 3))]])
            = Inr (''\<newline>\<newline>## Impact Assessment\<newline>- Unique users affected: 1''
                   @ ''\<newline>- Top affected users:\<newline>  - ann@example.com: 3 occurrences'')"
    using inst[THEN conjunct2, THEN conjunct2, THEN conjunct2, THEN conjunct2, THEN conjunct2,
               THEN conjunct2, THEN conjunct2, THEN conjunct2, THEN conjunct1] l
    by simp
  have "take 17 (drop 30 example_report) = ''## Fault Overview''"
    by (simp add: example_report_def)
  then have "example_report
               = take 30 example_report @ ''## Fault Overview'' @ drop 17 (drop 30 example_report)"
    by (metis append_take_drop_id)
  then have i1: "str_includes example_report ''## Fault Overview''"
    by (metis str_includes_infix)
  have "take 32 (drop 702 example_report) = ''## Trend Analysis (Last 30 Days)''"
    by (simp add: example_report_def)
  then have "example_report
               = take 702 example_report @ ''## Trend Analysis (Last 30 Days)''
                 @ drop 32 (drop 702 example_report)"
    by (metis append_take_drop_id)
  then have i2: "str_includes example_report ''## Trend Analysis (Last 30 Days)''"
    by (metis str_includes_infix)
  have i3: "\<not> str_includes example_report ''Impact Assessment''"
    by (simp add: example_report_def)
  show ?thesis
    using r s i1 i2 i3 im by simp
qed

section \<open>The requests of the scoped operations\<close>

lemma add_timestamp_exact:
  "\<not> malformed rt ts \<Longrightarrow> add_timestamp rt k ts ps = Inr (ps @ ts_entry rt k ts)"
  using add_timestamp_ok[of rt ts k ps] add_timestamp_Inr[of rt k ts ps] by auto

lemma scoped_simple_traces:
  assumes key: "apiKey cfg \<noteq> []" and scope: "resolveProjectId rt cfg p = Inr pid"
  shows "snd (get_honeybadger_project_integrations rt cfg w p)
           = [build_request rt cfg (''/projects/'' @ show_num pid @ ''/integrations'') no_options]"
    and "snd (get_honeybadger_fault rt cfg w fault_id p) = [fault_request rt cfg pid fault_id]"
    and "snd (list_honeybadger_fault_notices rt cfg w fault_id p limit)
           = [build_request rt cfg (notices_endpoint pid fault_id)
                (with_params (JObject
                   [(''limit'', JNumber (Math_min (default_num limit 10) (Num 25)))]))]"
    and "snd (list_honeybadger_fault_affected_users rt cfg w p fault_id q)
           = [build_request rt cfg
                (''/projects/'' @ show_num pid @ ''/faults/'' @ show_num fault_id
                 @ ''/affected_users'')
                (with_params (JObject (add_str ''q'' q [])))]"
    and "snd (query_honeybadger_insights rt cfg w p query ts timezone)
           = [build_request rt cfg (''/projects/'' @ show_num pid @ ''/insights/query'')
                \<lparr> opt_method = Some POST, opt_params = JUndefined,
                  opt_data = JObject (add_str ''timezone'' timezone
                               (add_str ''ts'' ts [(''query'', JString query)])) \<rparr>]"
  using key
  by (simp_all add: get_honeybadger_project_integrations_def get_honeybadger_fault_def
        list_honeybadger_fault_notices_def list_honeybadger_fault_affected_users_def
        query_honeybadger_insights_def scope lift_def Let_def snd_bind_io request_trace_cases
        fault_request_def fault_endpoint_def notices_endpoint_def
        split: sum.splits jsval.splits)

lemma scoped_report_trace:
  assumes key: "apiKey cfg \<noteq> []" and scope: "resolveProjectId rt cfg p = Inr pid"
    and ok: "\<not> malformed rt start" "\<not> malformed rt stop"
  shows "snd (get_honeybadger_project_report rt cfg w p report start stop environment)
           = [build_request rt cfg (''/projects/'' @ show_num pid @ ''/reports/'' @ report)
                (with_params (JObject
                   (add_str ''environment'' environment
                      (ts_entry rt ''start'' start @ ts_entry rt ''stop'' stop))))]"
  using key
  by (simp add: get_honeybadger_project_report_def scope lift_def snd_bind_io
        request_trace_cases add_timestamp_exact ok split: sum.splits)

lemma scoped_faults_trace:
  assumes key: "apiKey cfg \<noteq> []" and scope: "resolveProjectId rt cfg p = Inr pid"
    and ok: "\<not> malformed rt ca" "\<not> malformed rt oa" "\<not> malformed rt ob"
  shows "snd (list_honeybadger_faults rt cfg w p q ca oa ob limit ord pg)
           = [build_request rt cfg (''/projects/'' @ show_num pid @ ''/faults'')
                (with_params (JObject
                   (add_str ''q'' q
                      [(''limit'', JNumber (Math_min (default_num limit 20) (Num 25))),
                       (''order'', JString (default_str ord ''recent'')),
                       (''page'', JNumber (default_num pg 1))]
                    @ ts_entry rt ''created_after'' ca @ ts_entry rt ''occurred_after'' oa
                    @ ts_entry rt ''occurred_before'' ob)))]"
  using key
  by (simp add: list_honeybadger_faults_def scope lift_def Let_def snd_bind_io
        request_trace_cases add_timestamp_exact ok split: sum.splits)

lemma scoped_counts_trace:
  assumes key: "apiKey cfg \<noteq> []" and scope: "resolveProjectId rt cfg p = Inr pid"
    and ok: "\<not> malformed rt ca" "\<not> malformed rt oa" "\<not> malformed rt ob"
  shows "snd (get_honeybadger_fault_counts rt cfg w p q ca oa ob)
           = [build_request rt cfg (''/projects/'' @ show_num pid @ ''/faults/summary'')
                (with_params (JObject
                   (add_str ''q'' q []
                    @ ts_entry rt ''created_after'' ca @ ts_entry rt ''occurred_after'' oa
                    @ ts_entry rt ''occurred_before'' ob)))]"
  using key
  by (simp add: get_honeybadger_fault_counts_def scope lift_def snd_bind_io
        request_trace_cases add_timestamp_exact ok split: sum.splits)

lemma analysis_trace:
  assumes key: "apiKey cfg \<noteq> []" and scope: "resolveProjectId rt cfg p = Inr pid"
  shows "\<exists>rest. snd (analyze_honeybadger_issue rt cfg w fault_id p ic)
                  = fault_request rt cfg pid fault_id # notices_request rt cfg pid fault_id # rest
              \<and> (rest = [] \<or> rest = [counts_request rt cfg w pid,
                                       users_request rt cfg pid fault_id])"
proof -
  note fail = analysis_required_failure[OF key scope refl refl, of w fault_id ic]
  show ?thesis
  proof (cases "axios w (fault_request rt cfg pid fault_id)")
    case (Resolved fault)
    note f = this
    show ?thesis
    proof (cases "axios w (notices_request rt cfg pid fault_id)")
      case (Resolved nd)
      note n = this
      show ?thesis
      proof (cases "nullish nd")
        case True
        have "snd (analyze_honeybadger_issue rt cfg w fault_id p ic)
                = [fault_request rt cfg pid fault_id, notices_request rt cfg pid fault_id]"
          using f n True
          by (simp add: analyze_honeybadger_issue_def Let_def scope lift_def
                fault_request_def notices_request_def fault_endpoint_def notices_endpoint_def
                request_outcome[OF key] bind_io_Inr get_prop_def)
        then show ?thesis by simp
      next
        case False
        from analysis_success[OF key scope f n False, of ic] show ?thesis by simp
      qed
    next
      case (Rejected e)
      with fail f show ?thesis by simp
    qed
  next
    case (Rejected e)
    with fail show ?thesis
      by (cases "axios w (notices_request rt cfg pid fault_id)") simp_all
  qed
qed

text \<open>
  Claim C5, as the code has it. In the nine operations that resolve their scope
  (integrations, report, fault list, fault, fault counts, fault notices, affected users,
  insights query, analysis) the effective scope is the explicit \<open>project_id\<close> when it is
  supplied, otherwise the numeric value of \<open>HONEYBADGER_PROJECT_ID\<close> as the
  configuration took it from the environment, and every request the operation issues has
  that scope in its path; when both are absent the call fails before any request, with a
  message that names both the \<open>project_id\<close> parameter and the
  \<open>HONEYBADGER_PROJECT_ID\<close> variable. The occurrence counts operation also takes an
  optional \<open>project_id\<close> but does not resolve it: without it the request goes to the
  counts of all projects, whatever the configured default.
\<close>

theorem scope_resolution:
  "(truthy_num n \<longrightarrow> resolveProjectId rt cfg (Some n) = Inr n)
   \<and> (\<not> truthy_onum p \<and> projectId cfg = Some s \<and> s \<noteq> [] \<and> truthy_num (Number_of rt s) \<longrightarrow>
        resolveProjectId rt cfg p = Inr (Number_of rt s))
   \<and> projectId (loadConfig env) = HONEYBADGER_PROJECT_ID env
   \<and> (resolveProjectId rt cfg p = Inr pid \<and> apiKey cfg \<noteq> [] \<longrightarrow>
        snd (get_honeybadger_project_integrations rt cfg w p)
          = [build_request rt cfg (''/projects/'' @ show_num pid @ ''/integrations'') no_options]
        \<and> snd (get_honeybadger_fault rt cfg w fault_id p) = [fault_request rt cfg pid fault_id]
        \<and> snd (list_honeybadger_fault_notices rt cfg w fault_id p limit)
          = [build_request rt cfg (notices_endpoint pid fault_id)
               (with_params (JObject
                  [(''limit'', JNumber (Math_min (default_num limit 10) (Num 25)))]))]
        \<and> snd (list_honeybadger_fault_affected_users rt cfg w p fault_id q)
          = [build_request rt cfg
               (''/projects/'' @ show_num pid @ ''/faults/'' @ show_num fault_id
                @ ''/affected_users'')
               (with_params (JObject (add_str ''q'' q [])))]
        \<and> snd (query_honeybadger_insights rt cfg w p query ts timezone)
          = [build_request rt cfg (''/projects/'' @ show_num pid @ ''/insights/query'')
               \<lparr> opt_method = Some POST, opt_params = JUndefined,
                 opt_data = JObject (add_str ''timezone'' timezone
                              (add_str ''ts'' ts [(''query'', JString query)])) \<rparr>]
        \<and> (\<exists>rest. snd (analyze_honeybadger_issue rt cfg w fault_id p include_context)
                     = fault_request rt cfg pid fault_id
                       # notices_request rt cfg pid fault_id # rest
                 \<and> (rest = [] \<or> rest = [counts_request rt cfg w pid,
                                          users_request rt cfg pid fault_id])))
   \<and> (resolveProjectId rt cfg p = Inr pid \<and> apiKey cfg \<noteq> []
        \<and> \<not> malformed rt start \<and> \<not> malformed rt stop \<longrightarrow>
        snd (get_honeybadger_project_report rt cfg w p report start stop environment)
          = [build_request rt cfg (''/projects/'' @ show_num pid @ ''/reports/'' @ report)
               (with_params (JObject
                  (add_str ''environment'' environment
                     (ts_entry rt ''start'' start @ ts_entry rt ''stop'' stop))))])
   \<and> (resolveProjectId rt cfg p = Inr pid \<and> apiKey cfg \<noteq> []
        \<and> \<not> malformed rt created_after \<and> \<not> malformed rt occurred_after
        \<and> \<not> malformed rt occurred_before \<longrightarrow>
        snd (list_honeybadger_faults rt cfg w p q created_after occurred_after occurred_before
               limit order pg)
          = [build_request rt cfg (''/projects/'' @ show_num pid @ ''/faults'')
               (with_params (JObject
                  (add_str ''q'' q
                     [(''limit'', JNumber (Math_min (default_num limit 20) (Num 25))),
                      (''order'', JString (default_str order ''recent'')),
                      (''page'', JNumber (default_num pg 1))]
                   @ ts_entry rt ''created_after'' created_after
                   @ ts_entry rt ''occurred_after'' occurred_after
                   @ ts_entry rt ''occurred_before'' occurred_before)))]
        \<and> snd (get_honeybadger_fault_counts rt cfg w p q created_after occurred_after
                  occurred_before)
          = [build_request rt cfg (''/projects/'' @ show_num pid @ ''/faults/summary'')
               (with_params (JObject
                  (add_str ''q'' q []
                   @ ts_entry rt ''created_after'' created_after
                   @ ts_entry rt ''occurred_after'' occurred_after
                   @ ts_entry rt ''occurred_before'' occurred_before)))])
   \<and> (\<not> truthy_onum p \<and> (projectId cfg = None \<or> projectId cfg = Some []) \<longrightarrow>
        resolveProjectId rt cfg p = Inl (Error project_id_required)
        \<and> get_honeybadger_project_integrations rt cfg w p = (toolError project_id_required, [])
        \<and> get_honeybadger_project_report rt cfg w p report start stop environment
            = (toolError project_id_required, [])
        \<and> list_honeybadger_faults rt cfg w p q created_after occurred_after occurred_before
            limit order pg = (toolError project_id_required, [])
        \<and> get_honeybadger_fault rt cfg w fault_id p = (toolError project_id_required, [])
        \<and> get_honeybadger_fault_counts rt cfg w p q created_after occurred_after occurred_before
            = (toolError project_id_required, [])
        \<and> list_honeybadger_fault_notices rt cfg w fault_id p limit
            = (toolError project_id_required, [])
        \<and> list_honeybadger_fault_affected_users rt cfg w p fault_id q
            = (toolError project_id_required, [])
        \<and> query_honeybadger_insights rt cfg w p query ts timezone
            = (toolError project_id_required, [])
        \<and> analyze_honeybadger_issue rt cfg w fault_id p include_context
            = (toolError project_id_required, []))
   \<and> str_includes project_id_required ''project_id''
   \<and> str_includes project_id_required ''HONEYBADGER_PROJECT_ID''
   \<and> (\<not> truthy_onum p \<and> apiKey cfg \<noteq> [] \<longrightarrow>
        snd (get_honeybadger_project_occurrence_counts rt cfg w p period environment)
          = [build_request rt cfg ''/projects/occurrences''
               (with_params (JObject (add_str ''environment'' environment
                                        [(''period'', JString (default_str period ''hour''))])))])"
proof -
  have c1: "truthy_num n \<longrightarrow> resolveProjectId rt cfg (Some n) = Inr n"
    by (simp add: resolve_explicit)
  have c2: "\<not> truthy_onum p \<and> projectId cfg = Some s \<and> s \<noteq> [] \<and> truthy_num (Number_of rt s) \<longrightarrow>
        resolveProjectId rt cfg p = Inr (Number_of rt s)"
    by (simp add: resolve_default)
  have c3: "projectId (loadConfig env) = HONEYBADGER_PROJECT_ID env"
    by (simp add: loadConfig_def)
  have c4: "resolveProjectId rt cfg p = Inr pid \<and> apiKey cfg \<noteq> [] \<longrightarrow>
        snd (get_honeybadger_project_integrations rt cfg w p)
          = [build_request rt cfg (''/projects/'' @ show_num pid @ ''/integrations'') no_options]
        \<and> snd (get_honeybadger_fault rt cfg w fault_id p) = [fault_request rt cfg pid fault_id]
        \<and> snd (list_honeybadger_fault_notices rt cfg w fault_id p limit)
          = [build_request rt cfg (notices_endpoint pid fault_id)
               (with_params (JObject
                  [(''limit'', JNumber (Math_min (default_num limit 10) (Num 25)))]))]
        \<and> snd (list_honeybadger_fault_affected_users rt cfg w p fault_id q)
          = [build_request rt cfg
               (''/projects/'' @ show_num pid @ ''/faults/'' @ show_num fault_id
                @ ''/affected_users'')
               (with_params (JObject (add_str ''q'' q [])))]
        \<and> snd (query_honeybadger_insights rt cfg w p query ts timezone)
          = [build_request rt cfg (''/projects/'' @ show_num pid @ ''/insights/query'')
               \<lparr> opt_method = Some POST, opt_params = JUndefined,
                 opt_data = JObject (add_str ''timezone'' timezone
                              (add_str ''ts'' ts [(''query'', JString query)])) \<rparr>]
        \<and> (\<exists>rest. snd (analyze_honeybadger_issue rt cfg w fault_id p include_context)
                     = fault_request rt cfg pid fault_id
                       # notices_request rt cfg pid fault_id # rest
                 \<and> (rest = [] \<or> rest = [counts_request rt cfg w pid,
                                          users_request rt cfg pid fault_id]))"
    (is "?A \<longrightarrow> ?B")
  proof (intro impI)
    assume a: ?A
    then have scope: "resolveProjectId rt cfg p = Inr pid" and key: "apiKey cfg \<noteq> []"
      by simp_all
    show ?B
      using scoped_simple_traces[OF key scope]
        analysis_trace[OF key scope, where w = w and fault_id = fault_id
          and ic = include_context]
      by simp
  qed
  have c5: "resolveProjectId rt cfg p = Inr pid \<and> apiKey cfg \<noteq> []
        \<and> \<not> malformed rt start \<and> \<not> malformed rt stop \<longrightarrow>
        snd (get_honeybadger_project_report rt cfg w p report start stop environment)
          = [build_request rt cfg (''/projects/'' @ show_num pid @ ''/reports/'' @ report)
               (with_params (JObject
                  (add_str ''environment'' environment
                     (ts_entry rt ''start'' start @ ts_entry rt ''stop'' stop))))]"
    (is "?A \<longrightarrow> ?B")
  proof (intro impI)
    assume a: ?A
    then have scope: "resolveProjectId rt cfg p = Inr pid" and key: "apiKey cfg \<noteq> []"
      and ok: "\<not> malformed rt start" "\<not> malformed rt stop"
      by simp_all
    show ?B
      using scoped_report_trace[OF key scope ok] by simp
  qed
  have c6: "resolveProjectId rt cfg p = Inr pid \<and> apiKey cfg \<noteq> []
        \<and> \<not> malformed rt created_after \<and> \<not> malformed rt occurred_after
        \<and> \<not> malformed rt occurred_before \<longrightarrow>
        snd (list_honeybadger_faults rt cfg w p q created_after occurred_after occurred_before
               limit order pg)
          = [build_request rt cfg (''/projects/'' @ show_num pid @ ''/faults'')
               (with_params (JObject
                  (add_str ''q'' q
                     [(''limit'', JNumber (Math_min (default_num limit 20) (Num 25))),
                      (''order'', JString (default_str order ''recent'')),
                      (''page'', JNumber (default_num pg 1))]
                   @ ts_entry rt ''created_after'' created_after
                   @ ts_entry rt ''occurred_after'' occurred_after
                   @ ts_entry rt ''occurred_before'' occurred_before)))]
        \<and> snd (get_honeybadger_fault_counts rt cfg w p q created_after occurred_after
                  occurred_before)
          = [build_request rt cfg (''/projects/'' @ show_num pid @ ''/faults/summary'')
               (with_params (JObject
                  (add_str ''q'' q []
                   @ ts_entry rt ''created_after'' created_after
                   @ ts_entry rt ''occurred_after'' occurred_after
                   @ ts_entry rt ''occurred_before'' occurred_before)))]"
    (is "?A \<longrightarrow> ?B")
  proof (intro impI)
    assume a: ?A
    then have scope: "resolveProjectId rt cfg p = Inr pid" and key: "apiKey cfg \<noteq> []"
      and ok: "\<not> malformed rt created_after" "\<not> malformed rt occurred_after"
        "\<not> malformed rt occurred_before"
      by simp_all
    show ?B
      using scoped_faults_trace[OF key scope ok] scoped_counts_trace[OF key scope ok] by simp
  qed
  have c7: "\<not> truthy_onum p \<and> (projectId cfg = None \<or> projectId cfg = Some []) \<longrightarrow>
        resolveProjectId rt cfg p = Inl (Error project_id_required)
        \<and> get_honeybadger_project_integrations rt cfg w p = (toolError project_id_required, [])
        \<and> get_honeybadger_project_report rt cfg w p report start stop environment
            = (toolError project_id_required, [])
        \<and> list_honeybadger_faults rt cfg w p q created_after occurred_after occurred_before
            limit order pg = (toolError project_id_required, [])
        \<and> get_honeybadger_fault rt cfg w fault_id p = (toolError project_id_required, [])
        \<and> get_honeybadger_fault_counts rt cfg w p q created_after occurred_after occurred_before
            = (toolError project_id_required, [])
        \<and> list_honeybadger_fault_notices rt cfg w fault_id p limit
            = (toolError project_id_required, [])
        \<and> list_honeybadger_fault_affected_users rt cfg w p fault_id q
            = (toolError project_id_required, [])
        \<and> query_honeybadger_insights rt cfg w p query ts timezone
            = (toolError project_id_required, [])
        \<and> analyze_honeybadger_issue rt cfg w fault_id p include_context
            = (toolError project_id_required, [])"
  proof (intro impI)
    assume "\<not> truthy_onum p \<and> (projectId cfg = None \<or> projectId cfg = Some [])"
    then have "resolveProjectId rt cfg p = Inl (Error project_id_required)"
      using resolve_absent by blast
    then show "resolveProjectId rt cfg p = Inl (Error project_id_required)
        \<and> get_honeybadger_project_integrations rt cfg w p = (toolError project_id_required, [])
        \<and> get_honeybadger_project_report rt cfg w p report start stop environment
            = (toolError project_id_required, [])
        \<and> list_honeybadger_faults rt cfg w p q created_after occurred_after occurred_before
            limit order pg = (toolError project_id_required, [])
        \<and> get_honeybadger_fault rt cfg w fault_id p = (toolError project_id_required, [])
        \<and> get_honeybadger_fault_counts rt cfg w p q created_after occurred_after occurred_before
            = (toolError project_id_required, [])
        \<and> list_honeybadger_fault_notices rt cfg w fault_id p limit
            = (toolError project_id_required, [])
        \<and> list_honeybadger_fault_affected_users rt cfg w p fault_id q
            = (toolError project_id_required, [])
        \<and> query_honeybadger_insights rt cfg w p query ts timezone
            = (toolError project_id_required, [])
        \<and> analyze_honeybadger_issue rt cfg w fault_id p include_context
            = (toolError project_id_required, [])"
      by (simp add: scope_failure_stops_call)
  qed
  have c8: "\<not> truthy_onum p \<and> apiKey cfg \<noteq> [] \<longrightarrow>
        snd (get_honeybadger_project_occurrence_counts rt cfg w p period environment)
          = [build_request rt cfg ''/projects/occurrences''
               (with_params (JObject (add_str ''environment'' environment
                                        [(''period'', JString (default_str period ''hour''))])))]"
    by (simp add: get_honeybadger_project_occurrence_counts_def Let_def snd_bind_io
          request_trace_cases split: sum.splits)
  show ?thesis
    using c1 c2 c3 c4 c5 c6 c7 c8 required_message_names_both
    by blast
qed

theorem scope_resolution_witness:
  "resolveProjectId example_runtime example_config (Some (Num 41227)) = Inr (Num 41227)
   \<and> map req_url (snd (get_honeybadger_fault example_runtime
         (loadConfig (example_environment \<lparr> HONEYBADGER_PROJECT_ID := Some ''41227'' \<rparr>))
         (service_always (Resolved JNull)) (Num 127320184) None))
       = [''https://app.honeybadger.io/v2/projects/41227/faults/127320184'']
   \<and> map req_url (snd (get_honeybadger_fault example_runtime
         (loadConfig (example_environment \<lparr> HONEYBADGER_PROJECT_ID := Some ''41227'' \<rparr>))
         (service_always (Resolved JNull)) (Num 127320184) (Some (Num 7))))
       = [''https://app.honeybadger.io/v2/projects/7/faults/127320184'']
   \<and> get_honeybadger_fault example_runtime example_config (service_always (Resolved JNull))
        (Num 127320184) None = (toolError project_id_required, [])"
proof -
  let ?env = "example_environment \<lparr> HONEYBADGER_PROJECT_ID := Some ''41227'' \<rparr>"
  let ?w = "service_always (Resolved JNull)"
  have key: "apiKey (loadConfig ?env) \<noteq> []"
    by (simp add: loadConfig_def example_environment_def env_or_def)
  have num: "Number_of example_runtime ''41227'' = Num 41227"
    by (simp add: example_runtime_def)
  have dflt: "projectId (loadConfig ?env) = Some ''41227''"
    using scope_resolution[where env = ?env, THEN conjunct2, THEN conjunct2, THEN conjunct1]
    by simp
  have r1: "resolveProjectId example_runtime example_config (Some (Num 41227)) = Inr (Num 41227)"
    using scope_resolution[where n = "Num 41227" and rt = example_runtime
            and cfg = example_config, THEN conjunct1]
    by simp
  have r2: "resolveProjectId example_runtime (loadConfig ?env) None = Inr (Num 41227)"
    using scope_resolution[where rt = example_runtime and cfg = "loadConfig ?env" and p = None
            and s = "''41227''", THEN conjunct2, THEN conjunct1] dflt num
    by (simp add: truthy_onum_def)
  have r3: "resolveProjectId example_runtime (loadConfig ?env) (Some (Num 7)) = Inr (Num 7)"
    using scope_resolution[where n = "Num 7" and rt = example_runtime
            and cfg = "loadConfig ?env", THEN conjunct1]
    by simp
  have t2: "snd (get_honeybadger_fault example_runtime (loadConfig ?env) ?w (Num 127320184) None)
              = [fault_request example_runtime (loadConfig ?env) (Num 41227) (Num 127320184)]"
    using scope_resolution[where rt = example_runtime and cfg = "loadConfig ?env" and p = None
            and pid = "Num 41227" and w = ?w and fault_id = "Num 127320184",
            THEN conjunct2, THEN conjunct2, THEN conjunct2, THEN conjunct1] r2 key
    by simp
  have t3: "snd (get_honeybadger_fault example_runtime (loadConfig ?env) ?w (Num 127320184)
                   (Some (Num 7)))
              = [fault_request example_runtime (loadConfig ?env) (Num 7) (Num 127320184)]"
    using scope_resolution[where rt = example_runtime and cfg = "loadConfig ?env"
            and p = "Some (Num 7)" and pid = "Num 7" and w = ?w and fault_id = "Num 127320184",
            THEN conjunct2, THEN conjunct2, THEN conjunct2, THEN conjunct1] r3 key
    by simp
  have u2: "req_url (fault_request example_runtime (loadConfig ?env) (Num 41227) (Num 127320184))
              = ''https://app.honeybadger.io/v2/projects/41227/faults/127320184''"
    by code_simp
  have u3: "req_url (fault_request example_runtime (loadConfig ?env) (Num 7) (Num 127320184))
              = ''https://app.honeybadger.io/v2/projects/7/faults/127320184''"
    by code_simp
  have absent: "get_honeybadger_fault example_runtime example_config ?w (Num 127320184) None
                  = (toolError project_id_required, [])"
    using scope_resolution[where rt = example_runtime and cfg = example_config and p = None
            and w = ?w and fault_id = "Num 127320184",
            THEN conjunct2, THEN conjunct2, THEN conjunct2, THEN conjunct2, THEN conjunct2,
            THEN conjunct2, THEN conjunct1]
    by (simp add: truthy_onum_def example_config_def)
  show ?thesis
    using r1 t2 t3 u2 u3 absent by simp
qed

text \<open>The occurrence counts operation, called without a project and with no default
  configured, does not fail: it asks for the counts of all projects.\<close>

theorem occurrence_counts_ignores_scope_counterexample:
  "get_honeybadger_project_occurrence_counts example_runtime example_config
     (service_always (Resolved (JArray []))) None None None
   = (formatJsonResponse (JArray []),
      [build_request example_runtime example_config ''/projects/occurrences''
         (with_params (JObject [(''period'', JString ''hour'')]))])
   \<and> projectId example_config = None"
  by code_simp

section \<open>Failed requests, operation by operation\<close>

lemma every_request_rejected:
  assumes key: "apiKey cfg \<noteq> []" and all: "\<forall>req. axios w req = Rejected err"
  shows "makeHoneybadgerRequest rt cfg w ep opts
           = (Inl (Error (error_taxonomy ep err)), [build_request rt cfg ep opts])"
  using request_rejected[OF key, where w = w and rt = rt and endpoint = ep and options = opts
          and err = err] all
  by simp

lemma failed_plain_operations:
  assumes key: "apiKey cfg \<noteq> []" and all: "\<forall>req. axios w req = Rejected err"
  shows "fst (list_honeybadger_projects rt cfg w account_id pg per_page)
           = toolError (error_taxonomy
               (if truthy_ostr account_id
                then ''/accounts/'' @ ToString (of_ostr account_id) @ ''/projects''
                else ''/projects'') err)"
    and "fst (get_honeybadger_project rt cfg w ident)
           = toolError (error_taxonomy (''/projects/'' @ show_num ident) err)"
    and "fst (get_honeybadger_project_occurrence_counts rt cfg w p0 period environment)
           = toolError (error_taxonomy
               (if truthy_onum p0
                then ''/projects/'' @ ToString (of_onum p0) @ ''/occurrences''
                else ''/projects/occurrences'') err)"
    and "fst (create_honeybadger_project rt cfg w account name red dpl user_url source_url
                purge_days usf)
           = toolError (error_taxonomy ''/projects'' err)"
    and "fst (update_honeybadger_project rt cfg w ident oname red dpl user_url source_url
                purge_days usf)
           = toolError (error_taxonomy (''/projects/'' @ show_num ident) err)"
    and "fst (delete_honeybadger_project rt cfg w ident True)
           = toolError (error_taxonomy (''/projects/'' @ show_num ident) err)"
  by (simp_all add: list_honeybadger_projects_def get_honeybadger_project_def
        get_honeybadger_project_occurrence_counts_def create_honeybadger_project_def
        update_honeybadger_project_def delete_honeybadger_project_def Let_def
        every_request_rejected[OF key all])

lemma failed_scoped_operations:
  assumes key: "apiKey cfg \<noteq> []" and all: "\<forall>req. axios w req = Rejected err"
    and scope: "resolveProjectId rt cfg p = Inr pid"
  shows "fst (get_honeybadger_project_integrations rt cfg w p)
           = toolError (error_taxonomy (''/projects/'' @ show_num pid @ ''/integrations'') err)"
    and "fst (get_honeybadger_fault rt cfg w fault_id p)
           = toolError (error_taxonomy (fault_endpoint pid fault_id) err)"
    and "fst (list_honeybadger_fault_notices rt cfg w fault_id p limit)
           = toolError (error_taxonomy (notices_endpoint pid fault_id) err)"
    and "fst (list_honeybadger_fault_affected_users rt cfg w p fault_id q)
           = toolError (error_taxonomy
               (''/projects/'' @ show_num pid @ ''/faults/'' @ show_num fault_id
                @ ''/affected_users'') err)"
    and "fst (query_honeybadger_insights rt cfg w p query ts timezone)
           = toolError (error_taxonomy (''/projects/'' @ show_num pid @ ''/insights/query'') err)"
  by (simp_all add: get_honeybadger_project_integrations_def get_honeybadger_fault_def
        list_honeybadger_fault_notices_def list_honeybadger_fault_affected_users_def
        query_honeybadger_insights_def Let_def lift_def scope
        fault_endpoint_def notices_endpoint_def every_request_rejected[OF key all])

lemma failed_filtered_operations:
  assumes key: "apiKey cfg \<noteq> []" and all: "\<forall>req. axios w req = Rejected err"
    and scope: "resolveProjectId rt cfg p = Inr pid"
  shows "\<not> malformed rt start \<Longrightarrow> \<not> malformed rt stop \<Longrightarrow>
         fst (get_honeybadger_project_report rt cfg w p report start stop environment)
           = toolError (error_taxonomy
               (''/projects/'' @ show_num pid @ ''/reports/'' @ report) err)"
    and "\<not> malformed rt ca \<Longrightarrow> \<not> malformed rt oa \<Longrightarrow> \<not> malformed rt ob \<Longrightarrow>
         fst (list_honeybadger_faults rt cfg w p q ca oa ob limit ord pg)
           = toolError (error_taxonomy (''/projects/'' @ show_num pid @ ''/faults'') err)"
    and "\<not> malformed rt ca \<Longrightarrow> \<not> malformed rt oa \<Longrightarrow> \<not> malformed rt ob \<Longrightarrow>
         fst (get_honeybadger_fault_counts rt cfg w p q ca oa ob)
           = toolError (error_taxonomy (''/projects/'' @ show_num pid @ ''/faults/summary'') err)"
  by (simp_all add: get_honeybadger_project_report_def list_honeybadger_faults_def
        get_honeybadger_fault_counts_def Let_def lift_def scope add_timestamp_exact
        every_request_rejected[OF key all])

lemma failed_analysis:
  assumes key: "apiKey cfg \<noteq> []" and all: "\<forall>req. axios w req = Rejected err"
    and scope: "resolveProjectId rt cfg p = Inr pid"
  shows "fst (analyze_honeybadger_issue rt cfg w fault_id p ic)
           = toolError (if first_rejects_first w
                        then error_taxonomy (fault_endpoint pid fault_id) err
                        else error_taxonomy (notices_endpoint pid fault_id) err)"
  using analysis_required_failure[OF key scope refl refl, of w fault_id ic] all
  by simp

text \<open>
  Claim C4, as the code has it. A request the service answers with a non-success status,
  or does not answer, fails with the message of the taxonomy table: status 401 gives the
  fixed authentication message whatever the body, 403 \<open>Permission denied:\<close> and the
  service message, 404 \<open>Not found:\<close> and the path, 422 \<open>Validation error:\<close> and the
  service message, 429 the fixed rate-limit message, any other status
  \<open>Honeybadger API error: <status> - <service message>\<close>, and no response
  \<open>Network error:\<close> and the cause. When the service fails the requests so, each of
  the fifteen operations that reaches its request (its scope resolved, its timestamps well
  formed, a deletion confirmed) returns an error result whose text is exactly the table's
  message for the path it asked for; the analysis reports the failure of its fault or of
  its notices request, whichever is seen first. The exception is the two best-effort
  requests of the analysis, for the fault counts and the affected users: their failure is
  replaced by \<open>null\<close> and the call goes on to the report.
\<close>

theorem service_errors_follow_taxonomy:
  assumes "apiKey cfg \<noteq> []"
  shows
    "(axios w (build_request rt cfg endpoint options) = Rejected err \<longrightarrow>
        makeHoneybadgerRequest rt cfg w endpoint options
          = (Inl (Error (error_taxonomy endpoint err)), [build_request rt cfg endpoint options]))
     \<and> (case response err of
           None \<Rightarrow> error_taxonomy endpoint err = ''Network error: '' @ err_message err
         | Some r \<Rightarrow>
             error_taxonomy endpoint err =
               (if status r = 401 then ''Authentication failed. Check HONEYBADGER_API_KEY.''
                else if status r = 403 then ''Permission denied: '' @ ToString (service_message r)
                else if status r = 404 then ''Not found: '' @ endpoint
                else if status r = 422 then ''Validation error: '' @ ToString (service_message r)
                else if status r = 429 then ''Rate limit exceeded. Please wait and retry.''
                else ''Honeybadger API error: '' @ show_int (status r) @ '' - ''
                     @ ToString (service_message r)))
     \<and> ((\<forall>req. axios w req = Rejected err) \<longrightarrow>
          fst (list_honeybadger_projects rt cfg w account_id pg per_page)
            = toolError (error_taxonomy
                (if truthy_ostr account_id
                 then ''/accounts/'' @ ToString (of_ostr account_id) @ ''/projects''
                 else ''/projects'') err)
          \<and> fst (get_honeybadger_project rt cfg w ident)
            = toolError (error_taxonomy (''/projects/'' @ show_num ident) err)
          \<and> fst (get_honeybadger_project_occurrence_counts rt cfg w p0 period environment)
            = toolError (error_taxonomy
                (if truthy_onum p0
                 then ''/projects/'' @ ToString (of_onum p0) @ ''/occurrences''
                 else ''/projects/occurrences'') err)
          \<and> fst (create_honeybadger_project rt cfg w account name red dpl user_url source_url
                    purge_days usf)
            = toolError (error_taxonomy ''/projects'' err)
          \<and> fst (update_honeybadger_project rt cfg w ident oname red dpl user_url source_url
                    purge_days usf)
            = toolError (error_taxonomy (''/projects/'' @ show_num ident) err)
          \<and> fst (delete_honeybadger_project rt cfg w ident True)
            = toolError (error_taxonomy (''/projects/'' @ show_num ident) err))
     \<and> ((\<forall>req. axios w req = Rejected err) \<and> resolveProjectId rt cfg p = Inr pid \<longrightarrow>
          fst (get_honeybadger_project_integrations rt cfg w p)
            = toolError (error_taxonomy (''/projects/'' @ show_num pid @ ''/integrations'') err)
          \<and> fst (get_honeybadger_fault rt cfg w fault_id p)
            = toolError (error_taxonomy (fault_endpoint pid fault_id) err)
          \<and> fst (list_honeybadger_fault_notices rt cfg w fault_id p limit)
            = toolError (error_taxonomy (notices_endpoint pid fault_id) err)
          \<and> fst (list_honeybadger_fault_affected_users rt cfg w p fault_id q)
            = toolError (error_taxonomy
                (''/projects/'' @ show_num pid @ ''/faults/'' @ show_num fault_id
                 @ ''/affected_users'') err)
          \<and> fst (query_honeybadger_insights rt cfg w p query ts timezone)
            = toolError (error_taxonomy (''/projects/'' @ show_num pid @ ''/insights/query'') err)
          \<and> fst (analyze_honeybadger_issue rt cfg w fault_id p include_context)
            = toolError (if first_rejects_first w
                         then error_taxonomy (fault_endpoint pid fault_id) err
                         else error_taxonomy (notices_endpoint pid fault_id) err))
     \<and> ((\<forall>req. axios w req = Rejected err) \<and> resolveProjectId rt cfg p = Inr pid
          \<and> \<not> malformed rt start \<and> \<not> malformed rt stop \<longrightarrow>
          fst (get_honeybadger_project_report rt cfg w p report start stop environment)
            = toolError (error_taxonomy
                (''/projects/'' @ show_num pid @ ''/reports/'' @ report) err))
     \<and> ((\<forall>req. axios w req = Rejected err) \<and> resolveProjectId rt cfg p = Inr pid
          \<and> \<not> malformed rt created_after \<and> \<not> malformed rt occurred_after
          \<and> \<not> malformed rt occurred_before \<longrightarrow>
          fst (list_honeybadger_faults rt cfg w p q created_after occurred_after occurred_before
                 limit order pg)
            = toolError (error_taxonomy (''/projects/'' @ show_num pid @ ''/faults'') err)
          \<and> fst (get_honeybadger_fault_counts rt cfg w p q created_after occurred_after
                    occurred_before)
            = toolError (error_taxonomy (''/projects/'' @ show_num pid @ ''/faults/summary'') err))
     \<and> (resolveProjectId rt cfg p = Inr pid
          \<and> axios w (fault_request rt cfg pid fault_id) = Resolved fault
          \<and> axios w (notices_request rt cfg pid fault_id) = Resolved noticesData
          \<and> \<not> nullish noticesData
          \<and> axios w (counts_request rt cfg w pid) = Rejected err
          \<and> axios w (users_request rt cfg pid fault_id) = Rejected err' \<longrightarrow>
          fst (analyze_honeybadger_issue rt cfg w fault_id p include_context)
            = (case generateAnalysis rt fault
                      (js_or (js_prop noticesData ''results'') (JArray []))
                      (default_bool include_context True) JNull JNull
               of Inl e \<Rightarrow> toolError (e_message rt e)
                | Inr a \<Rightarrow> \<lparr> content_text = a, isError = False \<rparr>))"
proof -
  note key = assms
  have 1: "axios w (build_request rt cfg endpoint options) = Rejected err \<longrightarrow>
        makeHoneybadgerRequest rt cfg w endpoint options
          = (Inl (Error (error_taxonomy endpoint err)), [build_request rt cfg endpoint options])"
    using request_rejected[OF key, where w = w and rt = rt and endpoint = endpoint
            and options = options and err = err]
    by blast
  have 2: "case response err of
           None \<Rightarrow> error_taxonomy endpoint err = ''Network error: '' @ err_message err
         | Some r \<Rightarrow>
             error_taxonomy endpoint err =
               (if status r = 401 then ''Authentication failed. Check HONEYBADGER_API_KEY.''
                else if status r = 403 then ''Permission denied: '' @ ToString (service_message r)
                else if status r = 404 then ''Not found: '' @ endpoint
                else if status r = 422 then ''Validation error: '' @ ToString (service_message r)
                else if status r = 429 then ''Rate limit exceeded. Please wait and retry.''
                else ''Honeybadger API error: '' @ show_int (status r) @ '' - ''
                     @ ToString (service_message r))"
    by (simp add: error_taxonomy_def split: option.splits)
  have 3: "(\<forall>req. axios w req = Rejected err) \<longrightarrow>
          fst (list_honeybadger_projects rt cfg w account_id pg per_page)
            = toolError (error_taxonomy
                (if truthy_ostr account_id
                 then ''/accounts/'' @ ToString (of_ostr account_id) @ ''/projects''
                 else ''/projects'') err)
          \<and> fst (get_honeybadger_project rt cfg w ident)
            = toolError (error_taxonomy (''/projects/'' @ show_num ident) err)
          \<and> fst (get_honeybadger_project_occurrence_counts rt cfg w p0 period environment)
            = toolError (error_taxonomy
                (if truthy_onum p0
                 then ''/projects/'' @ ToString (of_onum p0) @ ''/occurrences''
                 else ''/projects/occurrences'') err)
          \<and> fst (create_honeybadger_project rt cfg w account name red dpl user_url source_url
                    purge_days usf)
            = toolError (error_taxonomy ''/projects'' err)
          \<and> fst (update_honeybadger_project rt cfg w ident oname red dpl user_url source_url
                    purge_days usf)
            = toolError (error_taxonomy (''/projects/'' @ show_num ident) err)
          \<and> fst (delete_honeybadger_project rt cfg w ident True)
            = toolError (error_taxonomy (''/projects/'' @ show_num ident) err)"
    (is "?A \<longrightarrow> ?B")
  proof (intro impI)
    assume all: ?A
    show ?B using failed_plain_operations[OF key all] by simp
  qed
  have 4: "(\<forall>req. axios w req = Rejected err) \<and> resolveProjectId rt cfg p = Inr pid \<longrightarrow>
          fst (get_honeybadger_project_integrations rt cfg w p)
            = toolError (error_taxonomy (''/projects/'' @ show_num pid @ ''/integrations'') err)
          \<and> fst (get_honeybadger_fault rt cfg w fault_id p)
            = toolError (error_taxonomy (fault_endpoint pid fault_id) err)
          \<and> fst (list_honeybadger_fault_notices rt cfg w fault_id p limit)
            = toolError (error_taxonomy (notices_endpoint pid fault_id) err)
          \<and> fst (list_honeybadger_fault_affected_users rt cfg w p fault_id q)
            = toolError (error_taxonomy
                (''/projects/'' @ show_num pid @ ''/faults/'' @ show_num fault_id
                 @ ''/affected_users'') err)
          \<and> fst (query_honeybadger_insights rt cfg w p query ts timezone)
            = toolError (error_taxonomy (''/projects/'' @ show_num pid @ ''/insights/query'') err)
          \<and> fst (analyze_honeybadger_issue rt cfg w fault_id p include_context)
            = toolError (if first_rejects_first w
                         then error_taxonomy (fault_endpoint pid fault_id) err
                         else error_taxonomy (notices_endpoint pid fault_id) err)"
    (is "?A \<longrightarrow> ?B")
  proof (intro impI)
    assume a: ?A
    then have all: "\<forall>req. axios w req = Rejected err"
      and scope: "resolveProjectId rt cfg p = Inr pid"
      by simp_all
    show ?B
      using failed_scoped_operations[OF key all scope] failed_analysis[OF key all scope]
      by simp
  qed
  have 5: "(\<forall>req. axios w req = Rejected err) \<and> resolveProjectId rt cfg p = Inr pid
          \<and> \<not> malformed rt start \<and> \<not> malformed rt stop \<longrightarrow>
          fst (get_honeybadger_project_report rt cfg w p report start stop environment)
            = toolError (error_taxonomy
                (''/projects/'' @ show_num pid @ ''/reports/'' @ report) err)"
    (is "?A \<longrightarrow> ?B")
  proof (intro impI)
    assume a: ?A
    then have all: "\<forall>req. axios w req = Rejected err"
      and scope: "resolveProjectId rt cfg p = Inr pid"
      and ok: "\<not> malformed rt start" "\<not> malformed rt stop"
      by simp_all
    show ?B
      using failed_filtered_operations(1)[OF key all scope ok] by simp
  qed
  have 6: "(\<forall>req. axios w req = Rejected err) \<and> resolveProjectId rt cfg p = Inr pid
          \<and> \<not> malformed rt created_after \<and> \<not> malformed rt occurred_after
          \<and> \<not> malformed rt occurred_before \<longrightarrow>
          fst (list_honeybadger_faults rt cfg w p q created_after occurred_after occurred_before
                 limit order pg)
            = toolError (error_taxonomy (''/projects/'' @ show_num pid @ ''/faults'') err)
          \<and> fst (get_honeybadger_fault_counts rt cfg w p q created_after occurred_after
                    occurred_before)
            = toolError (error_taxonomy (''/projects/'' @ show_num pid @ ''/faults/summary'') err)"
    (is "?A \<longrightarrow> ?B")
  proof (intro impI)
    assume a: ?A
    then have all: "\<forall>req. axios w req = Rejected err"
      and scope: "resolveProjectId rt cfg p = Inr pid"
      and ok: "\<not> malformed rt created_after" "\<not> malformed rt occurred_after"
        "\<not> malformed rt occurred_before"
      by simp_all
    show ?B
      using failed_filtered_operations(2,3)[OF key all scope ok] by simp
  qed
  have 7: "resolveProjectId rt cfg p = Inr pid
          \<and> axios w (fault_request rt cfg pid fault_id) = Resolved fault
          \<and> axios w (notices_request rt cfg pid fault_id) = Resolved noticesData
          \<and> \<not> nullish noticesData
          \<and> axios w (counts_request rt cfg w pid) = Rejected err
          \<and> axios w (users_request rt cfg pid fault_id) = Rejected err' \<longrightarrow>
          fst (analyze_honeybadger_issue rt cfg w fault_id p include_context)
            = (case generateAnalysis rt fault
                      (js_or (js_prop noticesData ''results'') (JArray []))
                      (default_bool include_context True) JNull JNull
               of Inl e \<Rightarrow> toolError (e_message rt e)
                | Inr a \<Rightarrow> \<lparr> content_text = a, isError = False \<rparr>)"
  proof (intro impI)
    assume a: "resolveProjectId rt cfg p = Inr pid
          \<and> axios w (fault_request rt cfg pid fault_id) = Resolved fault
          \<and> axios w (notices_request rt cfg pid fault_id) = Resolved noticesData
          \<and> \<not> nullish noticesData
          \<and> axios w (counts_request rt cfg w pid) = Rejected err
          \<and> axios w (users_request rt cfg pid fault_id) = Rejected err'"
    then have "analyze_honeybadger_issue rt cfg w fault_id p include_context =
     ((case generateAnalysis rt fault (js_or (js_prop noticesData ''results'') (JArray []))
              (default_bool include_context True)
              (absorbed (axios w (counts_request rt cfg w pid)))
              (absorbed (axios w (users_request rt cfg pid fault_id)))
       of Inl e \<Rightarrow> toolError (e_message rt e)
        | Inr a \<Rightarrow> \<lparr> content_text = a, isError = False \<rparr>),
      [fault_request rt cfg pid fault_id, notices_request rt cfg pid fault_id,
       counts_request rt cfg w pid, users_request rt cfg pid fault_id])"
      using analysis_success[OF key, where rt = rt and p = p and pid = pid and w = w
              and fault_id = fault_id and fault = fault and noticesData = noticesData
              and ic = include_context]
      by blast
    with a show "fst (analyze_honeybadger_issue rt cfg w fault_id p include_context)
            = (case generateAnalysis rt fault
                      (js_or (js_prop noticesData ''results'') (JArray []))
                      (default_bool include_context True) JNull JNull
               of Inl e \<Rightarrow> toolError (e_message rt e)
                | Inr a \<Rightarrow> \<lparr> content_text = a, isError = False \<rparr>)"
      by (simp add: absorbed_def)
  qed
  show ?thesis
    using 1 2 3 4 5 6 7 by blast
qed

theorem service_errors_follow_taxonomy_witness:
  "makeHoneybadgerRequest example_runtime example_config
      (service_always (service_status 401 (JObject [(''error'', JString ''any body'')])
         ''Unauthorized''))
      ''/projects'' no_options
     = (Inl (Error ''Authentication failed. Check HONEYBADGER_API_KEY.''),
        [build_request example_runtime example_config ''/projects'' no_options])
   \<and> fst (get_honeybadger_fault example_runtime example_config
            (service_always (service_status 404 JNull ''Not Found''))
            (Num 5) (Some (Num 41227)))
       = toolError ''Not found: /projects/41227/faults/5''
   \<and> fst (delete_honeybadger_project example_runtime example_config
            (service_always (service_status 403 (JObject [(''errors'', JString ''read only'')])
               ''Forbidden''))
            (Num 41227) True)
       = toolError (''Permission denied: ''
            @ ToString (service_message \<lparr> status = 403,
                 resp_data = JObject [(''errors'', JString ''read only'')],
                 statusText = ''Forbidden'' \<rparr>))
   \<and> axios best_effort_unauthorized
         (counts_request example_runtime example_config best_effort_unauthorized (Num 41227))
       = service_status 401 JNull ''Unauthorized''
   \<and> axios best_effort_unauthorized
         (users_request example_runtime example_config (Num 41227) (Num 127320184))
       = service_status 401 JNull ''Unauthorized''
   \<and> \<not> isError (fst (analyze_honeybadger_issue example_runtime example_config
                        best_effort_unauthorized (Num 127320184) (Some (Num 41227)) None))"
proof -
  let ?e401 = "\<lparr> response = Some \<lparr> status = 401,
                    resp_data = JObject [(''error'', JString ''any body'')],
                    statusText = ''Unauthorized'' \<rparr>,
                  err_message = ''Request failed'' \<rparr>"
  let ?e404 = "\<lparr> response = Some \<lparr> status = 404, resp_data = JNull,
                    statusText = ''Not Found'' \<rparr>,
                  err_message = ''Request failed'' \<rparr>"
  let ?e403 = "\<lparr> response = Some \<lparr> status = 403,
                    resp_data = JObject [(''errors'', JString ''read only'')],
                    statusText = ''Forbidden'' \<rparr>,
                  err_message = ''Request failed'' \<rparr>"
  have h1: "axios (service_always (service_status 401 (JObject [(''error'', JString ''any body'')])
               ''Unauthorized''))
             (build_request example_runtime example_config ''/projects'' no_options)
           = Rejected ?e401"
    by (simp add: service_status_def)
  have h2: "\<forall>req. axios (service_always (service_status 404 JNull ''Not Found'')) req
                   = Rejected ?e404"
    by (simp add: service_status_def)
  have h3: "\<forall>req. axios (service_always (service_status 403
                      (JObject [(''errors'', JString ''read only'')]) ''Forbidden'')) req
                   = Rejected ?e403"
    by (simp add: service_status_def)
  have scope: "resolveProjectId example_runtime example_config (Some (Num 41227))
                 = Inr (Num 41227)"
    by (simp add: resolve_explicit)
  have m2: "error_taxonomy (fault_endpoint (Num 41227) (Num 5)) ?e404
              = ''Not found: /projects/41227/faults/5''"
    by code_simp
  have m3: "error_taxonomy (''/projects/'' @ show_num (Num 41227)) ?e403
              = ''Permission denied: ''
                @ ToString (service_message \<lparr> status = 403,
                     resp_data = JObject [(''errors'', JString ''read only'')],
                     statusText = ''Forbidden'' \<rparr>)"
    by (simp add: error_taxonomy_def)
  have c1: "makeHoneybadgerRequest example_runtime example_config
      (service_always (service_status 401 (JObject [(''error'', JString ''any body'')])
         ''Unauthorized''))
      ''/projects'' no_options
     = (Inl (Error ''Authentication failed. Check HONEYBADGER_API_KEY.''),
        [build_request example_runtime example_config ''/projects'' no_options])"
    using service_errors_follow_taxonomy[OF example_key, where rt = example_runtime
            and w = "service_always (service_status 401
                       (JObject [(''error'', JString ''any body'')]) ''Unauthorized'')"
            and endpoint = "''/projects''" and options = no_options and err = ?e401,
            THEN conjunct1] h1
    by (simp add: error_taxonomy_def)
  have c2: "fst (get_honeybadger_fault example_runtime example_config
            (service_always (service_status 404 JNull ''Not Found''))
            (Num 5) (Some (Num 41227)))
       = toolError ''Not found: /projects/41227/faults/5''"
    using service_errors_follow_taxonomy[OF example_key, where rt = example_runtime
            and w = "service_always (service_status 404 JNull ''Not Found'')"
            and err = ?e404 and p = "Some (Num 41227)" and pid = "Num 41227"
            and fault_id = "Num 5",
            THEN conjunct2, THEN conjunct2, THEN conjunct2, THEN conjunct1] h2 scope m2
    by simp
  have c3: "fst (delete_honeybadger_project example_runtime example_config
            (service_always (service_status 403 (JObject [(''errors'', JString ''read only'')])
               ''Forbidden''))
            (Num 41227) True)
       = toolError (''Permission denied: ''
            @ ToString (service_message \<lparr> status = 403,
                 resp_data = JObject [(''errors'', JString ''read only'')],
                 statusText = ''Forbidden'' \<rparr>))"
    using service_errors_follow_taxonomy[OF example_key, where rt = example_runtime
            and w = "service_always (service_status 403
                       (JObject [(''errors'', JString ''read only'')]) ''Forbidden'')"
            and err = ?e403 and ident = "Num 41227",
            THEN conjunct2, THEN conjunct2, THEN conjunct1] h3 m3
    by simp
  have b: "axios best_effort_unauthorized
             (fault_request example_runtime example_config (Num 41227) (Num 127320184))
           = Resolved example_fault
         \<and> axios best_effort_unauthorized
             (notices_request example_runtime example_config (Num 41227) (Num 127320184))
           = Resolved example_notices
         \<and> \<not> nullish example_notices
         \<and> axios best_effort_unauthorized
             (counts_request example_runtime example_config best_effort_unauthorized (Num 41227))
           = service_status 401 JNull ''Unauthorized''
         \<and> axios best_effort_unauthorized
             (users_request example_runtime example_config (Num 41227) (Num 127320184))
           = service_status 401 JNull ''Unauthorized''"
    by code_simp
  have "case generateAnalysis example_runtime example_fault
               (js_or (js_prop example_notices ''results'') (JArray [])) True JNull JNull
        of Inl e \<Rightarrow> False | Inr a \<Rightarrow> True"
    by code_simp
  then obtain a where
    g: "generateAnalysis example_runtime example_fault
          (js_or (js_prop example_notices ''results'') (JArray [])) True JNull JNull = Inr a"
    by (auto split: sum.splits)
  let ?u = "\<lparr> response = Some \<lparr> status = 401, resp_data = JNull,
                  statusText = ''Unauthorized'' \<rparr>,
                err_message = ''Request failed'' \<rparr>"
  have c4: "\<not> isError (fst (analyze_honeybadger_issue example_runtime example_config
                        best_effort_unauthorized (Num 127320184) (Some (Num 41227)) None))"
    using service_errors_follow_taxonomy[OF example_key, where rt = example_runtime
            and w = best_effort_unauthorized and p = "Some (Num 41227)" and pid = "Num 41227"
            and fault_id = "Num 127320184" and fault = example_fault
            and noticesData = example_notices and err = ?u and err' = ?u
            and include_context = None,
            THEN conjunct2, THEN conjunct2, THEN conjunct2, THEN conjunct2, THEN conjunct2,
            THEN conjunct2] b scope g
    by (simp add: service_status_def default_bool_def)
  show ?thesis
    using c1 c2 c3 c4 b by blast
qed

text \<open>
  The claim's literal for the remaining statuses, \<open>service error: <status> - <message>\<close>,
  is not the text the code produces: a status 500 is reported as
  \<open>Honeybadger API error: 500 - Internal Server Error\<close>.
\<close>

theorem generic_service_error_prefix_counterexample:
  "fst (makeHoneybadgerRequest example_runtime example_config
          (service_always (service_status 500 JNull ''Internal Server Error''))
          ''/projects'' no_options)
     = Inl (Error ''Honeybadger API error: 500 - Internal Server Error'')
   \<and> fst (makeHoneybadgerRequest example_runtime example_config
          (service_always (service_status 500 JNull ''Internal Server Error''))
          ''/projects'' no_options)
     \<noteq> Inl (Error ''service error: 500 - Internal Server Error'')"
  by code_simp

end
